theory Spec2Isabelle
  imports Complex_Main "HOL-Library.Word" "HOL-Library.Sublist"
begin

section \<open>Go values\<close>

text \<open>
  A Go \<^verbatim>\<open>string\<close> is a sequence of bytes, and so is \<^typ>\<open>string\<close>. The Cyrillic texts of
  the source are written out as the bytes of their UTF-8 encoding, each with an English gloss.
  An \<^verbatim>\<open>error\<close> is kept as the text its \<^verbatim>\<open>Error()\<close> method returns, which is all that the
  program ever does with one (\<^verbatim>\<open>%v\<close>); \<^verbatim>\<open>nil\<close> is \<^const>\<open>None\<close>.
\<close>

type_synonym error = string
type_synonym int64 = "64 word"

text \<open>
  What \<^verbatim>\<open>encoding/json\<close> decodes into an \<^verbatim>\<open>interface{}\<close>: \<^verbatim>\<open>nil\<close>, \<^verbatim>\<open>bool\<close>, \<^verbatim>\<open>float64\<close>,
  \<^verbatim>\<open>string\<close>, \<^verbatim>\<open>[]interface{}\<close> and \<^verbatim>\<open>map[string]interface{}\<close>. A map is an association
  list read with \<^const>\<open>map_of\<close>; a key that is absent reads as the \<^verbatim>\<open>nil\<close> interface, like
  \<^verbatim>\<open>null\<close>.
\<close>

datatype json =
    JNull
  | JBool bool
  | JNumber real
  | JString string
  | JArray "json list"
  | JObject "(string \<times> json) list"

type_synonym jmap = "(string \<times> json) list"

text \<open>The two-valued type assertions \<^verbatim>\<open>v, ok := x.(T)\<close>; \<^verbatim>\<open>v\<close> is the zero value when not ok.\<close>

fun assert_list :: "json option \<Rightarrow> json list \<times> bool" where
  "assert_list (Some (JArray xs)) = (xs, True)"
| "assert_list _ = ([], False)"

fun assert_map :: "json option \<Rightarrow> jmap \<times> bool" where
  "assert_map (Some (JObject m)) = (m, True)"
| "assert_map _ = ([], False)"

fun assert_string :: "json option \<Rightarrow> string \<times> bool" where
  "assert_string (Some (JString s)) = (s, True)"
| "assert_string _ = ([], False)"

text \<open>
  The one-valued assertion \<^verbatim>\<open>x.(float64)\<close> panics when \<^verbatim>\<open>x\<close> holds no \<^verbatim>\<open>float64\<close>:
  \<^const>\<open>None\<close> is the panic.
\<close>

fun assert_float64 :: "json option \<Rightarrow> real option" where
  "assert_float64 (Some (JNumber x)) = Some x"
| "assert_float64 _ = None"

text \<open>
  The conversion \<^verbatim>\<open>int64(f)\<close> drops the fraction. Out of the range of \<^verbatim>\<open>int64\<close> Go leaves
  the result to the implementation (it does not panic); the model wraps around there.
\<close>

definition int64_of_float64 :: "real \<Rightarrow> int64" where
  "int64_of_float64 x = word_of_int (if 0 \<le> x then \<lfloor>x\<rfloor> else \<lceil>x\<rceil>)"

section \<open>Constants and texts of the source\<close>

definition Endpoint :: string where
  "Endpoint = ''https://practicum.yandex.ru/api/user_api/homework_statuses/''"

definition ApprovedStatus :: string where
  "ApprovedStatus = ''approved''"

definition ReviewingStatus :: string where
  "ReviewingStatus = ''reviewing''"

definition RejectedStatus :: string where
  "RejectedStatus = ''rejected''"

text \<open>The work is checked: the reviewer liked everything. Hooray!\<close>

definition verdict_approved :: string where
  "verdict_approved = [CHR 0xD0, CHR 0xA0, CHR 0xD0, CHR 0xB0, CHR 0xD0, CHR 0xB1, CHR 0xD0,
     CHR 0xBE, CHR 0xD1, CHR 0x82, CHR 0xD0, CHR 0xB0] @ '' '' @ [CHR 0xD0, CHR 0xBF,
     CHR 0xD1, CHR 0x80, CHR 0xD0, CHR 0xBE, CHR 0xD0, CHR 0xB2, CHR 0xD0, CHR 0xB5,
     CHR 0xD1, CHR 0x80, CHR 0xD0, CHR 0xB5, CHR 0xD0, CHR 0xBD, CHR 0xD0, CHR 0xB0] @
     '': '' @ [CHR 0xD1, CHR 0x80, CHR 0xD0, CHR 0xB5, CHR 0xD0, CHR 0xB2, CHR 0xD1,
     CHR 0x8C, CHR 0xD1, CHR 0x8E, CHR 0xD0, CHR 0xB5, CHR 0xD1, CHR 0x80, CHR 0xD1,
     CHR 0x83] @ '' '' @ [CHR 0xD0, CHR 0xB2, CHR 0xD1, CHR 0x81, CHR 0xD1, CHR 0x91] @
     '' '' @ [CHR 0xD0, CHR 0xBF, CHR 0xD0, CHR 0xBE, CHR 0xD0, CHR 0xBD, CHR 0xD1,
     CHR 0x80, CHR 0xD0, CHR 0xB0, CHR 0xD0, CHR 0xB2, CHR 0xD0, CHR 0xB8, CHR 0xD0,
     CHR 0xBB, CHR 0xD0, CHR 0xBE, CHR 0xD1, CHR 0x81, CHR 0xD1, CHR 0x8C] @ ''. '' @
     [CHR 0xD0, CHR 0xA3, CHR 0xD1, CHR 0x80, CHR 0xD0, CHR 0xB0] @ ''!''"

text \<open>The work was taken for checking by a reviewer.\<close>

definition verdict_reviewing :: string where
  "verdict_reviewing = [CHR 0xD0, CHR 0xA0, CHR 0xD0, CHR 0xB0, CHR 0xD0, CHR 0xB1,
     CHR 0xD0, CHR 0xBE, CHR 0xD1, CHR 0x82, CHR 0xD0, CHR 0xB0] @ '' '' @ [CHR 0xD0,
     CHR 0xB2, CHR 0xD0, CHR 0xB7, CHR 0xD1, CHR 0x8F, CHR 0xD1, CHR 0x82, CHR 0xD0,
     CHR 0xB0] @ '' '' @ [CHR 0xD0, CHR 0xBD, CHR 0xD0, CHR 0xB0] @ '' '' @ [CHR 0xD0,
     CHR 0xBF, CHR 0xD1, CHR 0x80, CHR 0xD0, CHR 0xBE, CHR 0xD0, CHR 0xB2, CHR 0xD0,
     CHR 0xB5, CHR 0xD1, CHR 0x80, CHR 0xD0, CHR 0xBA, CHR 0xD1, CHR 0x83] @ '' '' @
     [CHR 0xD1, CHR 0x80, CHR 0xD0, CHR 0xB5, CHR 0xD0, CHR 0xB2, CHR 0xD1, CHR 0x8C,
     CHR 0xD1, CHR 0x8E, CHR 0xD0, CHR 0xB5, CHR 0xD1, CHR 0x80, CHR 0xD0, CHR 0xBE,
     CHR 0xD0, CHR 0xBC] @ ''.''"

text \<open>The work is checked: the reviewer has remarks.\<close>

definition verdict_rejected :: string where
  "verdict_rejected = [CHR 0xD0, CHR 0xA0, CHR 0xD0, CHR 0xB0, CHR 0xD0, CHR 0xB1, CHR 0xD0,
     CHR 0xBE, CHR 0xD1, CHR 0x82, CHR 0xD0, CHR 0xB0] @ '' '' @ [CHR 0xD0, CHR 0xBF,
     CHR 0xD1, CHR 0x80, CHR 0xD0, CHR 0xBE, CHR 0xD0, CHR 0xB2, CHR 0xD0, CHR 0xB5,
     CHR 0xD1, CHR 0x80, CHR 0xD0, CHR 0xB5, CHR 0xD0, CHR 0xBD, CHR 0xD0, CHR 0xB0] @
     '': '' @ [CHR 0xD1, CHR 0x83] @ '' '' @ [CHR 0xD1, CHR 0x80, CHR 0xD0, CHR 0xB5,
     CHR 0xD0, CHR 0xB2, CHR 0xD1, CHR 0x8C, CHR 0xD1, CHR 0x8E, CHR 0xD0, CHR 0xB5,
     CHR 0xD1, CHR 0x80, CHR 0xD0, CHR 0xB0] @ '' '' @ [CHR 0xD0, CHR 0xB5, CHR 0xD1,
     CHR 0x81, CHR 0xD1, CHR 0x82, CHR 0xD1, CHR 0x8C] @ '' '' @ [CHR 0xD0, CHR 0xB7,
     CHR 0xD0, CHR 0xB0, CHR 0xD0, CHR 0xBC, CHR 0xD0, CHR 0xB5, CHR 0xD1, CHR 0x87,
     CHR 0xD0, CHR 0xB0, CHR 0xD0, CHR 0xBD, CHR 0xD0, CHR 0xB8, CHR 0xD1, CHR 0x8F] @
     ''.''"

text \<open>There are no new work statuses.\<close>

definition no_new_statuses :: string where
  "no_new_statuses = [CHR 0xD0, CHR 0x9D, CHR 0xD0, CHR 0xB5, CHR 0xD1, CHR 0x82] @ '' '' @
     [CHR 0xD0, CHR 0xBD, CHR 0xD0, CHR 0xBE, CHR 0xD0, CHR 0xB2, CHR 0xD1, CHR 0x8B,
     CHR 0xD1, CHR 0x85] @ '' '' @ [CHR 0xD1, CHR 0x81, CHR 0xD1, CHR 0x82, CHR 0xD0,
     CHR 0xB0, CHR 0xD1, CHR 0x82, CHR 0xD1, CHR 0x83, CHR 0xD1, CHR 0x81, CHR 0xD0,
     CHR 0xBE, CHR 0xD0, CHR 0xB2] @ '' '' @ [CHR 0xD1, CHR 0x80, CHR 0xD0, CHR 0xB0,
     CHR 0xD0, CHR 0xB1, CHR 0xD0, CHR 0xBE, CHR 0xD1, CHR 0x82] @ ''.''"

text \<open>The review status of the work <quote> has changed\<close>

definition txt_status_changed :: string where
  "txt_status_changed = [CHR 0xD0, CHR 0x98, CHR 0xD0, CHR 0xB7, CHR 0xD0, CHR 0xBC,
     CHR 0xD0, CHR 0xB5, CHR 0xD0, CHR 0xBD, CHR 0xD0, CHR 0xB8, CHR 0xD0, CHR 0xBB,
     CHR 0xD1, CHR 0x81, CHR 0xD1, CHR 0x8F] @ '' '' @ [CHR 0xD1, CHR 0x81, CHR 0xD1,
     CHR 0x82, CHR 0xD0, CHR 0xB0, CHR 0xD1, CHR 0x82, CHR 0xD1, CHR 0x83, CHR 0xD1,
     CHR 0x81] @ '' '' @ [CHR 0xD0, CHR 0xBF, CHR 0xD1, CHR 0x80, CHR 0xD0, CHR 0xBE,
     CHR 0xD0, CHR 0xB2, CHR 0xD0, CHR 0xB5, CHR 0xD1, CHR 0x80, CHR 0xD0, CHR 0xBA,
     CHR 0xD0, CHR 0xB8] @ '' '' @ [CHR 0xD1, CHR 0x80, CHR 0xD0, CHR 0xB0, CHR 0xD0,
     CHR 0xB1, CHR 0xD0, CHR 0xBE, CHR 0xD1, CHR 0x82, CHR 0xD1, CHR 0x8B] @ '' '' @
     [CHR 0x22]"

definition txt_quote_colon :: string where
  "txt_quote_colon = [CHR 0x22] @ '': ''"

text \<open><quote> for the lesson <quote>\<close>

definition txt_for_lesson :: string where
  "txt_for_lesson = [CHR 0x22] @ '' '' @ [CHR 0xD0, CHR 0xB4, CHR 0xD0, CHR 0xBB, CHR 0xD1,
     CHR 0x8F] @ '' '' @ [CHR 0xD1, CHR 0x83, CHR 0xD1, CHR 0x80, CHR 0xD0, CHR 0xBE,
     CHR 0xD0, CHR 0xBA, CHR 0xD0, CHR 0xB0] @ '' '' @ [CHR 0x22]"

text \<open>newline, then: Reviewer's comment:\<close>

definition txt_reviewer_comment :: string where
  "txt_reviewer_comment = [CHR 0x0A, CHR 0xD0, CHR 0x9A, CHR 0xD0, CHR 0xBE, CHR 0xD0,
     CHR 0xBC, CHR 0xD0, CHR 0xBC, CHR 0xD0, CHR 0xB5, CHR 0xD0, CHR 0xBD, CHR 0xD1,
     CHR 0x82, CHR 0xD0, CHR 0xB0, CHR 0xD1, CHR 0x80, CHR 0xD0, CHR 0xB8, CHR 0xD0,
     CHR 0xB9] @ '' '' @ [CHR 0xD1, CHR 0x80, CHR 0xD0, CHR 0xB5, CHR 0xD0, CHR 0xB2,
     CHR 0xD1, CHR 0x8C, CHR 0xD1, CHR 0x8E, CHR 0xD0, CHR 0xB5, CHR 0xD1, CHR 0x80,
     CHR 0xD0, CHR 0xB0] @ '': ''"

text \<open>Unknown homework status:\<close>

definition txt_unknown_status :: string where
  "txt_unknown_status = [CHR 0xD0, CHR 0x9D, CHR 0xD0, CHR 0xB5, CHR 0xD0, CHR 0xB8,
     CHR 0xD0, CHR 0xB7, CHR 0xD0, CHR 0xB2, CHR 0xD0, CHR 0xB5, CHR 0xD1, CHR 0x81,
     CHR 0xD1, CHR 0x82, CHR 0xD0, CHR 0xBD, CHR 0xD1, CHR 0x8B, CHR 0xD0, CHR 0xB9] @ '' ''
     @ [CHR 0xD1, CHR 0x81, CHR 0xD1, CHR 0x82, CHR 0xD0, CHR 0xB0, CHR 0xD1, CHR 0x82,
     CHR 0xD1, CHR 0x83, CHR 0xD1, CHR 0x81] @ '' '' @ [CHR 0xD0, CHR 0xB4, CHR 0xD0,
     CHR 0xBE, CHR 0xD0, CHR 0xBC, CHR 0xD0, CHR 0xB0, CHR 0xD1, CHR 0x88, CHR 0xD0,
     CHR 0xBD, CHR 0xD0, CHR 0xB5, CHR 0xD0, CHR 0xB9] @ '' '' @ [CHR 0xD1, CHR 0x80,
     CHR 0xD0, CHR 0xB0, CHR 0xD0, CHR 0xB1, CHR 0xD0, CHR 0xBE, CHR 0xD1, CHR 0x82,
     CHR 0xD1, CHR 0x8B] @ '': ''"

text \<open>Error while parsing the homework status:\<close>

definition txt_parse_status_failed :: string where
  "txt_parse_status_failed = [CHR 0xD0, CHR 0x9E, CHR 0xD1, CHR 0x88, CHR 0xD0, CHR 0xB8,
     CHR 0xD0, CHR 0xB1, CHR 0xD0, CHR 0xBA, CHR 0xD0, CHR 0xB0] @ '' '' @ [CHR 0xD0,
     CHR 0xBF, CHR 0xD1, CHR 0x80, CHR 0xD0, CHR 0xB8] @ '' '' @ [CHR 0xD1, CHR 0x80,
     CHR 0xD0, CHR 0xB0, CHR 0xD0, CHR 0xB7, CHR 0xD0, CHR 0xB1, CHR 0xD0, CHR 0xBE,
     CHR 0xD1, CHR 0x80, CHR 0xD0, CHR 0xB5] @ '' '' @ [CHR 0xD1, CHR 0x81, CHR 0xD1,
     CHR 0x82, CHR 0xD0, CHR 0xB0, CHR 0xD1, CHR 0x82, CHR 0xD1, CHR 0x83, CHR 0xD1,
     CHR 0x81, CHR 0xD0, CHR 0xB0] @ '' '' @ [CHR 0xD0, CHR 0xB4, CHR 0xD0, CHR 0xBE,
     CHR 0xD0, CHR 0xBC, CHR 0xD0, CHR 0xB0, CHR 0xD1, CHR 0x88, CHR 0xD0, CHR 0xBD,
     CHR 0xD0, CHR 0xB5, CHR 0xD0, CHR 0xB9] @ '' '' @ [CHR 0xD1, CHR 0x80, CHR 0xD0,
     CHR 0xB0, CHR 0xD0, CHR 0xB1, CHR 0xD0, CHR 0xBE, CHR 0xD1, CHR 0x82, CHR 0xD1,
     CHR 0x8B] @ '': ''"

text \<open>Wrong response format: field 'homeworks' is not a list\<close>

definition err_homeworks_not_list :: string where
  "err_homeworks_not_list = [CHR 0xD0, CHR 0x9D, CHR 0xD0, CHR 0xB5, CHR 0xD0, CHR 0xB2,
     CHR 0xD0, CHR 0xB5, CHR 0xD1, CHR 0x80, CHR 0xD0, CHR 0xBD, CHR 0xD1, CHR 0x8B,
     CHR 0xD0, CHR 0xB9] @ '' '' @ [CHR 0xD1, CHR 0x84, CHR 0xD0, CHR 0xBE, CHR 0xD1,
     CHR 0x80, CHR 0xD0, CHR 0xBC, CHR 0xD0, CHR 0xB0, CHR 0xD1, CHR 0x82] @ '' '' @
     [CHR 0xD0, CHR 0xBE, CHR 0xD1, CHR 0x82, CHR 0xD0, CHR 0xB2, CHR 0xD0, CHR 0xB5,
     CHR 0xD1, CHR 0x82, CHR 0xD0, CHR 0xB0] @ '': '' @ [CHR 0xD0, CHR 0xBF, CHR 0xD0,
     CHR 0xBE, CHR 0xD0, CHR 0xBB, CHR 0xD0, CHR 0xB5] @ '' '' @ [CHR 0x27] @ ''homeworks''
     @ [CHR 0x27] @ '' '' @ [CHR 0xD0, CHR 0xBD, CHR 0xD0, CHR 0xB5] @ '' '' @ [CHR 0xD1,
     CHR 0x8F, CHR 0xD0, CHR 0xB2, CHR 0xD0, CHR 0xBB, CHR 0xD1, CHR 0x8F, CHR 0xD0,
     CHR 0xB5, CHR 0xD1, CHR 0x82, CHR 0xD1, CHR 0x81, CHR 0xD1, CHR 0x8F] @ '' '' @
     [CHR 0xD1, CHR 0x81, CHR 0xD0, CHR 0xBF, CHR 0xD0, CHR 0xB8, CHR 0xD1, CHR 0x81,
     CHR 0xD0, CHR 0xBA, CHR 0xD0, CHR 0xBE, CHR 0xD0, CHR 0xBC]"

text \<open>Wrong response format: element 'homework' is not a dictionary\<close>

definition err_homework_not_dict :: string where
  "err_homework_not_dict = [CHR 0xD0, CHR 0x9D, CHR 0xD0, CHR 0xB5, CHR 0xD0, CHR 0xB2,
     CHR 0xD0, CHR 0xB5, CHR 0xD1, CHR 0x80, CHR 0xD0, CHR 0xBD, CHR 0xD1, CHR 0x8B,
     CHR 0xD0, CHR 0xB9] @ '' '' @ [CHR 0xD1, CHR 0x84, CHR 0xD0, CHR 0xBE, CHR 0xD1,
     CHR 0x80, CHR 0xD0, CHR 0xBC, CHR 0xD0, CHR 0xB0, CHR 0xD1, CHR 0x82] @ '' '' @
     [CHR 0xD0, CHR 0xBE, CHR 0xD1, CHR 0x82, CHR 0xD0, CHR 0xB2, CHR 0xD0, CHR 0xB5,
     CHR 0xD1, CHR 0x82, CHR 0xD0, CHR 0xB0] @ '': '' @ [CHR 0xD1, CHR 0x8D, CHR 0xD0,
     CHR 0xBB, CHR 0xD0, CHR 0xB5, CHR 0xD0, CHR 0xBC, CHR 0xD0, CHR 0xB5, CHR 0xD0,
     CHR 0xBD, CHR 0xD1, CHR 0x82] @ '' '' @ [CHR 0x27] @ ''homework'' @ [CHR 0x27] @ '' ''
     @ [CHR 0xD0, CHR 0xBD, CHR 0xD0, CHR 0xB5] @ '' '' @ [CHR 0xD1, CHR 0x8F, CHR 0xD0,
     CHR 0xB2, CHR 0xD0, CHR 0xBB, CHR 0xD1, CHR 0x8F, CHR 0xD0, CHR 0xB5, CHR 0xD1,
     CHR 0x82, CHR 0xD1, CHR 0x81, CHR 0xD1, CHR 0x8F] @ '' '' @ [CHR 0xD1, CHR 0x81,
     CHR 0xD0, CHR 0xBB, CHR 0xD0, CHR 0xBE, CHR 0xD0, CHR 0xB2, CHR 0xD0, CHR 0xB0,
     CHR 0xD1, CHR 0x80, CHR 0xD0, CHR 0xB5, CHR 0xD0, CHR 0xBC]"

text \<open>Wrong response format: field 'homework_name' is not a string\<close>

definition err_name_not_string :: string where
  "err_name_not_string = [CHR 0xD0, CHR 0x9D, CHR 0xD0, CHR 0xB5, CHR 0xD0, CHR 0xB2,
     CHR 0xD0, CHR 0xB5, CHR 0xD1, CHR 0x80, CHR 0xD0, CHR 0xBD, CHR 0xD1, CHR 0x8B,
     CHR 0xD0, CHR 0xB9] @ '' '' @ [CHR 0xD1, CHR 0x84, CHR 0xD0, CHR 0xBE, CHR 0xD1,
     CHR 0x80, CHR 0xD0, CHR 0xBC, CHR 0xD0, CHR 0xB0, CHR 0xD1, CHR 0x82] @ '' '' @
     [CHR 0xD0, CHR 0xBE, CHR 0xD1, CHR 0x82, CHR 0xD0, CHR 0xB2, CHR 0xD0, CHR 0xB5,
     CHR 0xD1, CHR 0x82, CHR 0xD0, CHR 0xB0] @ '': '' @ [CHR 0xD0, CHR 0xBF, CHR 0xD0,
     CHR 0xBE, CHR 0xD0, CHR 0xBB, CHR 0xD0, CHR 0xB5] @ '' '' @ [CHR 0x27] @
     ''homework_name'' @ [CHR 0x27] @ '' '' @ [CHR 0xD0, CHR 0xBD, CHR 0xD0, CHR 0xB5] @
     '' '' @ [CHR 0xD1, CHR 0x8F, CHR 0xD0, CHR 0xB2, CHR 0xD0, CHR 0xBB, CHR 0xD1,
     CHR 0x8F, CHR 0xD0, CHR 0xB5, CHR 0xD1, CHR 0x82, CHR 0xD1, CHR 0x81, CHR 0xD1,
     CHR 0x8F] @ '' '' @ [CHR 0xD1, CHR 0x81, CHR 0xD1, CHR 0x82, CHR 0xD1, CHR 0x80,
     CHR 0xD0, CHR 0xBE, CHR 0xD0, CHR 0xBA, CHR 0xD0, CHR 0xBE, CHR 0xD0, CHR 0xB9]"

text \<open>Wrong response format: field 'status' is not a string\<close>

definition err_status_not_string :: string where
  "err_status_not_string = [CHR 0xD0, CHR 0x9D, CHR 0xD0, CHR 0xB5, CHR 0xD0, CHR 0xB2,
     CHR 0xD0, CHR 0xB5, CHR 0xD1, CHR 0x80, CHR 0xD0, CHR 0xBD, CHR 0xD1, CHR 0x8B,
     CHR 0xD0, CHR 0xB9] @ '' '' @ [CHR 0xD1, CHR 0x84, CHR 0xD0, CHR 0xBE, CHR 0xD1,
     CHR 0x80, CHR 0xD0, CHR 0xBC, CHR 0xD0, CHR 0xB0, CHR 0xD1, CHR 0x82] @ '' '' @
     [CHR 0xD0, CHR 0xBE, CHR 0xD1, CHR 0x82, CHR 0xD0, CHR 0xB2, CHR 0xD0, CHR 0xB5,
     CHR 0xD1, CHR 0x82, CHR 0xD0, CHR 0xB0] @ '': '' @ [CHR 0xD0, CHR 0xBF, CHR 0xD0,
     CHR 0xBE, CHR 0xD0, CHR 0xBB, CHR 0xD0, CHR 0xB5] @ '' '' @ [CHR 0x27] @ ''status'' @
     [CHR 0x27] @ '' '' @ [CHR 0xD0, CHR 0xBD, CHR 0xD0, CHR 0xB5] @ '' '' @ [CHR 0xD1,
     CHR 0x8F, CHR 0xD0, CHR 0xB2, CHR 0xD0, CHR 0xBB, CHR 0xD1, CHR 0x8F, CHR 0xD0,
     CHR 0xB5, CHR 0xD1, CHR 0x82, CHR 0xD1, CHR 0x81, CHR 0xD1, CHR 0x8F] @ '' '' @
     [CHR 0xD1, CHR 0x81, CHR 0xD1, CHR 0x82, CHR 0xD1, CHR 0x80, CHR 0xD0, CHR 0xBE,
     CHR 0xD0, CHR 0xBA, CHR 0xD0, CHR 0xBE, CHR 0xD0, CHR 0xB9]"

text \<open>the same four texts in lower case, as src/unnamed/part_000 has them\<close>

definition err_homeworks_not_list_p0 :: string where
  "err_homeworks_not_list_p0 = [CHR 0xD0, CHR 0xBD, CHR 0xD0, CHR 0xB5, CHR 0xD0, CHR 0xB2,
     CHR 0xD0, CHR 0xB5, CHR 0xD1, CHR 0x80, CHR 0xD0, CHR 0xBD, CHR 0xD1, CHR 0x8B,
     CHR 0xD0, CHR 0xB9] @ '' '' @ [CHR 0xD1, CHR 0x84, CHR 0xD0, CHR 0xBE, CHR 0xD1,
     CHR 0x80, CHR 0xD0, CHR 0xBC, CHR 0xD0, CHR 0xB0, CHR 0xD1, CHR 0x82] @ '' '' @
     [CHR 0xD0, CHR 0xBE, CHR 0xD1, CHR 0x82, CHR 0xD0, CHR 0xB2, CHR 0xD0, CHR 0xB5,
     CHR 0xD1, CHR 0x82, CHR 0xD0, CHR 0xB0] @ '': '' @ [CHR 0xD0, CHR 0xBF, CHR 0xD0,
     CHR 0xBE, CHR 0xD0, CHR 0xBB, CHR 0xD0, CHR 0xB5] @ '' '' @ [CHR 0x27] @ ''homeworks''
     @ [CHR 0x27] @ '' '' @ [CHR 0xD0, CHR 0xBD, CHR 0xD0, CHR 0xB5] @ '' '' @ [CHR 0xD1,
     CHR 0x8F, CHR 0xD0, CHR 0xB2, CHR 0xD0, CHR 0xBB, CHR 0xD1, CHR 0x8F, CHR 0xD0,
     CHR 0xB5, CHR 0xD1, CHR 0x82, CHR 0xD1, CHR 0x81, CHR 0xD1, CHR 0x8F] @ '' '' @
     [CHR 0xD1, CHR 0x81, CHR 0xD0, CHR 0xBF, CHR 0xD0, CHR 0xB8, CHR 0xD1, CHR 0x81,
     CHR 0xD0, CHR 0xBA, CHR 0xD0, CHR 0xBE, CHR 0xD0, CHR 0xBC]"

definition err_homework_not_dict_p0 :: string where
  "err_homework_not_dict_p0 = [CHR 0xD0, CHR 0xBD, CHR 0xD0, CHR 0xB5, CHR 0xD0, CHR 0xB2,
     CHR 0xD0, CHR 0xB5, CHR 0xD1, CHR 0x80, CHR 0xD0, CHR 0xBD, CHR 0xD1, CHR 0x8B,
     CHR 0xD0, CHR 0xB9] @ '' '' @ [CHR 0xD1, CHR 0x84, CHR 0xD0, CHR 0xBE, CHR 0xD1,
     CHR 0x80, CHR 0xD0, CHR 0xBC, CHR 0xD0, CHR 0xB0, CHR 0xD1, CHR 0x82] @ '' '' @
     [CHR 0xD0, CHR 0xBE, CHR 0xD1, CHR 0x82, CHR 0xD0, CHR 0xB2, CHR 0xD0, CHR 0xB5,
     CHR 0xD1, CHR 0x82, CHR 0xD0, CHR 0xB0] @ '': '' @ [CHR 0xD1, CHR 0x8D, CHR 0xD0,
     CHR 0xBB, CHR 0xD0, CHR 0xB5, CHR 0xD0, CHR 0xBC, CHR 0xD0, CHR 0xB5, CHR 0xD0,
     CHR 0xBD, CHR 0xD1, CHR 0x82] @ '' '' @ [CHR 0x27] @ ''homework'' @ [CHR 0x27] @ '' ''
     @ [CHR 0xD0, CHR 0xBD, CHR 0xD0, CHR 0xB5] @ '' '' @ [CHR 0xD1, CHR 0x8F, CHR 0xD0,
     CHR 0xB2, CHR 0xD0, CHR 0xBB, CHR 0xD1, CHR 0x8F, CHR 0xD0, CHR 0xB5, CHR 0xD1,
     CHR 0x82, CHR 0xD1, CHR 0x81, CHR 0xD1, CHR 0x8F] @ '' '' @ [CHR 0xD1, CHR 0x81,
     CHR 0xD0, CHR 0xBB, CHR 0xD0, CHR 0xBE, CHR 0xD0, CHR 0xB2, CHR 0xD0, CHR 0xB0,
     CHR 0xD1, CHR 0x80, CHR 0xD0, CHR 0xB5, CHR 0xD0, CHR 0xBC]"

definition err_name_not_string_p0 :: string where
  "err_name_not_string_p0 = [CHR 0xD0, CHR 0xBD, CHR 0xD0, CHR 0xB5, CHR 0xD0, CHR 0xB2,
     CHR 0xD0, CHR 0xB5, CHR 0xD1, CHR 0x80, CHR 0xD0, CHR 0xBD, CHR 0xD1, CHR 0x8B,
     CHR 0xD0, CHR 0xB9] @ '' '' @ [CHR 0xD1, CHR 0x84, CHR 0xD0, CHR 0xBE, CHR 0xD1,
     CHR 0x80, CHR 0xD0, CHR 0xBC, CHR 0xD0, CHR 0xB0, CHR 0xD1, CHR 0x82] @ '' '' @
     [CHR 0xD0, CHR 0xBE, CHR 0xD1, CHR 0x82, CHR 0xD0, CHR 0xB2, CHR 0xD0, CHR 0xB5,
     CHR 0xD1, CHR 0x82, CHR 0xD0, CHR 0xB0] @ '': '' @ [CHR 0xD0, CHR 0xBF, CHR 0xD0,
     CHR 0xBE, CHR 0xD0, CHR 0xBB, CHR 0xD0, CHR 0xB5] @ '' '' @ [CHR 0x27] @
     ''homework_name'' @ [CHR 0x27] @ '' '' @ [CHR 0xD0, CHR 0xBD, CHR 0xD0, CHR 0xB5] @
     '' '' @ [CHR 0xD1, CHR 0x8F, CHR 0xD0, CHR 0xB2, CHR 0xD0, CHR 0xBB, CHR 0xD1,
     CHR 0x8F, CHR 0xD0, CHR 0xB5, CHR 0xD1, CHR 0x82, CHR 0xD1, CHR 0x81, CHR 0xD1,
     CHR 0x8F] @ '' '' @ [CHR 0xD1, CHR 0x81, CHR 0xD1, CHR 0x82, CHR 0xD1, CHR 0x80,
     CHR 0xD0, CHR 0xBE, CHR 0xD0, CHR 0xBA, CHR 0xD0, CHR 0xBE, CHR 0xD0, CHR 0xB9]"

definition err_status_not_string_p0 :: string where
  "err_status_not_string_p0 = [CHR 0xD0, CHR 0xBD, CHR 0xD0, CHR 0xB5, CHR 0xD0, CHR 0xB2,
     CHR 0xD0, CHR 0xB5, CHR 0xD1, CHR 0x80, CHR 0xD0, CHR 0xBD, CHR 0xD1, CHR 0x8B,
     CHR 0xD0, CHR 0xB9] @ '' '' @ [CHR 0xD1, CHR 0x84, CHR 0xD0, CHR 0xBE, CHR 0xD1,
     CHR 0x80, CHR 0xD0, CHR 0xBC, CHR 0xD0, CHR 0xB0, CHR 0xD1, CHR 0x82] @ '' '' @
     [CHR 0xD0, CHR 0xBE, CHR 0xD1, CHR 0x82, CHR 0xD0, CHR 0xB2, CHR 0xD0, CHR 0xB5,
     CHR 0xD1, CHR 0x82, CHR 0xD0, CHR 0xB0] @ '': '' @ [CHR 0xD0, CHR 0xBF, CHR 0xD0,
     CHR 0xBE, CHR 0xD0, CHR 0xBB, CHR 0xD0, CHR 0xB5] @ '' '' @ [CHR 0x27] @ ''status'' @
     [CHR 0x27] @ '' '' @ [CHR 0xD0, CHR 0xBD, CHR 0xD0, CHR 0xB5] @ '' '' @ [CHR 0xD1,
     CHR 0x8F, CHR 0xD0, CHR 0xB2, CHR 0xD0, CHR 0xBB, CHR 0xD1, CHR 0x8F, CHR 0xD0,
     CHR 0xB5, CHR 0xD1, CHR 0x82, CHR 0xD1, CHR 0x81, CHR 0xD1, CHR 0x8F] @ '' '' @
     [CHR 0xD1, CHR 0x81, CHR 0xD1, CHR 0x82, CHR 0xD1, CHR 0x80, CHR 0xD0, CHR 0xBE,
     CHR 0xD0, CHR 0xBA, CHR 0xD0, CHR 0xBE, CHR 0xD0, CHR 0xB9]"

text \<open>Error while performing the API request:\<close>

definition txt_request_failed :: string where
  "txt_request_failed = [CHR 0xD0, CHR 0x9E, CHR 0xD1, CHR 0x88, CHR 0xD0, CHR 0xB8,
     CHR 0xD0, CHR 0xB1, CHR 0xD0, CHR 0xBA, CHR 0xD0, CHR 0xB0] @ '' '' @ [CHR 0xD0,
     CHR 0xBF, CHR 0xD1, CHR 0x80, CHR 0xD0, CHR 0xB8] @ '' '' @ [CHR 0xD0, CHR 0xB2,
     CHR 0xD1, CHR 0x8B, CHR 0xD0, CHR 0xBF, CHR 0xD0, CHR 0xBE, CHR 0xD0, CHR 0xBB,
     CHR 0xD0, CHR 0xBD, CHR 0xD0, CHR 0xB5, CHR 0xD0, CHR 0xBD, CHR 0xD0, CHR 0xB8,
     CHR 0xD0, CHR 0xB8] @ '' '' @ [CHR 0xD0, CHR 0xB7, CHR 0xD0, CHR 0xB0, CHR 0xD0,
     CHR 0xBF, CHR 0xD1, CHR 0x80, CHR 0xD0, CHR 0xBE, CHR 0xD1, CHR 0x81, CHR 0xD0,
     CHR 0xB0] @ '' '' @ [CHR 0xD0, CHR 0xBA] @ '' API: ''"

text \<open>Error while closing the response body:\<close>

definition txt_close_failed :: string where
  "txt_close_failed = [CHR 0xD0, CHR 0x9E, CHR 0xD1, CHR 0x88, CHR 0xD0, CHR 0xB8, CHR 0xD0,
     CHR 0xB1, CHR 0xD0, CHR 0xBA, CHR 0xD0, CHR 0xB0] @ '' '' @ [CHR 0xD0, CHR 0xBF,
     CHR 0xD1, CHR 0x80, CHR 0xD0, CHR 0xB8] @ '' '' @ [CHR 0xD0, CHR 0xB7, CHR 0xD0,
     CHR 0xB0, CHR 0xD0, CHR 0xBA, CHR 0xD1, CHR 0x80, CHR 0xD1, CHR 0x8B, CHR 0xD1,
     CHR 0x82, CHR 0xD0, CHR 0xB8, CHR 0xD0, CHR 0xB8] @ '' '' @ [CHR 0xD1, CHR 0x82,
     CHR 0xD0, CHR 0xB5, CHR 0xD0, CHR 0xBB, CHR 0xD0, CHR 0xB0] @ '' '' @ [CHR 0xD0,
     CHR 0xBE, CHR 0xD1, CHR 0x82, CHR 0xD0, CHR 0xB2, CHR 0xD0, CHR 0xB5, CHR 0xD1,
     CHR 0x82, CHR 0xD0, CHR 0xB0] @ '': ''"

text \<open>The API request finished with status code:\<close>

definition txt_status_code :: string where
  "txt_status_code = [CHR 0xD0, CHR 0x97, CHR 0xD0, CHR 0xB0, CHR 0xD0, CHR 0xBF, CHR 0xD1,
     CHR 0x80, CHR 0xD0, CHR 0xBE, CHR 0xD1, CHR 0x81] @ '' '' @ [CHR 0xD0, CHR 0xBA] @
     '' API '' @ [CHR 0xD0, CHR 0xB7, CHR 0xD0, CHR 0xB0, CHR 0xD0, CHR 0xB2, CHR 0xD0,
     CHR 0xB5, CHR 0xD1, CHR 0x80, CHR 0xD1, CHR 0x88, CHR 0xD0, CHR 0xB8, CHR 0xD0,
     CHR 0xBB, CHR 0xD1, CHR 0x81, CHR 0xD1, CHR 0x8F] @ '' '' @ [CHR 0xD1, CHR 0x81] @
     '' '' @ [CHR 0xD0, CHR 0xBA, CHR 0xD0, CHR 0xBE, CHR 0xD0, CHR 0xB4, CHR 0xD0,
     CHR 0xBE, CHR 0xD0, CHR 0xBC] @ '' '' @ [CHR 0xD1, CHR 0x81, CHR 0xD1, CHR 0x82,
     CHR 0xD0, CHR 0xB0, CHR 0xD1, CHR 0x82, CHR 0xD1, CHR 0x83, CHR 0xD1, CHR 0x81,
     CHR 0xD0, CHR 0xB0] @ '': ''"

text \<open>the same in lower case (the error text of src/unnamed/part_000)\<close>

definition txt_status_code_p0 :: string where
  "txt_status_code_p0 = [CHR 0xD0, CHR 0xB7, CHR 0xD0, CHR 0xB0, CHR 0xD0, CHR 0xBF,
     CHR 0xD1, CHR 0x80, CHR 0xD0, CHR 0xBE, CHR 0xD1, CHR 0x81] @ '' '' @ [CHR 0xD0,
     CHR 0xBA] @ '' API '' @ [CHR 0xD0, CHR 0xB7, CHR 0xD0, CHR 0xB0, CHR 0xD0, CHR 0xB2,
     CHR 0xD0, CHR 0xB5, CHR 0xD1, CHR 0x80, CHR 0xD1, CHR 0x88, CHR 0xD0, CHR 0xB8,
     CHR 0xD0, CHR 0xBB, CHR 0xD1, CHR 0x81, CHR 0xD1, CHR 0x8F] @ '' '' @ [CHR 0xD1,
     CHR 0x81] @ '' '' @ [CHR 0xD0, CHR 0xBA, CHR 0xD0, CHR 0xBE, CHR 0xD0, CHR 0xB4,
     CHR 0xD0, CHR 0xBE, CHR 0xD0, CHR 0xBC] @ '' '' @ [CHR 0xD1, CHR 0x81, CHR 0xD1,
     CHR 0x82, CHR 0xD0, CHR 0xB0, CHR 0xD1, CHR 0x82, CHR 0xD1, CHR 0x83, CHR 0xD1,
     CHR 0x81, CHR 0xD0, CHR 0xB0] @ '': ''"

text \<open>Error while decoding the API response:\<close>

definition txt_decode_failed :: string where
  "txt_decode_failed = [CHR 0xD0, CHR 0x9E, CHR 0xD1, CHR 0x88, CHR 0xD0, CHR 0xB8,
     CHR 0xD0, CHR 0xB1, CHR 0xD0, CHR 0xBA, CHR 0xD0, CHR 0xB0] @ '' '' @ [CHR 0xD0,
     CHR 0xBF, CHR 0xD1, CHR 0x80, CHR 0xD0, CHR 0xB8] @ '' '' @ [CHR 0xD0, CHR 0xB4,
     CHR 0xD0, CHR 0xB5, CHR 0xD0, CHR 0xBA, CHR 0xD0, CHR 0xBE, CHR 0xD0, CHR 0xB4,
     CHR 0xD0, CHR 0xB8, CHR 0xD1, CHR 0x80, CHR 0xD0, CHR 0xBE, CHR 0xD0, CHR 0xB2,
     CHR 0xD0, CHR 0xB0, CHR 0xD0, CHR 0xBD, CHR 0xD0, CHR 0xB8, CHR 0xD0, CHR 0xB8] @ '' ''
     @ [CHR 0xD0, CHR 0xBE, CHR 0xD1, CHR 0x82, CHR 0xD0, CHR 0xB2, CHR 0xD0, CHR 0xB5,
     CHR 0xD1, CHR 0x82, CHR 0xD0, CHR 0xB0] @ '' '' @ [CHR 0xD0, CHR 0xBE, CHR 0xD1,
     CHR 0x82] @ '' API: ''"

text \<open>API response received successfully\<close>

definition txt_api_ok :: string where
  "txt_api_ok = [CHR 0xD0, CHR 0xA3, CHR 0xD1, CHR 0x81, CHR 0xD0, CHR 0xBF, CHR 0xD0,
     CHR 0xB5, CHR 0xD1, CHR 0x88, CHR 0xD0, CHR 0xBD, CHR 0xD0, CHR 0xBE] @ '' '' @
     [CHR 0xD0, CHR 0xBF, CHR 0xD0, CHR 0xBE, CHR 0xD0, CHR 0xBB, CHR 0xD1, CHR 0x83,
     CHR 0xD1, CHR 0x87, CHR 0xD0, CHR 0xB5, CHR 0xD0, CHR 0xBD] @ '' '' @ [CHR 0xD0,
     CHR 0xBE, CHR 0xD1, CHR 0x82, CHR 0xD0, CHR 0xB2, CHR 0xD0, CHR 0xB5, CHR 0xD1,
     CHR 0x82] @ '' '' @ [CHR 0xD0, CHR 0xBE, CHR 0xD1, CHR 0x82] @ '' API''"

text \<open>Hello! I am a bot that tracks the review status of homeworks.\<close>

definition txt_greeting :: string where
  "txt_greeting = [CHR 0xD0, CHR 0x9F, CHR 0xD1, CHR 0x80, CHR 0xD0, CHR 0xB8, CHR 0xD0,
     CHR 0xB2, CHR 0xD0, CHR 0xB5, CHR 0xD1, CHR 0x82] @ ''! '' @ [CHR 0xD0, CHR 0xAF] @
     '' '' @ [CHR 0xD0, CHR 0xB1, CHR 0xD0, CHR 0xBE, CHR 0xD1, CHR 0x82] @ '', '' @
     [CHR 0xD0, CHR 0xBA, CHR 0xD0, CHR 0xBE, CHR 0xD1, CHR 0x82, CHR 0xD0, CHR 0xBE,
     CHR 0xD1, CHR 0x80, CHR 0xD1, CHR 0x8B, CHR 0xD0, CHR 0xB9] @ '' '' @ [CHR 0xD0,
     CHR 0xBE, CHR 0xD1, CHR 0x82, CHR 0xD1, CHR 0x81, CHR 0xD0, CHR 0xBB, CHR 0xD0,
     CHR 0xB5, CHR 0xD0, CHR 0xB6, CHR 0xD0, CHR 0xB8, CHR 0xD0, CHR 0xB2, CHR 0xD0,
     CHR 0xB0, CHR 0xD0, CHR 0xB5, CHR 0xD1, CHR 0x82] @ '' '' @ [CHR 0xD1, CHR 0x81,
     CHR 0xD1, CHR 0x82, CHR 0xD0, CHR 0xB0, CHR 0xD1, CHR 0x82, CHR 0xD1, CHR 0x83,
     CHR 0xD1, CHR 0x81] @ '' '' @ [CHR 0xD0, CHR 0xBF, CHR 0xD1, CHR 0x80, CHR 0xD0,
     CHR 0xBE, CHR 0xD0, CHR 0xB2, CHR 0xD0, CHR 0xB5, CHR 0xD1, CHR 0x80, CHR 0xD0,
     CHR 0xBA, CHR 0xD0, CHR 0xB8] @ '' '' @ [CHR 0xD0, CHR 0xB4, CHR 0xD0, CHR 0xBE,
     CHR 0xD0, CHR 0xBC, CHR 0xD0, CHR 0xB0, CHR 0xD1, CHR 0x88, CHR 0xD0, CHR 0xBD,
     CHR 0xD0, CHR 0xB8, CHR 0xD1, CHR 0x85] @ '' '' @ [CHR 0xD1, CHR 0x80, CHR 0xD0,
     CHR 0xB0, CHR 0xD0, CHR 0xB1, CHR 0xD0, CHR 0xBE, CHR 0xD1, CHR 0x82] @ ''.''"

text \<open>Received command /start from the user with ID\<close>

definition txt_start_from :: string where
  "txt_start_from = [CHR 0xD0, CHR 0x9F, CHR 0xD0, CHR 0xBE, CHR 0xD0, CHR 0xBB, CHR 0xD1,
     CHR 0x83, CHR 0xD1, CHR 0x87, CHR 0xD0, CHR 0xB5, CHR 0xD0, CHR 0xBD, CHR 0xD0,
     CHR 0xB0] @ '' '' @ [CHR 0xD0, CHR 0xBA, CHR 0xD0, CHR 0xBE, CHR 0xD0, CHR 0xBC,
     CHR 0xD0, CHR 0xB0, CHR 0xD0, CHR 0xBD, CHR 0xD0, CHR 0xB4, CHR 0xD0, CHR 0xB0] @
     '' /start '' @ [CHR 0xD0, CHR 0xBE, CHR 0xD1, CHR 0x82] @ '' '' @ [CHR 0xD0, CHR 0xBF,
     CHR 0xD0, CHR 0xBE, CHR 0xD0, CHR 0xBB, CHR 0xD1, CHR 0x8C, CHR 0xD0, CHR 0xB7,
     CHR 0xD0, CHR 0xBE, CHR 0xD0, CHR 0xB2, CHR 0xD0, CHR 0xB0, CHR 0xD1, CHR 0x82,
     CHR 0xD0, CHR 0xB5, CHR 0xD0, CHR 0xBB, CHR 0xD1, CHR 0x8F] @ '' '' @ [CHR 0xD1,
     CHR 0x81] @ '' ID ''"

text \<open>Received command /status from the user with ID\<close>

definition txt_status_from :: string where
  "txt_status_from = [CHR 0xD0, CHR 0x9F, CHR 0xD0, CHR 0xBE, CHR 0xD0, CHR 0xBB, CHR 0xD1,
     CHR 0x83, CHR 0xD1, CHR 0x87, CHR 0xD0, CHR 0xB5, CHR 0xD0, CHR 0xBD, CHR 0xD0,
     CHR 0xB0] @ '' '' @ [CHR 0xD0, CHR 0xBA, CHR 0xD0, CHR 0xBE, CHR 0xD0, CHR 0xBC,
     CHR 0xD0, CHR 0xB0, CHR 0xD0, CHR 0xBD, CHR 0xD0, CHR 0xB4, CHR 0xD0, CHR 0xB0] @
     '' /status '' @ [CHR 0xD0, CHR 0xBE, CHR 0xD1, CHR 0x82] @ '' '' @ [CHR 0xD0, CHR 0xBF,
     CHR 0xD0, CHR 0xBE, CHR 0xD0, CHR 0xBB, CHR 0xD1, CHR 0x8C, CHR 0xD0, CHR 0xB7,
     CHR 0xD0, CHR 0xBE, CHR 0xD0, CHR 0xB2, CHR 0xD0, CHR 0xB0, CHR 0xD1, CHR 0x82,
     CHR 0xD0, CHR 0xB5, CHR 0xD0, CHR 0xBB, CHR 0xD1, CHR 0x8F] @ '' '' @ [CHR 0xD1,
     CHR 0x81] @ '' ID ''"

text \<open>Could not get an answer from the API:\<close>

definition txt_no_api_answer :: string where
  "txt_no_api_answer = [CHR 0xD0, CHR 0x9D, CHR 0xD0, CHR 0xB5] @ '' '' @ [CHR 0xD1,
     CHR 0x83, CHR 0xD0, CHR 0xB4, CHR 0xD0, CHR 0xB0, CHR 0xD0, CHR 0xBB, CHR 0xD0,
     CHR 0xBE, CHR 0xD1, CHR 0x81, CHR 0xD1, CHR 0x8C] @ '' '' @ [CHR 0xD0, CHR 0xBF,
     CHR 0xD0, CHR 0xBE, CHR 0xD0, CHR 0xBB, CHR 0xD1, CHR 0x83, CHR 0xD1, CHR 0x87,
     CHR 0xD0, CHR 0xB8, CHR 0xD1, CHR 0x82, CHR 0xD1, CHR 0x8C] @ '' '' @ [CHR 0xD0,
     CHR 0xBE, CHR 0xD1, CHR 0x82, CHR 0xD0, CHR 0xB2, CHR 0xD0, CHR 0xB5, CHR 0xD1,
     CHR 0x82] @ '' '' @ [CHR 0xD0, CHR 0xBE, CHR 0xD1, CHR 0x82] @ '' API: ''"

text \<open>Could not get the status of the homeworks.\<close>

definition txt_no_status :: string where
  "txt_no_status = [CHR 0xD0, CHR 0x9D, CHR 0xD0, CHR 0xB5] @ '' '' @ [CHR 0xD1, CHR 0x83,
     CHR 0xD0, CHR 0xB4, CHR 0xD0, CHR 0xB0, CHR 0xD0, CHR 0xBB, CHR 0xD0, CHR 0xBE,
     CHR 0xD1, CHR 0x81, CHR 0xD1, CHR 0x8C] @ '' '' @ [CHR 0xD0, CHR 0xBF, CHR 0xD0,
     CHR 0xBE, CHR 0xD0, CHR 0xBB, CHR 0xD1, CHR 0x83, CHR 0xD1, CHR 0x87, CHR 0xD0,
     CHR 0xB8, CHR 0xD1, CHR 0x82, CHR 0xD1, CHR 0x8C] @ '' '' @ [CHR 0xD1, CHR 0x81,
     CHR 0xD1, CHR 0x82, CHR 0xD0, CHR 0xB0, CHR 0xD1, CHR 0x82, CHR 0xD1, CHR 0x83,
     CHR 0xD1, CHR 0x81] @ '' '' @ [CHR 0xD0, CHR 0xB4, CHR 0xD0, CHR 0xBE, CHR 0xD0,
     CHR 0xBC, CHR 0xD0, CHR 0xB0, CHR 0xD1, CHR 0x88, CHR 0xD0, CHR 0xBD, CHR 0xD0,
     CHR 0xB8, CHR 0xD1, CHR 0x85] @ '' '' @ [CHR 0xD1, CHR 0x80, CHR 0xD0, CHR 0xB0,
     CHR 0xD0, CHR 0xB1, CHR 0xD0, CHR 0xBE, CHR 0xD1, CHR 0x82] @ ''.''"

text \<open>Wrong answer from the API:\<close>

definition txt_bad_api_answer :: string where
  "txt_bad_api_answer = [CHR 0xD0, CHR 0x9D, CHR 0xD0, CHR 0xB5, CHR 0xD0, CHR 0xB2,
     CHR 0xD0, CHR 0xB5, CHR 0xD1, CHR 0x80, CHR 0xD0, CHR 0xBD, CHR 0xD1, CHR 0x8B,
     CHR 0xD0, CHR 0xB9] @ '' '' @ [CHR 0xD0, CHR 0xBE, CHR 0xD1, CHR 0x82, CHR 0xD0,
     CHR 0xB2, CHR 0xD0, CHR 0xB5, CHR 0xD1, CHR 0x82] @ '' '' @ [CHR 0xD0, CHR 0xBE,
     CHR 0xD1, CHR 0x82] @ '' API: ''"

text \<open>Result of the API request:\<close>

definition txt_api_result :: string where
  "txt_api_result = [CHR 0xD0, CHR 0xA0, CHR 0xD0, CHR 0xB5, CHR 0xD0, CHR 0xB7, CHR 0xD1,
     CHR 0x83, CHR 0xD0, CHR 0xBB, CHR 0xD1, CHR 0x8C, CHR 0xD1, CHR 0x82, CHR 0xD0,
     CHR 0xB0, CHR 0xD1, CHR 0x82] @ '' '' @ [CHR 0xD0, CHR 0xB7, CHR 0xD0, CHR 0xB0,
     CHR 0xD0, CHR 0xBF, CHR 0xD1, CHR 0x80, CHR 0xD0, CHR 0xBE, CHR 0xD1, CHR 0x81,
     CHR 0xD0, CHR 0xB0] @ '' '' @ [CHR 0xD0, CHR 0xBA] @ '' API: ''"

text \<open>Error while sending the message:\<close>

definition txt_send_failed :: string where
  "txt_send_failed = [CHR 0xD0, CHR 0x9E, CHR 0xD1, CHR 0x88, CHR 0xD0, CHR 0xB8, CHR 0xD0,
     CHR 0xB1, CHR 0xD0, CHR 0xBA, CHR 0xD0, CHR 0xB0] @ '' '' @ [CHR 0xD0, CHR 0xBF,
     CHR 0xD1, CHR 0x80, CHR 0xD0, CHR 0xB8] @ '' '' @ [CHR 0xD0, CHR 0xBE, CHR 0xD1,
     CHR 0x82, CHR 0xD0, CHR 0xBF, CHR 0xD1, CHR 0x80, CHR 0xD0, CHR 0xB0, CHR 0xD0,
     CHR 0xB2, CHR 0xD0, CHR 0xBA, CHR 0xD0, CHR 0xB5] @ '' '' @ [CHR 0xD1, CHR 0x81,
     CHR 0xD0, CHR 0xBE, CHR 0xD0, CHR 0xBE, CHR 0xD0, CHR 0xB1, CHR 0xD1, CHR 0x89,
     CHR 0xD0, CHR 0xB5, CHR 0xD0, CHR 0xBD, CHR 0xD0, CHR 0xB8, CHR 0xD1, CHR 0x8F] @
     '': ''"

text \<open>Error while converting TelegramChatID to int64:\<close>

definition txt_chat_id_failed :: string where
  "txt_chat_id_failed = [CHR 0xD0, CHR 0x9E, CHR 0xD1, CHR 0x88, CHR 0xD0, CHR 0xB8,
     CHR 0xD0, CHR 0xB1, CHR 0xD0, CHR 0xBA, CHR 0xD0, CHR 0xB0] @ '' '' @ [CHR 0xD0,
     CHR 0xBF, CHR 0xD1, CHR 0x80, CHR 0xD0, CHR 0xB8] @ '' '' @ [CHR 0xD0, CHR 0xBF,
     CHR 0xD1, CHR 0x80, CHR 0xD0, CHR 0xB5, CHR 0xD0, CHR 0xBE, CHR 0xD0, CHR 0xB1,
     CHR 0xD1, CHR 0x80, CHR 0xD0, CHR 0xB0, CHR 0xD0, CHR 0xB7, CHR 0xD0, CHR 0xBE,
     CHR 0xD0, CHR 0xB2, CHR 0xD0, CHR 0xB0, CHR 0xD0, CHR 0xBD, CHR 0xD0, CHR 0xB8,
     CHR 0xD0, CHR 0xB8] @ '' TelegramChatID '' @ [CHR 0xD0, CHR 0xB2] @ '' int64: ''"

text \<open>Error while sending the message to Telegram:\<close>

definition txt_send_failed_tg :: string where
  "txt_send_failed_tg = [CHR 0xD0, CHR 0x9E, CHR 0xD1, CHR 0x88, CHR 0xD0, CHR 0xB8,
     CHR 0xD0, CHR 0xB1, CHR 0xD0, CHR 0xBA, CHR 0xD0, CHR 0xB0] @ '' '' @ [CHR 0xD0,
     CHR 0xBF, CHR 0xD1, CHR 0x80, CHR 0xD0, CHR 0xB8] @ '' '' @ [CHR 0xD0, CHR 0xBE,
     CHR 0xD1, CHR 0x82, CHR 0xD0, CHR 0xBF, CHR 0xD1, CHR 0x80, CHR 0xD0, CHR 0xB0,
     CHR 0xD0, CHR 0xB2, CHR 0xD0, CHR 0xBA, CHR 0xD0, CHR 0xB5] @ '' '' @ [CHR 0xD1,
     CHR 0x81, CHR 0xD0, CHR 0xBE, CHR 0xD0, CHR 0xBE, CHR 0xD0, CHR 0xB1, CHR 0xD1,
     CHR 0x89, CHR 0xD0, CHR 0xB5, CHR 0xD0, CHR 0xBD, CHR 0xD0, CHR 0xB8, CHR 0xD1,
     CHR 0x8F] @ '' '' @ [CHR 0xD0, CHR 0xB2] @ '' Telegram: ''"

text \<open>Message sent to Telegram:\<close>

definition txt_sent_tg :: string where
  "txt_sent_tg = [CHR 0xD0, CHR 0xA1, CHR 0xD0, CHR 0xBE, CHR 0xD0, CHR 0xBE, CHR 0xD0,
     CHR 0xB1, CHR 0xD1, CHR 0x89, CHR 0xD0, CHR 0xB5, CHR 0xD0, CHR 0xBD, CHR 0xD0,
     CHR 0xB8, CHR 0xD0, CHR 0xB5] @ '' '' @ [CHR 0xD0, CHR 0xBE, CHR 0xD1, CHR 0x82,
     CHR 0xD0, CHR 0xBF, CHR 0xD1, CHR 0x80, CHR 0xD0, CHR 0xB0, CHR 0xD0, CHR 0xB2,
     CHR 0xD0, CHR 0xBB, CHR 0xD0, CHR 0xB5, CHR 0xD0, CHR 0xBD, CHR 0xD0, CHR 0xBE] @ '' ''
     @ [CHR 0xD0, CHR 0xB2] @ '' Telegram: ''"

text \<open>The request to the Telegram API finished with status code:\<close>

definition txt_tg_status_code :: string where
  "txt_tg_status_code = [CHR 0xD0, CHR 0x97, CHR 0xD0, CHR 0xB0, CHR 0xD0, CHR 0xBF,
     CHR 0xD1, CHR 0x80, CHR 0xD0, CHR 0xBE, CHR 0xD1, CHR 0x81] @ '' '' @ [CHR 0xD0,
     CHR 0xB2] @ '' API Telegram '' @ [CHR 0xD0, CHR 0xB7, CHR 0xD0, CHR 0xB0, CHR 0xD0,
     CHR 0xB2, CHR 0xD0, CHR 0xB5, CHR 0xD1, CHR 0x80, CHR 0xD1, CHR 0x88, CHR 0xD0,
     CHR 0xB8, CHR 0xD0, CHR 0xBB, CHR 0xD1, CHR 0x81, CHR 0xD1, CHR 0x8F] @ '' '' @
     [CHR 0xD1, CHR 0x81] @ '' '' @ [CHR 0xD0, CHR 0xBA, CHR 0xD0, CHR 0xBE, CHR 0xD0,
     CHR 0xB4, CHR 0xD0, CHR 0xBE, CHR 0xD0, CHR 0xBC] @ '' '' @ [CHR 0xD1, CHR 0x81,
     CHR 0xD1, CHR 0x82, CHR 0xD0, CHR 0xB0, CHR 0xD1, CHR 0x82, CHR 0xD1, CHR 0x83,
     CHR 0xD1, CHR 0x81, CHR 0xD0, CHR 0xB0] @ '': ''"

definition txt_body_open :: string where
  "txt_body_open = ''{'' @ [CHR 0x22] @ ''chat_id'' @ [CHR 0x22] @ '': '' @ [CHR 0x22]"

definition txt_body_mid :: string where
  "txt_body_mid = [CHR 0x22] @ '', '' @ [CHR 0x22] @ ''text'' @ [CHR 0x22] @ '': '' @
     [CHR 0x22]"

definition txt_body_close :: string where
  "txt_body_close = [CHR 0x22] @ ''}''"


definition newline :: char where
  "newline = CHR 0x0A"

text \<open>
  \<^verbatim>\<open>HomeworkVerdict\<close> is filled once by \<^verbatim>\<open>init\<close> and never written again.
\<close>

definition HomeworkVerdict :: "string \<rightharpoonup> string" where
  "HomeworkVerdict =
     [ApprovedStatus \<mapsto> verdict_approved,
      ReviewingStatus \<mapsto> verdict_reviewing,
      RejectedStatus \<mapsto> verdict_rejected]"

section \<open>Records of the program\<close>

text \<open>
  \<^verbatim>\<open>Homework\<close> of src/main.go has two fields; src/unnamed/part_000 adds two more.
\<close>

record Homework =
  Name :: string
  Status :: string

record Homework_p0 = Homework +
  ReviewerComment :: string
  LessonName :: string

text \<open>
  A slice is \<^verbatim>\<open>nil\<close> (\<^const>\<open>None\<close>) or holds elements; \<^verbatim>\<open>len(nil)\<close> is 0. Where the source
  tests \<^verbatim>\<open>len(newHomeworks) > 0\<close> and then reads \<^verbatim>\<open>newHomeworks[0]\<close>, the model matches the
  slice against \<open>Some (first # others)\<close>.
\<close>

type_synonym 'a slice = "'a list option"

fun len :: "'a slice \<Rightarrow> nat" where
  "len None = 0"
| "len (Some xs) = length xs"

record request =
  Method :: string
  URL :: string
  Header :: "(string \<times> string) list"
  Body :: "string option"

text \<open>
  What the program does to the world, in order: a line written through \<^verbatim>\<open>logger\<close> or through
  the standard \<^verbatim>\<open>log\<close> package (the text after the line's header), a request handed to
  \<^verbatim>\<open>client.Do\<close>, a message handed to \<^verbatim>\<open>bot.Send\<close>, a \<^verbatim>\<open>time.Sleep\<close> in seconds.
\<close>

datatype event =
    Logger string
  | StdLog string
  | HttpDo request
  | BotSend int64 string
  | Sleep nat

text \<open>\<^verbatim>\<open>Logger.Output\<close> ends the line unless the text already ends one.\<close>

definition log_output :: "string \<Rightarrow> string" where
  "log_output s = (if s = [] \<or> last s \<noteq> newline then s @ [newline] else s)"

definition Println :: "string \<Rightarrow> string" where
  "Println s = log_output (s @ [newline])"

section \<open>checkResponse\<close>

text \<open>
  The loop of \<^verbatim>\<open>checkResponse\<close> (src/main.go): \<^verbatim>\<open>homeworks\<close> is the slice made before the
  loop, \<^verbatim>\<open>i\<close> the index, and the list holds the elements still to visit. An element that fails
  a test ends the function with \<^verbatim>\<open>nil\<close> and the error.
\<close>

fun checkResponse_loop :: "Homework list \<Rightarrow> nat \<Rightarrow> json list \<Rightarrow> Homework slice \<times> error option" where
  "checkResponse_loop homeworks i [] = (Some homeworks, None)"
| "checkResponse_loop homeworks i (hwJSON # rest) =
     (let (hwMap, ok) = assert_map (Some hwJSON) in
      if \<not> ok then (None, Some err_homework_not_dict)
      else let (hwName, ok) = assert_string (map_of hwMap ''homework_name'') in
      if \<not> ok then (None, Some err_name_not_string)
      else let (hwStatus, ok) = assert_string (map_of hwMap ''status'') in
      if \<not> ok then (None, Some err_status_not_string)
      else checkResponse_loop
             (homeworks[i := \<lparr>Name = hwName, Status = hwStatus\<rparr>]) (Suc i) rest)"

definition checkResponse :: "jmap \<Rightarrow> Homework slice \<times> error option" where
  "checkResponse response =
     (let (homeworksJSON, ok) = assert_list (map_of response ''homeworks'') in
      if \<not> ok then (None, Some err_homeworks_not_list)
      else checkResponse_loop
             (replicate (length homeworksJSON) \<lparr>Name = [], Status = []\<rparr>) 0 homeworksJSON)"

text \<open>The same in src/unnamed/part_000, which also reads the two optional fields.\<close>

fun checkResponse_loop_p0 ::
  "Homework_p0 list \<Rightarrow> nat \<Rightarrow> json list \<Rightarrow> Homework_p0 slice \<times> error option" where
  "checkResponse_loop_p0 homeworks i [] = (Some homeworks, None)"
| "checkResponse_loop_p0 homeworks i (hwJSON # rest) =
     (let (hwMap, ok) = assert_map (Some hwJSON) in
      if \<not> ok then (None, Some err_homework_not_dict_p0)
      else let (hwName, ok) = assert_string (map_of hwMap ''homework_name'') in
      if \<not> ok then (None, Some err_name_not_string_p0)
      else let (hwStatus, ok) = assert_string (map_of hwMap ''status'') in
      if \<not> ok then (None, Some err_status_not_string_p0)
      else let hwReviewerComment = fst (assert_string (map_of hwMap ''reviewer_comment''));
               hwLessonName = fst (assert_string (map_of hwMap ''lesson_name''))
      in checkResponse_loop_p0
           (homeworks[i := \<lparr>Name = hwName, Status = hwStatus,
                             ReviewerComment = hwReviewerComment, LessonName = hwLessonName\<rparr>])
           (Suc i) rest)"

definition checkResponse_p0 :: "jmap \<Rightarrow> Homework_p0 slice \<times> error option" where
  "checkResponse_p0 response =
     (let (homeworksJSON, ok) = assert_list (map_of response ''homeworks'') in
      if \<not> ok then (None, Some err_homeworks_not_list_p0)
      else checkResponse_loop_p0
             (replicate (length homeworksJSON)
                \<lparr>Name = [], Status = [], ReviewerComment = [], LessonName = []\<rparr>)
             0 homeworksJSON)"

section \<open>parseStatus\<close>

text \<open>
  \<^verbatim>\<open>parseStatus\<close> of src/main.go (both programs of that file have the same text). The result
  is the pair the Go function returns, after the lines it logs.
\<close>

definition parseStatus :: "Homework \<Rightarrow> event list \<times> string \<times> error option" where
  "parseStatus homework =
     (case HomeworkVerdict (Status homework) of
        None \<Rightarrow>
          if Status homework = no_new_statuses
          then ([Logger (Println (Status homework))], Status homework, None)
          else let errMsg = txt_unknown_status @ Status homework
               in ([Logger (log_output (txt_parse_status_failed @ errMsg))], [], Some errMsg)
      | Some verdict \<Rightarrow>
          ([], txt_status_changed @ Name homework @ txt_quote_colon @ verdict, None))"

text \<open>
  \<^verbatim>\<open>parseStatus\<close> of src/unnamed/part_000: a \<^verbatim>\<open>switch\<close> on the three statuses, with no case
  for the text \<^const>\<open>no_new_statuses\<close>. \<^verbatim>\<open>HomeworkVerdict[s]\<close> reads as the empty string on a
  missing key.
\<close>

definition parseStatus_p0 :: "Homework_p0 \<Rightarrow> event list \<times> string \<times> error option" where
  "parseStatus_p0 homework =
     (let homeworkName = Name homework;
          homeworkStatus = Status homework;
          homeworkReviewerComment = ReviewerComment homework;
          homeworkLessonName = LessonName homework
      in if homeworkStatus \<in> {ApprovedStatus, ReviewingStatus, RejectedStatus}
         then let verdict = (case HomeworkVerdict homeworkStatus of Some v \<Rightarrow> v | None \<Rightarrow> []);
                  message = txt_status_changed @ homeworkName @ txt_for_lesson @
                            homeworkLessonName @ txt_quote_colon @ verdict @
                            txt_reviewer_comment @ homeworkReviewerComment
              in ([], message, None)
         else let errMsg = txt_unknown_status @ homeworkStatus
              in ([Logger (log_output (txt_parse_status_failed @ errMsg))], [], Some errMsg))"

section \<open>Formatting\<close>

text \<open>The verb \<^verbatim>\<open>%d\<close> of \<^verbatim>\<open>fmt\<close>: decimal digits, with a minus sign below zero.\<close>

fun digits_nat :: "nat \<Rightarrow> string" where
  "digits_nat n =
     (if n < 10 then [char_of (48 + n)]
      else digits_nat (n div 10) @ [char_of (48 + n mod 10)])"

declare digits_nat.simps [simp del]

definition fmt_d :: "int \<Rightarrow> string" where
  "fmt_d i = (if i < 0 then CHR ''-'' # digits_nat (nat (- i)) else digits_nat (nat i))"

section \<open>The world outside the program\<close>

text \<open>
  The three variables \<^verbatim>\<open>init\<close> reads from the environment; it stops the process unless all
  three are non-empty.
\<close>

record config =
  PracticumToken :: string
  TelegramToken :: string
  TelegramChatID :: string

text \<open>
  What \<^verbatim>\<open>client.Do\<close> returns when it returns a response: the status code, what
  \<^verbatim>\<open>json.NewDecoder(resp.Body).Decode(&data)\<close> yields on its body (an error, or the map; the
  body \<^verbatim>\<open>null\<close> leaves the map \<^verbatim>\<open>nil\<close>, which reads like the empty map), and what
  \<^verbatim>\<open>Body.Close()\<close> returns.
\<close>

record response =
  StatusCode :: int
  Decode :: "error + jmap"
  Close :: "error option"

text \<open>
  The library calls whose results the program does not determine: the clock, the validation of
  method and URL in \<^verbatim>\<open>http.NewRequest\<close>, the HTTP exchange, \<^verbatim>\<open>bot.Send\<close> of the Telegram
  library and \<^verbatim>\<open>strconv.ParseInt(s, 10, 64)\<close>.
\<close>

record env =
  Now_Unix :: int64
  NewRequest :: "string \<Rightarrow> string \<Rightarrow> error option"
  Do :: "request \<Rightarrow> error + response"
  Send :: "int64 \<Rightarrow> string \<Rightarrow> error option"
  ParseInt :: "string \<Rightarrow> error + int64"

text \<open>A function either returns or panics at an unchecked type assertion.\<close>

datatype 'a outcome = Panic | Done 'a

definition StatusOK :: int where
  "StatusOK = 200"

section \<open>getAPIAnswer\<close>

text \<open>
  The request all three programs build: \<^verbatim>\<open>http.NewRequest(http.MethodGet, url, nil)\<close> and then
  \<^verbatim>\<open>req.Header.Set("Authorization", fmt.Sprintf("OAuth %s", PracticumToken))\<close>.
\<close>

definition api_url :: "int64 \<Rightarrow> string" where
  "api_url timestamp = Endpoint @ ''?from_date='' @ fmt_d (sint timestamp)"

definition api_request :: "config \<Rightarrow> int64 \<Rightarrow> request" where
  "api_request cfg timestamp =
     \<lparr>Method = ''GET'', URL = api_url timestamp,
      Header = [(''Authorization'', ''OAuth '' @ PracticumToken cfg)], Body = None\<rparr>"

text \<open>
  The first program of src/main.go (lines 83 to 114). The deferred closing of the body runs
  when the function returns, so its log line comes last.
\<close>

definition closing :: "response \<Rightarrow> event list" where
  "closing resp =
     (case Close resp of
        None \<Rightarrow> []
      | Some err \<Rightarrow> [Logger (log_output (txt_close_failed @ err))])"

definition getAPIAnswer_a :: "config \<Rightarrow> env \<Rightarrow> int64 \<Rightarrow> event list \<times> jmap \<times> error option" where
  "getAPIAnswer_a cfg e currentTimestamp =
     (case NewRequest e ''GET'' (api_url currentTimestamp) of
        Some err \<Rightarrow> ([], [], Some err)
      | None \<Rightarrow>
         (let req = api_request cfg currentTimestamp in
          (case Do e req of
             Inl err \<Rightarrow>
               ([HttpDo req, Logger (log_output (txt_request_failed @ err))], [], Some err)
           | Inr resp \<Rightarrow>
               if StatusCode resp \<noteq> StatusOK
               then ([HttpDo req,
                      Logger (log_output (txt_status_code @ fmt_d (StatusCode resp)))]
                       @ closing resp,
                     [], Some (txt_status_code @ fmt_d (StatusCode resp)))
               else (case Decode resp of
                       Inl err \<Rightarrow>
                         ([HttpDo req, Logger (log_output (txt_decode_failed @ err))]
                            @ closing resp,
                          [], Some err)
                     | Inr data \<Rightarrow>
                         ([HttpDo req, Logger (Println txt_api_ok)] @ closing resp,
                          data, None)))))"

text \<open>The second program of src/main.go (lines 330 to 357) logs nothing here.\<close>

definition getAPIAnswer_b :: "config \<Rightarrow> env \<Rightarrow> int64 \<Rightarrow> event list \<times> jmap \<times> error option" where
  "getAPIAnswer_b cfg e currentTimestamp =
     (case NewRequest e ''GET'' (api_url currentTimestamp) of
        Some err \<Rightarrow> ([], [], Some err)
      | None \<Rightarrow>
         (let req = api_request cfg currentTimestamp in
          (case Do e req of
             Inl err \<Rightarrow> ([HttpDo req], [], Some err)
           | Inr resp \<Rightarrow>
               if StatusCode resp \<noteq> StatusOK
               then ([HttpDo req], [], Some (txt_status_code @ fmt_d (StatusCode resp)))
               else (case Decode resp of
                       Inl err \<Rightarrow> ([HttpDo req], [], Some err)
                     | Inr data \<Rightarrow> ([HttpDo req], data, None)))))"

text \<open>
  src/unnamed/part_000 (lines 86 to 121) asks from one hour before the timestamp, or from the
  clock when the timestamp is 0, and logs through the standard \<^verbatim>\<open>log\<close> package. The
  subtraction is that of \<^verbatim>\<open>int64\<close> and wraps around.
\<close>

definition timestamp_p0 :: "env \<Rightarrow> int64 \<Rightarrow> int64" where
  "timestamp_p0 e currentTimestamp =
     (if currentTimestamp = 0 then Now_Unix e else currentTimestamp - 3600)"

definition getAPIAnswer_p0 :: "config \<Rightarrow> env \<Rightarrow> int64 \<Rightarrow> event list \<times> jmap \<times> error option" where
  "getAPIAnswer_p0 cfg e currentTimestamp =
     (let timestamp = timestamp_p0 e currentTimestamp in
      (case NewRequest e ''GET'' (api_url timestamp) of
         Some err \<Rightarrow> ([], [], Some err)
       | None \<Rightarrow>
          (let req = api_request cfg timestamp in
           (case Do e req of
              Inl err \<Rightarrow>
                ([HttpDo req, StdLog (log_output (txt_request_failed @ err))], [], Some err)
            | Inr resp \<Rightarrow>
                if StatusCode resp \<noteq> StatusOK
                then ([HttpDo req,
                       StdLog (log_output (txt_status_code @ fmt_d (StatusCode resp)))],
                      [], Some (txt_status_code_p0 @ fmt_d (StatusCode resp)))
                else (case Decode resp of
                        Inl err \<Rightarrow>
                          ([HttpDo req, StdLog (log_output (txt_decode_failed @ err))],
                           [], Some err)
                      | Inr data \<Rightarrow>
                          ([HttpDo req, StdLog (Println txt_api_ok)], data, None))))))"

section \<open>sendMessage\<close>

text \<open>
  With the Telegram library (first program of src/main.go, src/unnamed/part_000):
  \<^verbatim>\<open>bot.Send(tgbotapi.NewMessage(chatID, message))\<close>.
\<close>

definition sendMessage :: "env \<Rightarrow> int64 \<Rightarrow> string \<Rightarrow> event list \<times> error option" where
  "sendMessage e chatID message = ([BotSend chatID message], Send e chatID message)"

text \<open>
  The second program of src/main.go (lines 305 to 328) writes the request itself; the body is
  the format \<^verbatim>\<open>{"chat_id": "%s", "text": "%s"}\<close> filled with the two strings as they are.
\<close>

definition sendMessage_data :: "config \<Rightarrow> string \<Rightarrow> string" where
  "sendMessage_data cfg message =
     txt_body_open @ TelegramChatID cfg @ txt_body_mid @ message @ txt_body_close"

definition sendMessage_url :: "config \<Rightarrow> string" where
  "sendMessage_url cfg = ''https://api.telegram.org/bot'' @ TelegramToken cfg @ ''/sendMessage''"

definition sendMessage_request :: "config \<Rightarrow> string \<Rightarrow> request" where
  "sendMessage_request cfg message =
     \<lparr>Method = ''POST'', URL = sendMessage_url cfg,
      Header = [(''Content-Type'', ''application/json'')],
      Body = Some (sendMessage_data cfg message)\<rparr>"

definition sendMessage_b :: "config \<Rightarrow> env \<Rightarrow> string \<Rightarrow> event list \<times> error option" where
  "sendMessage_b cfg e message =
     (case NewRequest e ''POST'' (sendMessage_url cfg) of
        Some err \<Rightarrow> ([], Some err)
      | None \<Rightarrow>
         (let req = sendMessage_request cfg message in
          (case Do e req of
             Inl err \<Rightarrow> ([HttpDo req], Some err)
           | Inr resp \<Rightarrow>
               if StatusCode resp \<noteq> StatusOK
               then ([HttpDo req], Some (txt_tg_status_code @ fmt_d (StatusCode resp)))
               else ([HttpDo req], None))))"

section \<open>The command handler\<close>

text \<open>
  The goroutine that \<^verbatim>\<open>handleCommand\<close> starts on \<^verbatim>\<open>/status\<close> (src/main.go, lines 165 to 198). The results of
  \<^verbatim>\<open>sendMessage\<close> are dropped, and so is the timestamp read from \<^verbatim>\<open>current_date\<close>, but the
  assertion that reads it is made. \<^verbatim>\<open>newHomeworks[0]\<close> is read under \<^verbatim>\<open>len(newHomeworks) > 0\<close>
  only.
\<close>

definition handleStatus_a :: "config \<Rightarrow> env \<Rightarrow> int64 \<Rightarrow> int \<Rightarrow> event list \<times> unit outcome" where
  "handleStatus_a cfg e chatID fromID =
     (let (ev1, response, err) = getAPIAnswer_a cfg e (Now_Unix e) in
      (case err of
         Some er \<Rightarrow>
           (ev1 @ [Logger (log_output (txt_no_api_answer @ er))]
              @ fst (sendMessage e chatID txt_no_status), Done ())
       | None \<Rightarrow>
          (case assert_float64 (map_of response ''current_date'') of
             None \<Rightarrow> (ev1, Panic)
           | Some f \<Rightarrow>
              (let (newHomeworks, err) = checkResponse response in
               (case err of
                  Some er \<Rightarrow>
                    (ev1 @ [Logger (log_output (txt_bad_api_answer @ er))]
                       @ fst (sendMessage e chatID txt_no_status), Done ())
                | None \<Rightarrow>
                   (case newHomeworks of
                      Some (currentReport # others) \<Rightarrow>
                        (let (ev2, message, err) = parseStatus currentReport in
                         (case err of
                            Some er \<Rightarrow>
                              (ev1 @ ev2 @ fst (sendMessage e chatID txt_no_status), Done ())
                          | None \<Rightarrow>
                              (ev1 @ ev2 @ fst (sendMessage e chatID message)
                                 @ [Logger (log_output (txt_status_from @ fmt_d fromID @ [newline])),
                                    Logger (log_output (txt_api_result @ message @ [newline]))],
                               Done ())))
                    | _ \<Rightarrow>
                        (ev1 @ fst (sendMessage e chatID no_new_statuses)
                           @ [Logger (log_output (txt_status_from @ fmt_d fromID @ [newline])),
                              Logger (Println (txt_api_result @ no_new_statuses))],
                         Done ())))))))"

text \<open>
  \<^verbatim>\<open>handleCommand\<close>: \<^verbatim>\<open>command\<close> is \<^verbatim>\<open>msg.Command()\<close>, \<^verbatim>\<open>chatID\<close> is \<^verbatim>\<open>msg.Chat.ID\<close> and
  \<^verbatim>\<open>fromID\<close> is \<^verbatim>\<open>msg.From.ID\<close>. Any other command does nothing.
\<close>

definition handleCommand_a :: "config \<Rightarrow> env \<Rightarrow> string \<Rightarrow> int64 \<Rightarrow> int \<Rightarrow> event list \<times> unit outcome" where
  "handleCommand_a cfg e command chatID fromID =
     (if command = ''start''
      then (fst (sendMessage e chatID txt_greeting)
              @ [Logger (log_output (txt_start_from @ fmt_d fromID @ [newline]))], Done ())
      else if command = ''status'' then handleStatus_a cfg e chatID fromID
      else ([], Done ()))"

text \<open>
  The goroutine that \<^verbatim>\<open>handleCommand\<close> starts on \<^verbatim>\<open>/status\<close> (src/unnamed/part_000, lines 186 to 219). The results of
  \<^verbatim>\<open>sendMessage\<close> are dropped, and so is the timestamp read from \<^verbatim>\<open>current_date\<close>, but the
  assertion that reads it is made. \<^verbatim>\<open>newHomeworks[0]\<close> is read under \<^verbatim>\<open>len(newHomeworks) > 0\<close>
  only.
\<close>

definition handleStatus_p0 :: "config \<Rightarrow> env \<Rightarrow> int64 \<Rightarrow> int \<Rightarrow> event list \<times> unit outcome" where
  "handleStatus_p0 cfg e chatID fromID =
     (let (ev1, response, err) = getAPIAnswer_p0 cfg e (Now_Unix e) in
      (case err of
         Some er \<Rightarrow>
           (ev1 @ [Logger (log_output (txt_no_api_answer @ er))]
              @ fst (sendMessage e chatID txt_no_status), Done ())
       | None \<Rightarrow>
          (case assert_float64 (map_of response ''current_date'') of
             None \<Rightarrow> (ev1, Panic)
           | Some f \<Rightarrow>
              (let (newHomeworks, err) = checkResponse_p0 response in
               (case err of
                  Some er \<Rightarrow>
                    (ev1 @ [Logger (log_output (txt_bad_api_answer @ er))]
                       @ fst (sendMessage e chatID txt_no_status), Done ())
                | None \<Rightarrow>
                   (case newHomeworks of
                      Some (currentReport # others) \<Rightarrow>
                        (let (ev2, message, err) = parseStatus_p0 currentReport in
                         (case err of
                            Some er \<Rightarrow>
                              (ev1 @ ev2 @ fst (sendMessage e chatID txt_no_status), Done ())
                          | None \<Rightarrow>
                              (ev1 @ ev2 @ fst (sendMessage e chatID message)
                                 @ [Logger (log_output (txt_status_from @ fmt_d fromID @ [newline])),
                                    Logger (log_output (txt_api_result @ message @ [newline]))],
                               Done ())))
                    | _ \<Rightarrow>
                        (ev1 @ fst (sendMessage e chatID no_new_statuses)
                           @ [Logger (log_output (txt_status_from @ fmt_d fromID @ [newline])),
                              Logger (Println (txt_api_result @ no_new_statuses))],
                         Done ())))))))"

text \<open>
  \<^verbatim>\<open>handleCommand\<close>: \<^verbatim>\<open>command\<close> is \<^verbatim>\<open>msg.Command()\<close>, \<^verbatim>\<open>chatID\<close> is \<^verbatim>\<open>msg.Chat.ID\<close> and
  \<^verbatim>\<open>fromID\<close> is \<^verbatim>\<open>msg.From.ID\<close>. Any other command does nothing.
\<close>

definition handleCommand_p0 :: "config \<Rightarrow> env \<Rightarrow> string \<Rightarrow> int64 \<Rightarrow> int \<Rightarrow> event list \<times> unit outcome" where
  "handleCommand_p0 cfg e command chatID fromID =
     (if command = ''start''
      then (fst (sendMessage e chatID txt_greeting)
              @ [Logger (log_output (txt_start_from @ fmt_d fromID @ [newline]))], Done ())
      else if command = ''status'' then handleStatus_p0 cfg e chatID fromID
      else ([], Done ()))"

section \<open>The poll of src/unnamed/part_000: fetchAPIResponse\<close>

text \<open>The period of the ticker, in seconds.\<close>

definition RetryPeriod_p0 :: nat where
  "RetryPeriod_p0 = 100"

text \<open>
  The global \<^verbatim>\<open>lastSentMessage\<close> is passed in and returned with the two results of the
  function.
\<close>

definition fetchAPIResponse ::
  "config \<Rightarrow> env \<Rightarrow> string \<Rightarrow> event list \<times> (string \<times> Homework_p0 slice \<times> error option) outcome" where
  "fetchAPIResponse cfg e lastSentMessage =
     (let (ev1, response, err) = getAPIAnswer_p0 cfg e (Now_Unix e) in
      (case err of
         Some er \<Rightarrow>
           (ev1 @ [Logger (log_output (txt_no_api_answer @ er))],
            Done (lastSentMessage, None, Some er))
       | None \<Rightarrow>
          (case assert_float64 (map_of response ''current_date'') of
             None \<Rightarrow> (ev1, Panic)
           | Some f \<Rightarrow>
              (let (newHomeworks, err) = checkResponse_p0 response in
               (case err of
                  Some er \<Rightarrow>
                    (ev1 @ [Logger (log_output (txt_bad_api_answer @ er))],
                     Done (lastSentMessage, None, Some er))
                | None \<Rightarrow>
                   (case newHomeworks of
                      Some (currentReport # others) \<Rightarrow>
                        (let (ev2, message, err) = parseStatus_p0 currentReport in
                         (case err of
                            Some er \<Rightarrow> (ev1 @ ev2, Done (lastSentMessage, None, Some er))
                          | None \<Rightarrow>
                              if message \<noteq> lastSentMessage
                              then (case ParseInt e (TelegramChatID cfg) of
                                      Inl er \<Rightarrow>
                                        (ev1 @ ev2
                                           @ [Logger (log_output (txt_chat_id_failed @ er))],
                                         Done (lastSentMessage, None, Some er))
                                    | Inr chatID \<Rightarrow>
                                       (let (ev3, err) = sendMessage e chatID message in
                                        (case err of
                                           Some er \<Rightarrow>
                                             (ev1 @ ev2 @ ev3
                                                @ [Logger (log_output (txt_send_failed_tg @ er))],
                                              Done (lastSentMessage, newHomeworks, None))
                                         | None \<Rightarrow>
                                             (ev1 @ ev2 @ ev3
                                                @ [Logger (log_output (txt_sent_tg @ message))],
                                              Done (message, newHomeworks, None)))))
                              else (ev1 @ ev2, Done (lastSentMessage, newHomeworks, None))))
                    | _ \<Rightarrow>
                        (ev1 @ [Logger (Println (txt_api_result @ no_new_statuses))],
                         Done (lastSentMessage, newHomeworks, None))))))))"

text \<open>
  \<^verbatim>\<open>main\<close> calls \<^verbatim>\<open>fetchAPIResponse\<close> once at the start and then on every tick of the ticker
  (every \<^const>\<open>RetryPeriod_p0\<close> seconds), dropping its results. The calls, one for each state of the world in the list:
\<close>

fun poll_p0 :: "config \<Rightarrow> env list \<Rightarrow> string \<Rightarrow> event list \<times> string outcome" where
  "poll_p0 cfg [] lastSentMessage = ([], Done lastSentMessage)"
| "poll_p0 cfg (e # es) lastSentMessage =
     (case fetchAPIResponse cfg e lastSentMessage of
        (ev, Panic) \<Rightarrow> (ev, Panic)
      | (ev, Done (lastSentMessage', result)) \<Rightarrow>
          (let (ev', r) = poll_p0 cfg es lastSentMessage' in (ev @ ev', r)))"

section \<open>The poll loop of src/main.go: runBot\<close>

text \<open>The variables of \<^verbatim>\<open>runBot\<close> that live across iterations.\<close>

record loop_state =
  currentTimestamp :: int64
  currentReport :: Homework
  prevReport :: Homework

text \<open>\<^verbatim>\<open>RetryPeriod\<close> in seconds.\<close>

definition RetryPeriod :: nat where
  "RetryPeriod = 600"

definition runBot_start :: "env \<Rightarrow> loop_state" where
  "runBot_start e =
     \<lparr>currentTimestamp = Now_Unix e,
      currentReport = \<lparr>Name = [], Status = []\<rparr>,
      prevReport = \<lparr>Name = [], Status = []\<rparr>\<rparr>"

text \<open>
  Lines 429 to 440: what happens when the status differs from that of \<^verbatim>\<open>prevReport\<close>. The
  assignment to \<^verbatim>\<open>prevReport\<close> is the last statement of the block, outside the \<^verbatim>\<open>if\<close> on the
  error.
\<close>

definition runBot_notify :: "config \<Rightarrow> env \<Rightarrow> loop_state \<Rightarrow> event list \<times> loop_state" where
  "runBot_notify cfg e st =
     (let (ev2, message, err) = parseStatus (currentReport st) in
      (case err of
         Some er \<Rightarrow>
           (ev2 @ [Logger (log_output (txt_parse_status_failed @ er))],
            st\<lparr>prevReport := currentReport st\<rparr>)
       | None \<Rightarrow>
          (let (ev3, err) = sendMessage_b cfg e message in
           (case err of
              Some er \<Rightarrow>
                (ev2 @ ev3 @ [Logger (log_output (txt_send_failed @ er))],
                 st\<lparr>prevReport := currentReport st\<rparr>)
            | None \<Rightarrow> (ev2 @ ev3, st\<lparr>prevReport := currentReport st\<rparr>)))))"

text \<open>One iteration of the \<^verbatim>\<open>for\<close> loop (lines 408 to 442).\<close>

definition runBot_iteration :: "config \<Rightarrow> env \<Rightarrow> loop_state \<Rightarrow> event list \<times> loop_state outcome" where
  "runBot_iteration cfg e st =
     (let (ev1, response, err) = getAPIAnswer_b cfg e (currentTimestamp st) in
      (case err of
         Some er \<Rightarrow>
           (ev1 @ [Logger (log_output (txt_no_api_answer @ er)), Sleep RetryPeriod], Done st)
       | None \<Rightarrow>
          (case assert_float64 (map_of response ''current_date'') of
             None \<Rightarrow> (ev1, Panic)
           | Some f \<Rightarrow>
              (let st1 = st\<lparr>currentTimestamp := int64_of_float64 f\<rparr>;
                   (newHomeworks, err) = checkResponse response in
               (case err of
                  Some er \<Rightarrow>
                    (ev1 @ [Logger (log_output (txt_bad_api_answer @ er)), Sleep RetryPeriod],
                     Done st1)
                | None \<Rightarrow>
                   (let st2 = st1\<lparr>currentReport :=
                                (case newHomeworks of
                                   Some (first # others) \<Rightarrow> first
                                 | _ \<Rightarrow> \<lparr>Name = [], Status = no_new_statuses\<rparr>)\<rparr>
                    in if Status (currentReport st2) \<noteq> Status (prevReport st2)
                       then (let (ev, st3) = runBot_notify cfg e st2
                             in (ev1 @ ev @ [Sleep RetryPeriod], Done st3))
                       else (ev1 @ [Sleep RetryPeriod], Done st2)))))))"

text \<open>
  The loop never ends by itself. Its first iterations, one for each state of the world in the
  list, stopped short by a panic:
\<close>

fun runBot_loop :: "config \<Rightarrow> env list \<Rightarrow> loop_state \<Rightarrow> event list \<times> loop_state outcome" where
  "runBot_loop cfg [] st = ([], Done st)"
| "runBot_loop cfg (e # es) st =
     (case runBot_iteration cfg e st of
        (ev, Panic) \<Rightarrow> (ev, Panic)
      | (ev, Done st') \<Rightarrow> (let (ev', r) = runBot_loop cfg es st' in (ev @ ev', r)))"

definition runBot :: "config \<Rightarrow> env \<Rightarrow> env list \<Rightarrow> event list \<times> loop_state outcome" where
  "runBot cfg e0 es = runBot_loop cfg es (runBot_start e0)"

section \<open>JSON texts\<close>

text \<open>
  The yardstick for the body that \<^const>\<open>sendMessage_b\<close> writes: a reader of JSON texts after
  RFC 8259, on bytes. Bytes from 0x80 on are taken as they come (whether they are well-formed
  UTF-8 is not examined). A \<^verbatim>\<open>\u\<close> escape becomes the UTF-8 encoding of its code point, two
  escapes that form a surrogate pair become one code point, and a surrogate without its
  partner becomes U+FFFD.
\<close>

abbreviation quote :: char where
  "quote \<equiv> CHR 0x22"

abbreviation backslash :: char where
  "backslash \<equiv> CHR 0x5C"

definition is_ws :: "char \<Rightarrow> bool" where
  "is_ws c = (c = CHR 0x20 \<or> c = CHR 0x09 \<or> c = CHR 0x0A \<or> c = CHR 0x0D)"

definition skip_ws :: "string \<Rightarrow> string" where
  "skip_ws s = dropWhile is_ws s"

definition is_control :: "char \<Rightarrow> bool" where
  "is_control c = ((of_char c :: nat) < 0x20)"

definition hexval :: "char \<Rightarrow> nat option" where
  "hexval c =
     (let n = (of_char c :: nat) in
      if 48 \<le> n \<and> n \<le> 57 then Some (n - 48)
      else if 97 \<le> n \<and> n \<le> 102 then Some (n - 87)
      else if 65 \<le> n \<and> n \<le> 70 then Some (n - 55)
      else None)"

fun hex4 :: "string \<Rightarrow> nat option" where
  "hex4 [a, b, c, d] =
     (case (hexval a, hexval b, hexval c, hexval d) of
        (Some x, Some y, Some z, Some w) \<Rightarrow> Some (((x * 16 + y) * 16 + z) * 16 + w)
      | _ \<Rightarrow> None)"
| "hex4 _ = None"

definition unescape :: "char \<Rightarrow> char option" where
  "unescape c =
     (if c = quote then Some quote
      else if c = backslash then Some backslash
      else if c = CHR ''/'' then Some CHR ''/''
      else if c = CHR ''b'' then Some (CHR 0x08)
      else if c = CHR ''f'' then Some (CHR 0x0C)
      else if c = CHR ''n'' then Some (CHR 0x0A)
      else if c = CHR ''r'' then Some (CHR 0x0D)
      else if c = CHR ''t'' then Some (CHR 0x09)
      else None)"

text \<open>
  The pieces of a string between its quotes: a byte written as it is, a two-character escape
  (with the byte it stands for), a \<^verbatim>\<open>\uXXXX\<close> escape (with its number).
\<close>

datatype item = Raw char | Esc char | Uni nat

text \<open>Reads the pieces up to the closing quote; the input starts after the opening quote.\<close>

function parse_items :: "string \<Rightarrow> (item list \<times> string) option" where
  "parse_items [] = None"
| "parse_items (c # cs) =
     (if c = quote then Some ([], cs)
      else if c = backslash then
        (case cs of
           [] \<Rightarrow> None
         | e # cs' \<Rightarrow>
             if e = CHR ''u'' then
               (case hex4 (take 4 cs') of
                  None \<Rightarrow> None
                | Some u \<Rightarrow>
                    (case parse_items (drop 4 cs') of
                       None \<Rightarrow> None
                     | Some (items, rest) \<Rightarrow> Some (Uni u # items, rest)))
             else
               (case unescape e of
                  None \<Rightarrow> None
                | Some b \<Rightarrow>
                    (case parse_items cs' of
                       None \<Rightarrow> None
                     | Some (items, rest) \<Rightarrow> Some (Esc b # items, rest))))
      else if is_control c then None
      else (case parse_items cs of
              None \<Rightarrow> None
            | Some (items, rest) \<Rightarrow> Some (Raw c # items, rest)))"
  by pat_completeness auto
termination
  by (relation "measure length") auto

definition utf8 :: "nat \<Rightarrow> string" where
  "utf8 n =
     (if n < 0x80 then [char_of n]
      else if n < 0x800 then [char_of (0xC0 + n div 64), char_of (0x80 + n mod 64)]
      else if n < 0x10000 then
        [char_of (0xE0 + n div 4096), char_of (0x80 + n div 64 mod 64), char_of (0x80 + n mod 64)]
      else
        [char_of (0xF0 + n div 262144), char_of (0x80 + n div 4096 mod 64),
         char_of (0x80 + n div 64 mod 64), char_of (0x80 + n mod 64)])"

definition is_high :: "nat \<Rightarrow> bool" where
  "is_high u = (0xD800 \<le> u \<and> u < 0xDC00)"

definition is_low :: "nat \<Rightarrow> bool" where
  "is_low u = (0xDC00 \<le> u \<and> u < 0xE000)"

fun decode_items :: "item list \<Rightarrow> string" where
  "decode_items [] = []"
| "decode_items (Raw c # items) = c # decode_items items"
| "decode_items (Esc c # items) = c # decode_items items"
| "decode_items (Uni u # Uni v # items) =
     (if is_high u \<and> is_low v
      then utf8 (0x10000 + (u - 0xD800) * 1024 + (v - 0xDC00)) @ decode_items items
      else if is_high u \<or> is_low u then utf8 0xFFFD @ decode_items (Uni v # items)
      else utf8 u @ decode_items (Uni v # items))"
| "decode_items [Uni u] = (if is_high u \<or> is_low u then utf8 0xFFFD else utf8 u)"
| "decode_items (Uni u # Raw c # items) =
     (if is_high u \<or> is_low u then utf8 0xFFFD else utf8 u) @ decode_items (Raw c # items)"
| "decode_items (Uni u # Esc c # items) =
     (if is_high u \<or> is_low u then utf8 0xFFFD else utf8 u) @ decode_items (Esc c # items)"

definition parse_string :: "string \<Rightarrow> (string \<times> string) option" where
  "parse_string s =
     (case parse_items s of
        None \<Rightarrow> None
      | Some (items, rest) \<Rightarrow> Some (decode_items items, rest))"

text \<open>Numbers: an optional minus, the integer part, an optional fraction, an optional exponent.\<close>

definition is_digit :: "char \<Rightarrow> bool" where
  "is_digit c = (48 \<le> (of_char c :: nat) \<and> (of_char c :: nat) \<le> 57)"

definition nat_of_digits :: "string \<Rightarrow> nat" where
  "nat_of_digits ds = foldl (\<lambda>a c. 10 * a + (of_char c - 48)) 0 ds"

definition parse_number :: "string \<Rightarrow> (real \<times> string) option" where
  "parse_number s =
     (let (neg, s1) = (case s of c # t \<Rightarrow> if c = CHR ''-'' then (True, t) else (False, s)
                                | [] \<Rightarrow> (False, s));
          ip = takeWhile is_digit s1;
          s2 = dropWhile is_digit s1
      in if ip = [] \<or> (1 < length ip \<and> hd ip = CHR ''0'') then None
         else
          (let (fp, okf, s3) =
                 (case s2 of
                    c # t \<Rightarrow>
                      if c = CHR ''.''
                      then (takeWhile is_digit t, takeWhile is_digit t \<noteq> [], dropWhile is_digit t)
                      else ([], True, s2)
                  | [] \<Rightarrow> ([], True, s2));
               (eneg, ep, oke, s4) =
                 (case s3 of
                    c # t \<Rightarrow>
                      if c = CHR ''e'' \<or> c = CHR ''E''
                      then (let (sg, t') =
                                  (case t of
                                     d # t'' \<Rightarrow>
                                       if d = CHR ''-'' then (True, t'')
                                       else if d = CHR ''+'' then (False, t'')
                                       else (False, t)
                                   | [] \<Rightarrow> (False, t))
                            in (sg, takeWhile is_digit t', takeWhile is_digit t' \<noteq> [],
                                dropWhile is_digit t'))
                      else (False, [], True, s3)
                  | [] \<Rightarrow> (False, [], True, s3));
               m = real (nat_of_digits ip) + real (nat_of_digits fp) / 10 ^ length fp;
               v = (if eneg then m / 10 ^ nat_of_digits ep else m * 10 ^ nat_of_digits ep)
           in if okf \<and> oke then Some (if neg then - v else v, s4) else None))"

text \<open>
  Values, the elements of an array after its bracket and the members of an object after its
  brace. The first argument bounds the depth of the calls; \<open>json_decode\<close> below starts it
  at the length of the text (a level of nesting lowers it by two and takes two characters, a
  further element or member lowers it by one and takes at least two).
\<close>

fun parse_value :: "nat \<Rightarrow> string \<Rightarrow> (json \<times> string) option"
  and parse_elements :: "nat \<Rightarrow> string \<Rightarrow> (json list \<times> string) option"
  and parse_members :: "nat \<Rightarrow> string \<Rightarrow> ((string \<times> json) list \<times> string) option"
where
  "parse_value 0 s = None"
| "parse_value (Suc n) [] = None"
| "parse_value (Suc n) (c # cs) =
     (if c = CHR ''{'' then
        (case skip_ws cs of
           [] \<Rightarrow> None
         | d # ds \<Rightarrow>
             if d = CHR ''}'' then Some (JObject [], ds)
             else (case parse_members n (d # ds) of
                     None \<Rightarrow> None
                   | Some (ms, rest) \<Rightarrow> Some (JObject ms, rest)))
      else if c = CHR ''['' then
        (case skip_ws cs of
           [] \<Rightarrow> None
         | d # ds \<Rightarrow>
             if d = CHR '']'' then Some (JArray [], ds)
             else (case parse_elements n (d # ds) of
                     None \<Rightarrow> None
                   | Some (vs, rest) \<Rightarrow> Some (JArray vs, rest)))
      else if c = quote then
        (case parse_string cs of
           None \<Rightarrow> None
         | Some (str, rest) \<Rightarrow> Some (JString str, rest))
      else if take 4 (c # cs) = ''true'' then Some (JBool True, drop 4 (c # cs))
      else if take 5 (c # cs) = ''false'' then Some (JBool False, drop 5 (c # cs))
      else if take 4 (c # cs) = ''null'' then Some (JNull, drop 4 (c # cs))
      else (case parse_number (c # cs) of
              None \<Rightarrow> None
            | Some (x, rest) \<Rightarrow> Some (JNumber x, rest)))"
| "parse_elements 0 s = None"
| "parse_elements (Suc n) s =
     (case parse_value n s of
        None \<Rightarrow> None
      | Some (v, rest) \<Rightarrow>
          (case skip_ws rest of
             [] \<Rightarrow> None
           | d # ds \<Rightarrow>
               if d = CHR '']'' then Some ([v], ds)
               else if d = CHR '','' then
                 (case parse_elements n (skip_ws ds) of
                    None \<Rightarrow> None
                  | Some (vs, rest') \<Rightarrow> Some (v # vs, rest'))
               else None))"
| "parse_members 0 s = None"
| "parse_members (Suc n) [] = None"
| "parse_members (Suc n) (c # cs) =
     (if c \<noteq> quote then None
      else
       (case parse_string cs of
          None \<Rightarrow> None
        | Some (key, rest) \<Rightarrow>
            (case skip_ws rest of
               [] \<Rightarrow> None
             | d # ds \<Rightarrow>
                 if d \<noteq> CHR '':'' then None
                 else
                  (case parse_value n (skip_ws ds) of
                     None \<Rightarrow> None
                   | Some (v, rest') \<Rightarrow>
                       (case skip_ws rest' of
                          [] \<Rightarrow> None
                        | d' # ds' \<Rightarrow>
                            if d' = CHR ''}'' then Some ([(key, v)], ds')
                            else if d' = CHR '','' then
                              (case parse_members n (skip_ws ds') of
                                 None \<Rightarrow> None
                               | Some (ms, rest'') \<Rightarrow> Some ((key, v) # ms, rest''))
                            else None)))))"

declare parse_value.simps [simp del] parse_elements.simps [simp del] parse_members.simps [simp del]

text \<open>A JSON text is one value with nothing but white space around it.\<close>

definition json_decode :: "string \<Rightarrow> json option" where
  "json_decode s =
     (case parse_value (length s) (skip_ws s) of
        None \<Rightarrow> None
      | Some (v, rest) \<Rightarrow> if skip_ws rest = [] then Some v else None)"

text \<open>
  The strings that may stand between quotes unchanged: no double quote, no backslash, no
  control character.
\<close>

definition plain :: "string \<Rightarrow> bool" where
  "plain s = (\<forall>c \<in> set s. c \<noteq> quote \<and> c \<noteq> backslash \<and> \<not> is_control c)"

text \<open>
  How many characters of the text a piece takes, and whether all pieces are bytes written as
  they are.
\<close>

fun cost :: "item \<Rightarrow> nat" where
  "cost (Raw c) = 1"
| "cost (Esc c) = 2"
| "cost (Uni u) = 6"

definition costs :: "item list \<Rightarrow> nat" where
  "costs items = sum_list (map cost items)"

fun all_raw :: "item list \<Rightarrow> bool" where
  "all_raw [] = True"
| "all_raw (Raw c # items) = all_raw items"
| "all_raw (i # items) = False"

text \<open>What follows the channel identifier in the body of \<^const>\<open>sendMessage_data\<close>.\<close>

definition tail_text :: "string \<Rightarrow> string" where
  "tail_text message =
     '', '' @ quote # ''text'' @ quote # '': '' @ quote # message @ [quote, CHR ''}'']"

section \<open>Reading traces and responses\<close>

text \<open>The requests, the Telegram messages and the \<^verbatim>\<open>logger\<close> lines of a trace, in order.\<close>

fun requests :: "event list \<Rightarrow> request list" where
  "requests [] = []"
| "requests (HttpDo r # evs) = r # requests evs"
| "requests (ev # evs) = requests evs"

fun bot_sends :: "event list \<Rightarrow> (int64 \<times> string) list" where
  "bot_sends [] = []"
| "bot_sends (BotSend c m # evs) = (c, m) # bot_sends evs"
| "bot_sends (ev # evs) = bot_sends evs"

fun logger_lines :: "event list \<Rightarrow> string list" where
  "logger_lines [] = []"
| "logger_lines (Logger l # evs) = l # logger_lines evs"
| "logger_lines (ev # evs) = logger_lines evs"

definition posts :: "event list \<Rightarrow> request list" where
  "posts evs = filter (\<lambda>r. Method r = ''POST'') (requests evs)"

text \<open>
  An element of \<^verbatim>\<open>homeworks\<close> that passes the three tests of the loop of \<^verbatim>\<open>checkResponse\<close>, and
  the records the two programs build from it.
\<close>

definition well_formed :: "json \<Rightarrow> bool" where
  "well_formed hwJSON =
     (snd (assert_map (Some hwJSON)) \<and>
      snd (assert_string (map_of (fst (assert_map (Some hwJSON))) ''homework_name'')) \<and>
      snd (assert_string (map_of (fst (assert_map (Some hwJSON))) ''status'')))"

definition homework_of :: "json \<Rightarrow> Homework" where
  "homework_of hwJSON =
     \<lparr>Name = fst (assert_string (map_of (fst (assert_map (Some hwJSON))) ''homework_name'')),
      Status = fst (assert_string (map_of (fst (assert_map (Some hwJSON))) ''status''))\<rparr>"

definition homework_of_p0 :: "json \<Rightarrow> Homework_p0" where
  "homework_of_p0 hwJSON =
     \<lparr>Name = fst (assert_string (map_of (fst (assert_map (Some hwJSON))) ''homework_name'')),
      Status = fst (assert_string (map_of (fst (assert_map (Some hwJSON))) ''status'')),
      ReviewerComment =
        fst (assert_string (map_of (fst (assert_map (Some hwJSON))) ''reviewer_comment'')),
      LessonName =
        fst (assert_string (map_of (fst (assert_map (Some hwJSON))) ''lesson_name''))\<rparr>"

text \<open>Reading a decimal number back, as the receiver of \<^verbatim>\<open>from_date\<close> does.\<close>

definition read_d :: "string \<Rightarrow> int" where
  "read_d s =
     (case s of
        [] \<Rightarrow> 0
      | c # cs \<Rightarrow> if c = CHR ''-'' then - int (nat_of_digits cs) else int (nat_of_digits s))"

section \<open>The scenarios of the specification\<close>

text \<open>
  The two payloads of the end-to-end scenarios, as \<^verbatim>\<open>encoding/json\<close> decodes them, and the
  message of the first scenario, byte by byte.
\<close>

definition payload_hw1_approved :: jmap where
  "payload_hw1_approved =
     [(''homeworks'',
       JArray [JObject [(''homework_name'', JString ''hw1''), (''status'', JString ''approved'')]]),
      (''current_date'', JNumber 1000)]"

definition payload_no_homeworks :: jmap where
  "payload_no_homeworks = [(''homeworks'', JArray []), (''current_date'', JNumber 2000)]"

definition payload_bogus :: jmap where
  "payload_bogus =
     [(''homeworks'',
       JArray [JObject [(''homework_name'', JString ''hw1''), (''status'', JString ''bogus'')]]),
      (''current_date'', JNumber 1000)]"

definition payload_no_date :: jmap where
  "payload_no_date = [(''homeworks'', JArray [])]"

definition scenario_message :: string where
  "scenario_message = [CHR 0xD0, CHR 0x98, CHR 0xD0, CHR 0xB7, CHR 0xD0, CHR 0xBC, CHR 0xD0,
     CHR 0xB5, CHR 0xD0, CHR 0xBD, CHR 0xD0, CHR 0xB8, CHR 0xD0, CHR 0xBB, CHR 0xD1,
     CHR 0x81, CHR 0xD1, CHR 0x8F] @ '' '' @ [CHR 0xD1, CHR 0x81, CHR 0xD1, CHR 0x82,
     CHR 0xD0, CHR 0xB0, CHR 0xD1, CHR 0x82, CHR 0xD1, CHR 0x83, CHR 0xD1, CHR 0x81] @ '' ''
     @ [CHR 0xD0, CHR 0xBF, CHR 0xD1, CHR 0x80, CHR 0xD0, CHR 0xBE, CHR 0xD0, CHR 0xB2,
     CHR 0xD0, CHR 0xB5, CHR 0xD1, CHR 0x80, CHR 0xD0, CHR 0xBA, CHR 0xD0, CHR 0xB8] @ '' ''
     @ [CHR 0xD1, CHR 0x80, CHR 0xD0, CHR 0xB0, CHR 0xD0, CHR 0xB1, CHR 0xD0, CHR 0xBE,
     CHR 0xD1, CHR 0x82, CHR 0xD1, CHR 0x8B] @ '' '' @ [CHR 0x22] @ ''hw1'' @ [CHR 0x22] @
     '': '' @ [CHR 0xD0, CHR 0xA0, CHR 0xD0, CHR 0xB0, CHR 0xD0, CHR 0xB1, CHR 0xD0,
     CHR 0xBE, CHR 0xD1, CHR 0x82, CHR 0xD0, CHR 0xB0] @ '' '' @ [CHR 0xD0, CHR 0xBF,
     CHR 0xD1, CHR 0x80, CHR 0xD0, CHR 0xBE, CHR 0xD0, CHR 0xB2, CHR 0xD0, CHR 0xB5,
     CHR 0xD1, CHR 0x80, CHR 0xD0, CHR 0xB5, CHR 0xD0, CHR 0xBD, CHR 0xD0, CHR 0xB0] @
     '': '' @ [CHR 0xD1, CHR 0x80, CHR 0xD0, CHR 0xB5, CHR 0xD0, CHR 0xB2, CHR 0xD1,
     CHR 0x8C, CHR 0xD1, CHR 0x8E, CHR 0xD0, CHR 0xB5, CHR 0xD1, CHR 0x80, CHR 0xD1,
     CHR 0x83] @ '' '' @ [CHR 0xD0, CHR 0xB2, CHR 0xD1, CHR 0x81, CHR 0xD1, CHR 0x91] @
     '' '' @ [CHR 0xD0, CHR 0xBF, CHR 0xD0, CHR 0xBE, CHR 0xD0, CHR 0xBD, CHR 0xD1,
     CHR 0x80, CHR 0xD0, CHR 0xB0, CHR 0xD0, CHR 0xB2, CHR 0xD0, CHR 0xB8, CHR 0xD0,
     CHR 0xBB, CHR 0xD0, CHR 0xBE, CHR 0xD1, CHR 0x81, CHR 0xD1, CHR 0x8C] @ ''. '' @
     [CHR 0xD0, CHR 0xA3, CHR 0xD1, CHR 0x80, CHR 0xD0, CHR 0xB0] @ ''!''"

text \<open>
  The message that src/unnamed/part_000 builds for the same record, whose lesson name and
  reviewer comment are empty: the lesson between quotes after the name, and a second line for
  the comment.
\<close>

definition scenario_message_p0 :: string where
  "scenario_message_p0 = [CHR 0xD0, CHR 0x98, CHR 0xD0, CHR 0xB7, CHR 0xD0, CHR 0xBC,
     CHR 0xD0, CHR 0xB5, CHR 0xD0, CHR 0xBD, CHR 0xD0, CHR 0xB8, CHR 0xD0, CHR 0xBB,
     CHR 0xD1, CHR 0x81, CHR 0xD1, CHR 0x8F] @ '' '' @ [CHR 0xD1, CHR 0x81, CHR 0xD1,
     CHR 0x82, CHR 0xD0, CHR 0xB0, CHR 0xD1, CHR 0x82, CHR 0xD1, CHR 0x83, CHR 0xD1,
     CHR 0x81] @ '' '' @ [CHR 0xD0, CHR 0xBF, CHR 0xD1, CHR 0x80, CHR 0xD0, CHR 0xBE,
     CHR 0xD0, CHR 0xB2, CHR 0xD0, CHR 0xB5, CHR 0xD1, CHR 0x80, CHR 0xD0, CHR 0xBA,
     CHR 0xD0, CHR 0xB8] @ '' '' @ [CHR 0xD1, CHR 0x80, CHR 0xD0, CHR 0xB0, CHR 0xD0,
     CHR 0xB1, CHR 0xD0, CHR 0xBE, CHR 0xD1, CHR 0x82, CHR 0xD1, CHR 0x8B] @ '' '' @
     [CHR 0x22] @ ''hw1'' @ [CHR 0x22] @ '' '' @ [CHR 0xD0, CHR 0xB4, CHR 0xD0, CHR 0xBB,
     CHR 0xD1, CHR 0x8F] @ '' '' @ [CHR 0xD1, CHR 0x83, CHR 0xD1, CHR 0x80, CHR 0xD0,
     CHR 0xBE, CHR 0xD0, CHR 0xBA, CHR 0xD0, CHR 0xB0] @ '' '' @ [CHR 0x22, CHR 0x22] @
     '': '' @ [CHR 0xD0, CHR 0xA0, CHR 0xD0, CHR 0xB0, CHR 0xD0, CHR 0xB1, CHR 0xD0,
     CHR 0xBE, CHR 0xD1, CHR 0x82, CHR 0xD0, CHR 0xB0] @ '' '' @ [CHR 0xD0, CHR 0xBF,
     CHR 0xD1, CHR 0x80, CHR 0xD0, CHR 0xBE, CHR 0xD0, CHR 0xB2, CHR 0xD0, CHR 0xB5,
     CHR 0xD1, CHR 0x80, CHR 0xD0, CHR 0xB5, CHR 0xD0, CHR 0xBD, CHR 0xD0, CHR 0xB0] @
     '': '' @ [CHR 0xD1, CHR 0x80, CHR 0xD0, CHR 0xB5, CHR 0xD0, CHR 0xB2, CHR 0xD1,
     CHR 0x8C, CHR 0xD1, CHR 0x8E, CHR 0xD0, CHR 0xB5, CHR 0xD1, CHR 0x80, CHR 0xD1,
     CHR 0x83] @ '' '' @ [CHR 0xD0, CHR 0xB2, CHR 0xD1, CHR 0x81, CHR 0xD1, CHR 0x91] @
     '' '' @ [CHR 0xD0, CHR 0xBF, CHR 0xD0, CHR 0xBE, CHR 0xD0, CHR 0xBD, CHR 0xD1,
     CHR 0x80, CHR 0xD0, CHR 0xB0, CHR 0xD0, CHR 0xB2, CHR 0xD0, CHR 0xB8, CHR 0xD0,
     CHR 0xBB, CHR 0xD0, CHR 0xBE, CHR 0xD1, CHR 0x81, CHR 0xD1, CHR 0x8C] @ ''. '' @
     [CHR 0xD0, CHR 0xA3, CHR 0xD1, CHR 0x80, CHR 0xD0, CHR 0xB0] @ ''!'' @ [CHR 0x0A,
     CHR 0xD0, CHR 0x9A, CHR 0xD0, CHR 0xBE, CHR 0xD0, CHR 0xBC, CHR 0xD0, CHR 0xBC,
     CHR 0xD0, CHR 0xB5, CHR 0xD0, CHR 0xBD, CHR 0xD1, CHR 0x82, CHR 0xD0, CHR 0xB0,
     CHR 0xD1, CHR 0x80, CHR 0xD0, CHR 0xB8, CHR 0xD0, CHR 0xB9] @ '' '' @ [CHR 0xD1,
     CHR 0x80, CHR 0xD0, CHR 0xB5, CHR 0xD0, CHR 0xB2, CHR 0xD1, CHR 0x8C, CHR 0xD1,
     CHR 0x8E, CHR 0xD0, CHR 0xB5, CHR 0xD1, CHR 0x80, CHR 0xD0, CHR 0xB0] @ '': ''"

definition hw1_approved :: Homework where
  "hw1_approved = \<lparr>Name = ''hw1'', Status = ''approved''\<rparr>"

text \<open>
  The world \<open>e\<close> answers the request for the timestamp \<open>t\<close> with status 200 and a body that
  decodes to \<open>payload\<close>.
\<close>

definition answers :: "env \<Rightarrow> config \<Rightarrow> int64 \<Rightarrow> jmap \<Rightarrow> bool" where
  "answers e cfg t payload =
     (NewRequest e ''GET'' (api_url t) = None \<and>
      (case Do e (api_request cfg t) of
         Inl err \<Rightarrow> False
       | Inr resp \<Rightarrow> StatusCode resp = StatusOK \<and> Decode resp = Inr payload))"

text \<open>
  A configuration, and worlds in which the homework API answers 200 with a given payload and
  sending to Telegram has a given result (\<^const>\<open>None\<close> is success).
\<close>

definition sample_config :: config where
  "sample_config =
     \<lparr>PracticumToken = ''practicum'', TelegramToken = ''telegram'', TelegramChatID = ''42''\<rparr>"

definition answer :: "jmap \<Rightarrow> response" where
  "answer payload = \<lparr>StatusCode = 200, Decode = Inr payload, Close = None\<rparr>"

definition world :: "jmap \<Rightarrow> error option \<Rightarrow> env" where
  "world payload sending =
     \<lparr>Now_Unix = 1700000000,
      NewRequest = (\<lambda>method url. None),
      Do = (\<lambda>req. if Method req = ''GET'' then Inr (answer payload)
                  else (case sending of None \<Rightarrow> Inr (answer []) | Some err \<Rightarrow> Inl err)),
      Send = (\<lambda>chatID message. sending),
      ParseInt = (\<lambda>s. if s = ''42'' then Inr 42 else Inl ''invalid syntax'')\<rparr>"

section \<open>Facts about the texts\<close>

lemma statuses_distinct:
  "ApprovedStatus \<noteq> ReviewingStatus" "ApprovedStatus \<noteq> RejectedStatus"
  "ReviewingStatus \<noteq> RejectedStatus"
  "no_new_statuses \<noteq> ApprovedStatus" "no_new_statuses \<noteq> ReviewingStatus"
  "no_new_statuses \<noteq> RejectedStatus"
  by (simp_all add: ApprovedStatus_def ReviewingStatus_def RejectedStatus_def no_new_statuses_def)

lemma HomeworkVerdict_None_iff:
  "HomeworkVerdict s = None \<longleftrightarrow> s \<notin> {ApprovedStatus, ReviewingStatus, RejectedStatus}"
  by (simp add: HomeworkVerdict_def)

lemma HomeworkVerdict_table:
  "HomeworkVerdict ApprovedStatus = Some verdict_approved"
  "HomeworkVerdict ReviewingStatus = Some verdict_reviewing"
  "HomeworkVerdict RejectedStatus = Some verdict_rejected"
  using statuses_distinct by (simp_all add: HomeworkVerdict_def)

lemma HomeworkVerdict_known:
  "s \<in> {ApprovedStatus, ReviewingStatus, RejectedStatus} \<Longrightarrow> \<exists>v. HomeworkVerdict s = Some v"
  using HomeworkVerdict_None_iff [of s] by (cases "HomeworkVerdict s") auto

lemma bogus_unknown:
  "''bogus'' \<notin> {ApprovedStatus, ReviewingStatus, RejectedStatus}" "''bogus'' \<noteq> no_new_statuses"
  by (simp_all add: ApprovedStatus_def ReviewingStatus_def RejectedStatus_def no_new_statuses_def)

lemma sublist_mid: "sublist xs (a @ xs @ b)"
  unfolding sublist_def by blast

lemma len_positive_iff: "0 < len s \<longleftrightarrow> (\<exists>first others. s = Some (first # others))"
  by (cases s rule: len.cases) (auto simp: neq_Nil_conv)

section \<open>parseStatus: the translator\<close>

lemma parseStatus_known:
  "HomeworkVerdict (Status h) = Some v \<Longrightarrow>
   parseStatus h = ([], txt_status_changed @ Name h @ txt_quote_colon @ v, None)"
  by (simp add: parseStatus_def)

lemma parseStatus_sentinel:
  "Status h = no_new_statuses \<Longrightarrow>
   parseStatus h = ([Logger (Println no_new_statuses)], no_new_statuses, None)"
  using statuses_distinct HomeworkVerdict_None_iff [of no_new_statuses]
  by (simp add: parseStatus_def)

lemma parseStatus_unknown:
  "Status h \<notin> {ApprovedStatus, ReviewingStatus, RejectedStatus} \<Longrightarrow>
   Status h \<noteq> no_new_statuses \<Longrightarrow>
   parseStatus h =
     ([Logger (log_output (txt_parse_status_failed @ txt_unknown_status @ Status h))], [],
      Some (txt_unknown_status @ Status h))"
  using HomeworkVerdict_None_iff [of "Status h"]
  by (simp add: parseStatus_def Let_def)

lemma parseStatus_p0_known:
  "HomeworkVerdict (Status h) = Some v \<Longrightarrow>
   parseStatus_p0 h =
     ([], txt_status_changed @ Name h @ txt_for_lesson @ LessonName h @ txt_quote_colon @ v @
          txt_reviewer_comment @ ReviewerComment h, None)"
  using HomeworkVerdict_None_iff [of "Status h"]
  by (simp add: parseStatus_p0_def Let_def)

lemma parseStatus_p0_unknown:
  "Status h \<notin> {ApprovedStatus, ReviewingStatus, RejectedStatus} \<Longrightarrow>
   parseStatus_p0 h =
     ([Logger (log_output (txt_parse_status_failed @ txt_unknown_status @ Status h))], [],
      Some (txt_unknown_status @ Status h))"
  by (simp add: parseStatus_p0_def Let_def)

text \<open>
  C5. For a record whose status is \<^verbatim>\<open>approved\<close>, \<^verbatim>\<open>reviewing\<close> or \<^verbatim>\<open>rejected\<close>,
  \<^verbatim>\<open>parseStatus\<close> returns, with no error, a message that contains the name of the record and the
  text that \<^verbatim>\<open>HomeworkVerdict\<close> holds for the status. For a status that is none of the three and
  not the text \<^const>\<open>no_new_statuses\<close>, it returns an error and the empty message. Both hold
  in src/main.go (\<open>h\<close>) and in src/unnamed/part_000 (\<open>h'\<close>).
\<close>

theorem parseStatus_total_on_statuses:
  fixes h :: Homework and h' :: Homework_p0
  shows
  "(Status h \<in> {ApprovedStatus, ReviewingStatus, RejectedStatus} \<longrightarrow>
      (\<exists>msg verdict. snd (parseStatus h) = (msg, None) \<and>
         HomeworkVerdict (Status h) = Some verdict \<and>
         sublist (Name h) msg \<and> sublist verdict msg)) \<and>
   (Status h \<notin> {ApprovedStatus, ReviewingStatus, RejectedStatus} \<and>
    Status h \<noteq> no_new_statuses \<longrightarrow>
      (\<exists>err. snd (parseStatus h) = ([], Some err))) \<and>
   (Status h' \<in> {ApprovedStatus, ReviewingStatus, RejectedStatus} \<longrightarrow>
      (\<exists>msg verdict. snd (parseStatus_p0 h') = (msg, None) \<and>
         HomeworkVerdict (Status h') = Some verdict \<and>
         sublist (Name h') msg \<and> sublist verdict msg)) \<and>
   (Status h' \<notin> {ApprovedStatus, ReviewingStatus, RejectedStatus} \<and>
    Status h' \<noteq> no_new_statuses \<longrightarrow>
      (\<exists>err. snd (parseStatus_p0 h') = ([], Some err)))"
proof (intro conjI impI)
  assume "Status h \<in> {ApprovedStatus, ReviewingStatus, RejectedStatus}"
  then obtain v where v: "HomeworkVerdict (Status h) = Some v"
    using HomeworkVerdict_known by blast
  have "sublist (Name h) (txt_status_changed @ Name h @ txt_quote_colon @ v)"
    by (rule sublist_mid)
  moreover have "sublist v (txt_status_changed @ Name h @ txt_quote_colon @ v)"
    using sublist_mid [of v "txt_status_changed @ Name h @ txt_quote_colon" "[]"] by simp
  ultimately show "\<exists>msg verdict. snd (parseStatus h) = (msg, None) \<and>
         HomeworkVerdict (Status h) = Some verdict \<and>
         sublist (Name h) msg \<and> sublist verdict msg"
    using v by (simp add: parseStatus_known)
next
  assume "Status h \<notin> {ApprovedStatus, ReviewingStatus, RejectedStatus} \<and>
    Status h \<noteq> no_new_statuses"
  then show "\<exists>err. snd (parseStatus h) = ([], Some err)"
    by (simp add: parseStatus_unknown)
next
  assume "Status h' \<in> {ApprovedStatus, ReviewingStatus, RejectedStatus}"
  then obtain v where v: "HomeworkVerdict (Status h') = Some v"
    using HomeworkVerdict_known by blast
  let ?m = "txt_status_changed @ Name h' @ txt_for_lesson @ LessonName h' @ txt_quote_colon @ v @
          txt_reviewer_comment @ ReviewerComment h'"
  have "sublist (Name h') ?m"
    by (rule sublist_mid)
  moreover have "sublist v ?m"
    using sublist_mid [of v
        "txt_status_changed @ Name h' @ txt_for_lesson @ LessonName h' @ txt_quote_colon"
        "txt_reviewer_comment @ ReviewerComment h'"] by simp
  ultimately show "\<exists>msg verdict. snd (parseStatus_p0 h') = (msg, None) \<and>
         HomeworkVerdict (Status h') = Some verdict \<and>
         sublist (Name h') msg \<and> sublist verdict msg"
    using v by (simp add: parseStatus_p0_known)
next
  assume "Status h' \<notin> {ApprovedStatus, ReviewingStatus, RejectedStatus} \<and>
    Status h' \<noteq> no_new_statuses"
  then show "\<exists>err. snd (parseStatus_p0 h') = ([], Some err)"
    by (simp add: parseStatus_p0_unknown)
qed

theorem parseStatus_total_on_statuses_witness:
  "(\<exists>msg verdict.
      snd (parseStatus \<lparr>Name = ''hw1'', Status = ApprovedStatus\<rparr>) = (msg, None) \<and>
      HomeworkVerdict ApprovedStatus = Some verdict \<and>
      sublist ''hw1'' msg \<and> sublist verdict msg) \<and>
   (\<exists>err. snd (parseStatus \<lparr>Name = ''hw1'', Status = ''bogus''\<rparr>) = ([], Some err)) \<and>
   (\<exists>msg verdict.
      snd (parseStatus_p0 \<lparr>Name = ''hw1'', Status = RejectedStatus,
                           ReviewerComment = ''redo'', LessonName = ''l1''\<rparr>) = (msg, None) \<and>
      HomeworkVerdict RejectedStatus = Some verdict \<and>
      sublist ''hw1'' msg \<and> sublist verdict msg) \<and>
   (\<exists>err. snd (parseStatus_p0 \<lparr>Name = ''hw1'', Status = ''bogus'',
                               ReviewerComment = [], LessonName = []\<rparr>) = ([], Some err))"
  using
    parseStatus_total_on_statuses
      [of "\<lparr>Name = ''hw1'', Status = ApprovedStatus\<rparr>"
          "\<lparr>Name = ''hw1'', Status = RejectedStatus, ReviewerComment = ''redo'', LessonName = ''l1''\<rparr>"]
    parseStatus_total_on_statuses
      [of "\<lparr>Name = ''hw1'', Status = ''bogus''\<rparr>"
          "\<lparr>Name = ''hw1'', Status = ''bogus'', ReviewerComment = [], LessonName = []\<rparr>"]
    bogus_unknown
  by simp

text \<open>
  C3, as the code has it. In src/main.go a record whose status is the text
  \<^const>\<open>no_new_statuses\<close> gets that text back with no error, and any other status outside the
  three gets an error. In src/unnamed/part_000 \<^verbatim>\<open>parseStatus\<close> has no case for that text: every
  status outside the three, that text included, gets an error.
\<close>

theorem parseStatus_sentinel_by_program:
  fixes h :: Homework and h' :: Homework_p0
  shows
  "(Status h = no_new_statuses \<longrightarrow> snd (parseStatus h) = (no_new_statuses, None)) \<and>
   (Status h \<notin> {ApprovedStatus, ReviewingStatus, RejectedStatus} \<and>
    Status h \<noteq> no_new_statuses \<longrightarrow>
      snd (parseStatus h) = ([], Some (txt_unknown_status @ Status h))) \<and>
   (Status h' \<notin> {ApprovedStatus, ReviewingStatus, RejectedStatus} \<longrightarrow>
      snd (parseStatus_p0 h') = ([], Some (txt_unknown_status @ Status h')))"
  by (simp add: parseStatus_sentinel parseStatus_unknown parseStatus_p0_unknown)

theorem parseStatus_sentinel_by_program_witness:
  "snd (parseStatus \<lparr>Name = [], Status = no_new_statuses\<rparr>) = (no_new_statuses, None) \<and>
   snd (parseStatus \<lparr>Name = ''hw1'', Status = ''bogus''\<rparr>) =
     ([], Some (txt_unknown_status @ ''bogus'')) \<and>
   snd (parseStatus_p0 \<lparr>Name = [], Status = no_new_statuses,
                        ReviewerComment = [], LessonName = []\<rparr>) =
     ([], Some (txt_unknown_status @ no_new_statuses))"
  using
    parseStatus_sentinel_by_program
      [of "\<lparr>Name = [], Status = no_new_statuses\<rparr>"
          "\<lparr>Name = [], Status = no_new_statuses, ReviewerComment = [], LessonName = []\<rparr>"]
    parseStatus_sentinel_by_program
      [of "\<lparr>Name = ''hw1'', Status = ''bogus''\<rparr>"
          "\<lparr>Name = ''hw1'', Status = ''bogus'', ReviewerComment = [], LessonName = []\<rparr>"]
    bogus_unknown statuses_distinct
  by simp

text \<open>
  C3 as stated fails in src/unnamed/part_000: for the record with the status
  \<^const>\<open>no_new_statuses\<close>, \<^verbatim>\<open>parseStatus\<close> returns an error and not that text.
\<close>

theorem parseStatus_p0_sentinel_counterexample:
  "snd (parseStatus_p0 \<lparr>Name = [], Status = no_new_statuses,
                        ReviewerComment = [], LessonName = []\<rparr>) \<noteq> (no_new_statuses, None)"
  using statuses_distinct by (simp add: parseStatus_p0_def Let_def)

section \<open>The body of the second program's sendMessage as a JSON text\<close>
lemma costs_simps [simp]:
  "costs [] = 0" "costs (i # items) = cost i + costs items"
  by (simp_all add: costs_def)

lemma parse_items_plain:
  "plain s \<Longrightarrow> parse_items (s @ quote # r) = Some (map Raw s, r)"
  by (induction s) (simp_all add: plain_def)

lemma decode_items_Raw: "decode_items (map Raw s) = s"
  by (induction s) simp_all

lemma parse_string_plain:
  "plain s \<Longrightarrow> parse_string (s @ quote # r) = Some (s, r)"
  by (simp add: parse_string_def parse_items_plain decode_items_Raw)

lemma hex4_Some:
  "hex4 xs = Some u \<Longrightarrow> length xs = 4 \<and> (\<forall>c \<in> set xs. hexval c \<noteq> None)"
  by (induction xs rule: hex4.induct) (auto split: option.splits)

lemma parse_items_length:
  "parse_items s = Some (items, r) \<Longrightarrow> length s = costs items + 1 + length r"
proof (induction s arbitrary: items r rule: parse_items.induct)
  case 1
  then show ?case by simp
next
  case (2 c cs)
  show ?case
  proof (cases "c = quote")
    case True
    with "2.prems" show ?thesis by simp
  next
    case nq: False
    show ?thesis
    proof (cases "c = backslash")
      case True
      then obtain e cs' where cs: "cs = e # cs'"
        using "2.prems" nq by (cases cs) auto
      show ?thesis
      proof (cases "e = CHR ''u''")
        case u: True
        from "2.prems" nq True cs u obtain n items' where
          h: "hex4 (take 4 cs') = Some n" and
          p: "parse_items (drop 4 cs') = Some (items', r)" and
          i: "items = Uni n # items'"
          by (auto split: option.splits)
        from h have l: "4 \<le> length cs'"
          using hex4_Some [OF h] by (simp add: min_def split: if_splits)
        from "2.IH"(1) [OF nq True cs u h p] have "length (drop 4 cs') = costs items' + 1 + length r" .
        with l i cs show ?thesis by simp
      next
        case nu: False
        from "2.prems" nq True cs nu obtain b items' where
          h: "unescape e = Some b" and
          p: "parse_items cs' = Some (items', r)" and
          i: "items = Esc b # items'"
          by (auto split: option.splits)
        from "2.IH"(2) [OF nq True cs nu h p] i cs show ?thesis by simp
      qed
    next
      case nb: False
      from "2.prems" nq nb obtain items' where
        nc: "\<not> is_control c" and
        p: "parse_items cs = Some (items', r)" and
        i: "items = Raw c # items'"
        by (auto split: option.splits if_splits)
      from "2.IH"(3) [OF nq nb nc p] i show ?thesis by simp
    qed
  qed
qed

lemma length_utf8: "length (utf8 n) \<le> 4"
  by (simp add: utf8_def)

lemma decode_items_length:
  "length (decode_items items) \<le> costs items \<and>
   (\<not> all_raw items \<longrightarrow> length (decode_items items) < costs items)"
proof (induction items rule: decode_items.induct)
  case (4 u v items)
  have "length (utf8 (0x10000 + (u - 0xD800) * 1024 + (v - 0xDC00))) \<le> 4"
       "length (utf8 0xFFFD) \<le> 4" "length (utf8 u) \<le> 4"
    by (rule length_utf8)+
  with 4 show ?case by (auto split: if_splits)
next
  case (5 u)
  have "length (utf8 0xFFFD) \<le> 4" "length (utf8 u) \<le> 4"
    by (rule length_utf8)+
  then show ?case by auto
next
  case (6 u c items)
  have "length (utf8 0xFFFD) \<le> 4" "length (utf8 u) \<le> 4"
    by (rule length_utf8)+
  with 6 show ?case by auto
next
  case (7 u c items)
  have "length (utf8 0xFFFD) \<le> 4" "length (utf8 u) \<le> 4"
    by (rule length_utf8)+
  with 7 show ?case by auto
qed simp_all

lemma parse_items_all_raw:
  "parse_items s = Some (items, r) \<Longrightarrow> all_raw items \<Longrightarrow>
   s = decode_items items @ quote # r \<and> plain (decode_items items)"
proof (induction s arbitrary: items r rule: parse_items.induct)
  case 1
  then show ?case by simp
next
  case (2 c cs)
  show ?case
  proof (cases "c = quote")
    case True
    with "2.prems" show ?thesis by (simp add: plain_def)
  next
    case nq: False
    show ?thesis
    proof (cases "c = backslash")
      case True
      with "2.prems" nq show ?thesis
        by (auto split: option.splits list.splits if_splits)
    next
      case nb: False
      from "2.prems" nq nb obtain items' where
        nc: "\<not> is_control c" and
        p: "parse_items cs = Some (items', r)" and
        i: "items = Raw c # items'"
        by (auto split: option.splits if_splits)
      from "2.prems"(2) i have "all_raw items'" by simp
      from "2.IH"(3) [OF nq nb nc p this] i nq nb nc show ?thesis
        by (simp add: plain_def)
    qed
  qed
qed

lemma parse_items_exact:
  assumes "parse_items s = Some (items, r)"
    and "length (decode_items items) + 1 + length r = length s"
  shows "s = decode_items items @ quote # r \<and> plain (decode_items items)"
proof -
  have "all_raw items"
    using decode_items_length [of items] parse_items_length [OF assms(1)] assms(2) by auto
  then show ?thesis
    using parse_items_all_raw [OF assms(1)] by simp
qed

lemma hexval_quote: "hexval quote = None"
  by (simp add: hexval_def)

lemma parse_items_split:
  "parse_items (a @ quote # X) = Some (items, r) \<Longrightarrow>
   length X < length r \<or> r = X \<or> (\<exists>items'. parse_items X = Some (items', r))"
proof (induction a arbitrary: items rule: length_induct)
  case (1 a)
  show ?case
  proof (cases a)
    case Nil
    with "1.prems" show ?thesis by simp
  next
    case (Cons c cs)
    show ?thesis
    proof (cases "c = quote")
      case True
      with "1.prems" Cons show ?thesis by auto
    next
      case nq: False
      show ?thesis
      proof (cases "c = backslash")
        case True
        show ?thesis
        proof (cases cs)
          case Nil
          with "1.prems" Cons nq True show ?thesis
            by (auto simp: unescape_def split: option.splits if_splits)
        next
          case cs: (Cons e cs')
          show ?thesis
          proof (cases "e = CHR ''u''")
            case u: True
            from "1.prems" Cons nq True cs u obtain n items' where
              h: "hex4 (take 4 (cs' @ quote # X)) = Some n" and
              p: "parse_items (drop 4 (cs' @ quote # X)) = Some (items', r)"
              by (auto split: option.splits)
            have l: "4 \<le> length cs'"
            proof (rule ccontr)
              assume "\<not> 4 \<le> length cs'"
              then obtain k where "4 - length cs' = Suc k"
                by (cases "4 - length cs'") auto
              then have "quote \<in> set (take 4 (cs' @ quote # X))"
                by simp
              moreover have "\<forall>c \<in> set (take 4 (cs' @ quote # X)). hexval c \<noteq> None"
                using hex4_Some [OF h] by blast
              ultimately show False using hexval_quote by blast
            qed
            then have "drop 4 (cs' @ quote # X) = drop 4 cs' @ quote # X" by simp
            with p have p': "parse_items (drop 4 cs' @ quote # X) = Some (items', r)" by simp
            have "length (drop 4 cs') < length a" using Cons cs by simp
            with "1.IH" p' show ?thesis by blast
          next
            case nu: False
            from "1.prems" Cons nq True cs nu obtain items' where
              p: "parse_items (cs' @ quote # X) = Some (items', r)"
              by (auto split: option.splits)
            have "length cs' < length a" using Cons cs by simp
            with "1.IH" p show ?thesis by blast
          qed
        qed
      next
        case nb: False
        from "1.prems" Cons nq nb obtain items' where
          p: "parse_items (cs @ quote # X) = Some (items', r)"
          by (auto split: option.splits if_splits)
        have "length cs < length a" using Cons by simp
        with "1.IH" p show ?thesis by blast
      qed
    qed
  qed
qed

lemmas parse_simps = parse_value.simps parse_elements.simps parse_members.simps

lemma skip_ws_simps:
  "skip_ws [] = []"
  "skip_ws (c # cs) = (if is_ws c then skip_ws cs else c # cs)"
  by (simp_all add: skip_ws_def)

lemmas json_chars = is_control_def is_ws_def skip_ws_simps

lemma data_eq:
  "sendMessage_data cfg message =
     CHR ''{'' # quote # ''chat_id'' @ quote # '': '' @ quote # TelegramChatID cfg @ quote # tail_text message"
  by (simp add: sendMessage_data_def txt_body_open_def txt_body_mid_def txt_body_close_def
      tail_text_def)

lemma parse_members_nonempty:
  "parse_members n s = Some (ms, r) \<Longrightarrow> ms \<noteq> []"
  by (cases n; cases s) (auto simp: parse_simps split: option.splits list.splits if_splits)

lemma step_text:
  "parse_members (Suc (Suc n)) (quote # ''text'' @ quote # '': '' @ quote # msg @ [quote, CHR ''}'']) =
     (case parse_items (msg @ [quote, CHR ''}'']) of
        None \<Rightarrow> None
      | Some (items, r) \<Rightarrow>
          (case skip_ws r of
             [] \<Rightarrow> None
           | d # ds \<Rightarrow>
               if d = CHR ''}'' then Some ([(''text'', JString (decode_items items))], ds)
               else if d = CHR '','' then
                 (case parse_members (Suc n) (skip_ws ds) of
                    None \<Rightarrow> None
                  | Some (ms, r') \<Rightarrow> Some ((''text'', JString (decode_items items)) # ms, r'))
               else None))"
  by (simp add: parse_simps parse_string_def json_chars split: option.splits list.splits)

lemma step_chat:
  "parse_value (Suc (Suc (Suc n))) (CHR ''{'' # quote # ''chat_id'' @ quote # '': '' @ quote # chat @ quote # X) =
     (case parse_items (chat @ quote # X) of
        None \<Rightarrow> None
      | Some (items, r) \<Rightarrow>
          (case skip_ws r of
             [] \<Rightarrow> None
           | d # ds \<Rightarrow>
               if d = CHR ''}'' then Some (JObject [(''chat_id'', JString (decode_items items))], ds)
               else if d = CHR '','' then
                 (case parse_members (Suc n) (skip_ws ds) of
                    None \<Rightarrow> None
                  | Some (ms, r') \<Rightarrow>
                      Some (JObject ((''chat_id'', JString (decode_items items)) # ms), r'))
               else None))"
proof (cases "parse_items (chat @ quote # X)")
  case None
  then show ?thesis by (simp add: parse_simps parse_string_def json_chars)
next
  case (Some p)
  obtain items r where p: "p = (items, r)" by force
  show ?thesis
    by (cases "skip_ws r")
       (simp_all add: Some p parse_simps parse_string_def json_chars split: option.splits)
qed

lemma tail_text_items:
  "parse_items (tail_text msg) = Some ([Raw CHR '','', Raw CHR '' ''], ''text'' @ quote # '': '' @ quote # msg @ [quote, CHR ''}''])"
  by (simp add: tail_text_def json_chars)

lemma skip_tail_text:
  "skip_ws (tail_text msg) = CHR '','' # '' '' @ quote # ''text'' @ quote # '': '' @ quote # msg @ [quote, CHR ''}'']"
  by (simp add: tail_text_def json_chars)

lemma length_data: "\<exists>n. length (sendMessage_data cfg message) = Suc (Suc (Suc (Suc n)))"
  by (rule exI [of _ "23 + length (TelegramChatID cfg) + length message"])
     (simp add: data_eq tail_text_def)

lemma skip_data: "skip_ws (sendMessage_data cfg message) = sendMessage_data cfg message"
  by (simp add: data_eq json_chars)

text \<open>Plain strings give the object with the two fields.\<close>

lemma data_plain:
  assumes "plain (TelegramChatID cfg)" "plain message"
  shows "json_decode (sendMessage_data cfg message) =
     Some (JObject [(''chat_id'', JString (TelegramChatID cfg)), (''text'', JString message)])"
proof -
  obtain n where n: "length (sendMessage_data cfg message) = Suc (Suc (Suc (Suc n)))"
    using length_data by blast
  have 1: "parse_items (TelegramChatID cfg @ quote # tail_text message) =
      Some (map Raw (TelegramChatID cfg), tail_text message)"
    using assms(1) by (rule parse_items_plain)
  have 2: "parse_items (message @ [quote, CHR ''}'']) = Some (map Raw message, ''}'')"
    using parse_items_plain [OF assms(2), of "''}''"] by simp
  have m: "parse_members (Suc (Suc n)) (quote # ''text'' @ quote # '': '' @ quote # message @ [quote, CHR ''}'']) =
      Some ([(''text'', JString message)], [])"
    by (simp only: step_text 2) (simp add: decode_items_Raw json_chars)
  have "parse_value (Suc (Suc (Suc (Suc n)))) (sendMessage_data cfg message) =
      Some (JObject [(''chat_id'', JString (TelegramChatID cfg)), (''text'', JString message)], [])"
    unfolding data_eq step_chat 1
    using m by (simp add: skip_tail_text decode_items_Raw json_chars)
  then show ?thesis
    by (simp add: json_decode_def skip_data n) (simp add: json_chars)
qed

text \<open>
  Conversely: a string that is read back as itself ends at its own closing quote and is plain,
  unless the reader ran past that quote.
\<close>

lemma string_end:
  assumes p: "parse_items (s @ quote # X) = Some (items, r)"
    and d: "decode_items items = s"
  shows "(r = X \<and> plain s) \<or> (\<exists>items'. parse_items X = Some (items', r))"
proof -
  have len: "length (s @ quote # X) = costs items + 1 + length r"
    using p by (rule parse_items_length)
  have le: "length s \<le> costs items"
    using decode_items_length [of items] d by simp
  consider "length X < length r" | "r = X" | "\<exists>items'. parse_items X = Some (items', r)"
    using parse_items_split [OF p] by blast
  then show ?thesis
  proof cases
    case 1
    with len le show ?thesis by simp
  next
    case 2
    with len d have "length (decode_items items) + 1 + length r = length (s @ quote # X)"
      using le decode_items_length [of items] by auto
    from parse_items_exact [OF p this] d 2 show ?thesis by simp
  next
    case 3
    then show ?thesis by blast
  qed
qed

lemma data_decoded:
  assumes dec: "json_decode (sendMessage_data cfg message) =
     Some (JObject [(''chat_id'', JString (TelegramChatID cfg)), (''text'', JString message)])"
  shows "plain (TelegramChatID cfg) \<and> plain message"
proof -
  let ?chat = "TelegramChatID cfg"
  obtain n where n: "length (sendMessage_data cfg message) = Suc (Suc (Suc (Suc n)))"
    using length_data by blast
  from dec obtain rest where
    pv: "parse_value (Suc (Suc (Suc (Suc n)))) (sendMessage_data cfg message) =
          Some (JObject [(''chat_id'', JString ?chat), (''text'', JString message)], rest)"
    by (auto simp: json_decode_def skip_data n split: option.splits if_splits)
  from pv obtain items1 r1 where
    p1: "parse_items (?chat @ quote # tail_text message) = Some (items1, r1)"
    unfolding data_eq step_chat by (auto split: option.splits)
  from pv p1 obtain ds ms where
    s1: "skip_ws r1 = CHR '','' # ds" and
    d1: "decode_items items1 = ?chat" and
    pm: "parse_members (Suc (Suc n)) (skip_ws ds) = Some (ms, rest)" and
    ms: "ms = [(''text'', JString message)]"
    unfolding data_eq step_chat
    by (auto split: option.splits list.splits if_splits)
  from string_end [OF p1 d1] have r1: "r1 = tail_text message" and plain1: "plain ?chat"
    using s1 by (auto simp: tail_text_items) (simp_all add: json_chars)
  from s1 r1 have ds: "skip_ws ds = quote # ''text'' @ quote # '': '' @ quote # message @ [quote, CHR ''}'']"
    by (auto simp: skip_tail_text) (simp add: json_chars)
  from pm ms obtain items2 r2 where
    p2: "parse_items (message @ [quote, CHR ''}'']) = Some (items2, r2)" and
    d2: "decode_items items2 = message"
    unfolding ds step_text
    by (auto split: option.splits list.splits if_splits dest: parse_members_nonempty)
  from p2 have p2': "parse_items (message @ quote # ''}'') = Some (items2, r2)" by simp
  from string_end [OF p2' d2] have "plain message"
    by (auto simp: json_chars)
  with plain1 show ?thesis ..
qed

lemma quote_invalid:
  assumes "plain (TelegramChatID cfg)"
  shows "json_decode (sendMessage_data cfg [quote]) = None"
proof -
  obtain n where n: "length (sendMessage_data cfg [quote]) = Suc (Suc (Suc (Suc n)))"
    using length_data by blast
  have 1: "parse_items (TelegramChatID cfg @ quote # tail_text [quote]) =
      Some (map Raw (TelegramChatID cfg), tail_text [quote])"
    using assms(1) by (rule parse_items_plain)
  have m: "parse_members (Suc (Suc n)) (quote # ''text'' @ quote # '': '' @ quote # [quote] @ [quote, CHR ''}'']) = None"
    by (simp only: step_text) (simp add: json_chars)
  have "parse_value (Suc (Suc (Suc (Suc n)))) (sendMessage_data cfg [quote]) = None"
    unfolding data_eq step_chat 1
    using m by (simp add: skip_tail_text json_chars)
  then show ?thesis
    by (simp add: json_decode_def skip_data n)
qed

text \<open>
  C10. The request that \<^verbatim>\<open>sendMessage\<close> of the second program of src/main.go hands to
  \<^verbatim>\<open>client.Do\<close> has the interpolated text as its body. That body is the JSON object with the
  fields \<^verbatim>\<open>chat_id\<close> and \<^verbatim>\<open>text\<close> equal to the channel identifier and the message exactly when
  neither string contains a double quote, a backslash or a control character. For the message
  that is one double quote (and a plain channel identifier) the body is no JSON text at all.
\<close>

theorem sendMessage_b_body_json:
  "(HttpDo req \<in> set (fst (sendMessage_b cfg e message)) \<longrightarrow>
      Body req = Some (sendMessage_data cfg message)) \<and>
   (json_decode (sendMessage_data cfg message) =
      Some (JObject [(''chat_id'', JString (TelegramChatID cfg)), (''text'', JString message)])
    \<longleftrightarrow> plain (TelegramChatID cfg) \<and> plain message) \<and>
   (plain (TelegramChatID cfg) \<longrightarrow> json_decode (sendMessage_data cfg [quote]) = None)"
proof (intro conjI impI)
  assume "HttpDo req \<in> set (fst (sendMessage_b cfg e message))"
  then show "Body req = Some (sendMessage_data cfg message)"
    by (auto simp: sendMessage_b_def sendMessage_request_def Let_def
        split: option.splits sum.splits if_splits)
next
  show "json_decode (sendMessage_data cfg message) =
      Some (JObject [(''chat_id'', JString (TelegramChatID cfg)), (''text'', JString message)])
    \<longleftrightarrow> plain (TelegramChatID cfg) \<and> plain message"
    using data_plain data_decoded by blast
next
  assume "plain (TelegramChatID cfg)"
  then show "json_decode (sendMessage_data cfg [quote]) = None"
    by (rule quote_invalid)
qed

theorem sendMessage_b_body_json_witness:
  "Body (sendMessage_request sample_config ''hi'') = Some (sendMessage_data sample_config ''hi'') \<and>
   json_decode (sendMessage_data sample_config ''hi'') =
     Some (JObject [(''chat_id'', JString ''42''), (''text'', JString ''hi'')]) \<and>
   json_decode (sendMessage_data sample_config [quote]) = None \<and>
   json_decode (sendMessage_data sample_config [quote]) \<noteq>
     Some (JObject [(''chat_id'', JString ''42''), (''text'', JString [quote])])"
  using
    sendMessage_b_body_json
      [of "sendMessage_request sample_config ''hi''" sample_config "world [] None" "''hi''"]
    sendMessage_b_body_json
      [of "sendMessage_request sample_config ''hi''" sample_config "world [] None" "[quote]"]
  by (simp add: sendMessage_b_def sendMessage_request_def Let_def sample_config_def world_def
      plain_def is_control_def answer_def StatusOK_def)

section \<open>checkResponse: the validator\<close>

lemma well_formed_iff:
  "well_formed j \<longleftrightarrow>
     (\<exists>m n s. j = JObject m \<and> map_of m ''homework_name'' = Some (JString n) \<and>
        map_of m ''status'' = Some (JString s))"
proof
  assume wf: "well_formed j"
  then obtain m where j: "j = JObject m"
    by (cases j) (simp_all add: well_formed_def)
  from wf j obtain n where n: "map_of m ''homework_name'' = Some (JString n)"
    by (cases "(map_of m ''homework_name'')" rule: assert_string.cases)
       (simp_all add: well_formed_def)
  from wf j obtain s where "map_of m ''status'' = Some (JString s)"
    by (cases "(map_of m ''status'')" rule: assert_string.cases)
       (simp_all add: well_formed_def)
  with j n show "\<exists>m n s. j = JObject m \<and> map_of m ''homework_name'' = Some (JString n) \<and>
        map_of m ''status'' = Some (JString s)"
    by blast
next
  assume "\<exists>m n s. j = JObject m \<and> map_of m ''homework_name'' = Some (JString n) \<and>
        map_of m ''status'' = Some (JString s)"
  then show "well_formed j"
    by (auto simp: well_formed_def)
qed

text \<open>The loop on well-formed elements fills the slots from \<open>i\<close> on, one for each element.\<close>

lemma checkResponse_loop_well_formed:
  "list_all well_formed js \<Longrightarrow> i + length js \<le> length hws \<Longrightarrow>
   checkResponse_loop hws i js =
     (Some (take i hws @ map homework_of js @ drop (i + length js) hws), None)"
proof (induction js arbitrary: hws i)
  case Nil
  then show ?case by simp
next
  case (Cons j js)
  from Cons.prems have wf: "well_formed j" and rest: "list_all well_formed js"
    and len: "Suc i + length js \<le> length (hws[i := homework_of j])" and i: "i < length hws"
    by simp_all
  from wf obtain m n s where "j = JObject m" "map_of m ''homework_name'' = Some (JString n)"
    "map_of m ''status'' = Some (JString s)"
    using well_formed_iff by blast
  then have step: "checkResponse_loop hws i (j # js) =
      checkResponse_loop (hws[i := homework_of j]) (Suc i) js"
    by (simp add: homework_of_def)
  have "take (Suc i) (hws[i := homework_of j]) = take i hws @ [homework_of j]"
    using i by (simp add: take_Suc_conv_app_nth)
  with Cons.IH [OF rest len] step show ?case by simp
qed

lemma checkResponse_loop_p0_well_formed:
  "list_all well_formed js \<Longrightarrow> i + length js \<le> length hws \<Longrightarrow>
   checkResponse_loop_p0 hws i js =
     (Some (take i hws @ map homework_of_p0 js @ drop (i + length js) hws), None)"
proof (induction js arbitrary: hws i)
  case Nil
  then show ?case by simp
next
  case (Cons j js)
  from Cons.prems have wf: "well_formed j" and rest: "list_all well_formed js"
    and len: "Suc i + length js \<le> length (hws[i := homework_of_p0 j])" and i: "i < length hws"
    by simp_all
  from wf obtain m n s where "j = JObject m" "map_of m ''homework_name'' = Some (JString n)"
    "map_of m ''status'' = Some (JString s)"
    using well_formed_iff by blast
  then have step: "checkResponse_loop_p0 hws i (j # js) =
      checkResponse_loop_p0 (hws[i := homework_of_p0 j]) (Suc i) js"
    by (simp add: homework_of_p0_def Let_def)
  have "take (Suc i) (hws[i := homework_of_p0 j]) = take i hws @ [homework_of_p0 j]"
    using i by (simp add: take_Suc_conv_app_nth)
  with Cons.IH [OF rest len] step show ?case by simp
qed

lemma checkResponse_well_formed:
  assumes "map_of response ''homeworks'' = Some (JArray js)" and "list_all well_formed js"
  shows "checkResponse response = (Some (map homework_of js), None)"
    and "checkResponse_p0 response = (Some (map homework_of_p0 js), None)"
  using assms checkResponse_loop_well_formed [of js 0 "replicate (length js) \<lparr>Name = [], Status = []\<rparr>"]
    checkResponse_loop_p0_well_formed [of js 0 "replicate (length js)
      \<lparr>Name = [], Status = [], ReviewerComment = [], LessonName = []\<rparr>"]
  by (simp_all add: checkResponse_def checkResponse_p0_def)

text \<open>
  C6. When \<^verbatim>\<open>homeworks\<close> is a list of objects that each have a string \<^verbatim>\<open>homework_name\<close> and a
  string \<^verbatim>\<open>status\<close>, \<^verbatim>\<open>checkResponse\<close> returns no error and a slice as long as the list, whose
  record at each index has the name and the status of the element at that index. In
  src/unnamed/part_000 the two optional fields are read as well, as the empty string when they are
  absent or no strings.
\<close>

theorem checkResponse_maps_well_formed_list:
  assumes "map_of response ''homeworks'' = Some (JArray js)"
    and "\<forall>j \<in> set js. \<exists>m n s. j = JObject m \<and>
           map_of m ''homework_name'' = Some (JString n) \<and> map_of m ''status'' = Some (JString s)"
  shows "\<exists>hws hws'.
           checkResponse response = (Some hws, None) \<and> length hws = length js \<and>
           checkResponse_p0 response = (Some hws', None) \<and> length hws' = length js \<and>
           (\<forall>i < length js. \<exists>m.
              js ! i = JObject m \<and>
              map_of m ''homework_name'' = Some (JString (Name (hws ! i))) \<and>
              map_of m ''status'' = Some (JString (Status (hws ! i))) \<and>
              map_of m ''homework_name'' = Some (JString (Name (hws' ! i))) \<and>
              map_of m ''status'' = Some (JString (Status (hws' ! i))) \<and>
              ReviewerComment (hws' ! i) = fst (assert_string (map_of m ''reviewer_comment'')) \<and>
              LessonName (hws' ! i) = fst (assert_string (map_of m ''lesson_name'')))"
proof -
  from assms(2) have wf: "list_all well_formed js"
    by (simp add: list_all_iff well_formed_iff)
  have "\<exists>m. js ! i = JObject m \<and>
          map_of m ''homework_name'' = Some (JString (Name (map homework_of js ! i))) \<and>
          map_of m ''status'' = Some (JString (Status (map homework_of js ! i))) \<and>
          map_of m ''homework_name'' = Some (JString (Name (map homework_of_p0 js ! i))) \<and>
          map_of m ''status'' = Some (JString (Status (map homework_of_p0 js ! i))) \<and>
          ReviewerComment (map homework_of_p0 js ! i) =
            fst (assert_string (map_of m ''reviewer_comment'')) \<and>
          LessonName (map homework_of_p0 js ! i) =
            fst (assert_string (map_of m ''lesson_name''))"
    if "i < length js" for i
  proof -
    from that assms(2) obtain m n s where "js ! i = JObject m"
      "map_of m ''homework_name'' = Some (JString n)" "map_of m ''status'' = Some (JString s)"
      using nth_mem by blast
    with that show ?thesis
      by (simp add: homework_of_def homework_of_p0_def)
  qed
  then show ?thesis
    using checkResponse_well_formed [OF assms(1) wf] by auto
qed

theorem checkResponse_maps_well_formed_list_witness:
  "\<exists>hws hws'.
     checkResponse payload_hw1_approved = (Some hws, None) \<and> length hws = 1 \<and>
     checkResponse_p0 payload_hw1_approved = (Some hws', None) \<and> length hws' = 1 \<and>
     Name (hws ! 0) = ''hw1'' \<and> Status (hws ! 0) = ''approved'' \<and>
     Name (hws' ! 0) = ''hw1'' \<and> Status (hws' ! 0) = ''approved'' \<and>
     ReviewerComment (hws' ! 0) = [] \<and> LessonName (hws' ! 0) = []"
proof -
  let ?js = "[JObject [(''homework_name'', JString ''hw1''), (''status'', JString ''approved'')]]"
  have 1: "map_of payload_hw1_approved ''homeworks'' = Some (JArray ?js)"
    by (simp add: payload_hw1_approved_def)
  have 2: "\<forall>j \<in> set ?js. \<exists>m n s. j = JObject m \<and>
           map_of m ''homework_name'' = Some (JString n) \<and> map_of m ''status'' = Some (JString s)"
    by simp
  from checkResponse_maps_well_formed_list [OF 1 2] obtain hws hws' where
    "checkResponse payload_hw1_approved = (Some hws, None)" "length hws = 1"
    "checkResponse_p0 payload_hw1_approved = (Some hws', None)" "length hws' = 1"
    "Name (hws ! 0) = ''hw1''" "Status (hws ! 0) = ''approved''"
    "Name (hws' ! 0) = ''hw1''" "Status (hws' ! 0) = ''approved''"
    "ReviewerComment (hws' ! 0) = []" "LessonName (hws' ! 0) = []"
    by auto
  then show ?thesis by blast
qed

text \<open>The loop passes over a well-formed prefix, whatever the slice holds.\<close>

lemma checkResponse_loop_prefix:
  "list_all well_formed good \<Longrightarrow>
   \<exists>hws'. checkResponse_loop hws i (good @ xs) = checkResponse_loop hws' (i + length good) xs"
proof (induction good arbitrary: hws i)
  case Nil
  then show ?case by auto
next
  case (Cons j js)
  from Cons.prems obtain m n s where "j = JObject m"
    "map_of m ''homework_name'' = Some (JString n)" "map_of m ''status'' = Some (JString s)"
    using well_formed_iff by auto
  then have "checkResponse_loop hws i ((j # js) @ xs) =
      checkResponse_loop (hws[i := \<lparr>Name = n, Status = s\<rparr>]) (Suc i) (js @ xs)"
    by simp
  moreover from Cons.prems have "list_all well_formed js" by simp
  ultimately show ?case
    using Cons.IH [of "hws[i := \<lparr>Name = n, Status = s\<rparr>]" "Suc i"] by auto
qed

lemma checkResponse_loop_p0_prefix:
  "list_all well_formed good \<Longrightarrow>
   \<exists>hws'. checkResponse_loop_p0 hws i (good @ xs) =
     checkResponse_loop_p0 hws' (i + length good) xs"
proof (induction good arbitrary: hws i)
  case Nil
  then show ?case by auto
next
  case (Cons j js)
  from Cons.prems obtain m n s where "j = JObject m"
    "map_of m ''homework_name'' = Some (JString n)" "map_of m ''status'' = Some (JString s)"
    using well_formed_iff by auto
  then have "checkResponse_loop_p0 hws i ((j # js) @ xs) =
      checkResponse_loop_p0 (hws[i := homework_of_p0 j]) (Suc i) (js @ xs)"
    by (simp add: Let_def homework_of_p0_def)
  then obtain h where "checkResponse_loop_p0 hws i ((j # js) @ xs) =
      checkResponse_loop_p0 (hws[i := h]) (Suc i) (js @ xs)" ..
  moreover from Cons.prems have "list_all well_formed js" by simp
  ultimately show ?case
    using Cons.IH [of "hws[i := h]" "Suc i"] by auto
qed

lemma assert_list_not_ok:
  "\<forall>js. v \<noteq> Some (JArray js) \<Longrightarrow> assert_list v = ([], False)"
  by (cases v rule: assert_list.cases) simp_all

lemma assert_map_not_ok:
  "\<forall>m. v \<noteq> JObject m \<Longrightarrow> assert_map (Some v) = ([], False)"
  by (cases v) simp_all

lemma assert_string_not_ok:
  "\<forall>s. v \<noteq> Some (JString s) \<Longrightarrow> assert_string v = ([], False)"
  by (cases v rule: assert_string.cases) simp_all

lemma errors_name_the_field:
  "sublist ([CHR 0x27] @ ''homeworks'' @ [CHR 0x27]) err_homeworks_not_list"
  "sublist ([CHR 0x27] @ ''homework'' @ [CHR 0x27]) err_homework_not_dict"
  "sublist ([CHR 0x27] @ ''homework_name'' @ [CHR 0x27]) err_name_not_string"
  "sublist ([CHR 0x27] @ ''status'' @ [CHR 0x27]) err_status_not_string"
  "sublist ([CHR 0x27] @ ''homeworks'' @ [CHR 0x27]) err_homeworks_not_list_p0"
  "sublist ([CHR 0x27] @ ''homework'' @ [CHR 0x27]) err_homework_not_dict_p0"
  "sublist ([CHR 0x27] @ ''homework_name'' @ [CHR 0x27]) err_name_not_string_p0"
  "sublist ([CHR 0x27] @ ''status'' @ [CHR 0x27]) err_status_not_string_p0"
  by code_simp+

text \<open>
  C7. \<^verbatim>\<open>checkResponse\<close> returns the \<^verbatim>\<open>nil\<close> slice and an error when \<^verbatim>\<open>homeworks\<close> is missing or is
  not a list, and when the list has an element that fails a test. The error is the one of the
  first test that fails at the first such element (\<open>bad\<close>, after the well-formed elements
  \<open>good\<close>): not an object, then \<^verbatim>\<open>homework_name\<close> missing or not a string, then \<^verbatim>\<open>status\<close>
  missing or not a string. Each error text holds the name of its field between apostrophes. The
  same holds in src/unnamed/part_000, whose texts start with a small letter.
\<close>

theorem checkResponse_rejects_malformed:
  "((\<forall>js. map_of response ''homeworks'' \<noteq> Some (JArray js)) \<longrightarrow>
      checkResponse response = (None, Some err_homeworks_not_list) \<and>
      checkResponse_p0 response = (None, Some err_homeworks_not_list_p0)) \<and>
   (map_of response ''homeworks'' = Some (JArray (good @ bad # rest)) \<and>
    list_all well_formed good \<longrightarrow>
      ((\<forall>m. bad \<noteq> JObject m) \<longrightarrow>
         checkResponse response = (None, Some err_homework_not_dict) \<and>
         checkResponse_p0 response = (None, Some err_homework_not_dict_p0)) \<and>
      (bad = JObject m \<and> (\<forall>n. map_of m ''homework_name'' \<noteq> Some (JString n)) \<longrightarrow>
         checkResponse response = (None, Some err_name_not_string) \<and>
         checkResponse_p0 response = (None, Some err_name_not_string_p0)) \<and>
      (bad = JObject m \<and> map_of m ''homework_name'' = Some (JString n) \<and>
       (\<forall>s. map_of m ''status'' \<noteq> Some (JString s)) \<longrightarrow>
         checkResponse response = (None, Some err_status_not_string) \<and>
         checkResponse_p0 response = (None, Some err_status_not_string_p0))) \<and>
   sublist ([CHR 0x27] @ ''homeworks'' @ [CHR 0x27]) err_homeworks_not_list \<and>
   sublist ([CHR 0x27] @ ''homework'' @ [CHR 0x27]) err_homework_not_dict \<and>
   sublist ([CHR 0x27] @ ''homework_name'' @ [CHR 0x27]) err_name_not_string \<and>
   sublist ([CHR 0x27] @ ''status'' @ [CHR 0x27]) err_status_not_string \<and>
   sublist ([CHR 0x27] @ ''homeworks'' @ [CHR 0x27]) err_homeworks_not_list_p0 \<and>
   sublist ([CHR 0x27] @ ''homework'' @ [CHR 0x27]) err_homework_not_dict_p0 \<and>
   sublist ([CHR 0x27] @ ''homework_name'' @ [CHR 0x27]) err_name_not_string_p0 \<and>
   sublist ([CHR 0x27] @ ''status'' @ [CHR 0x27]) err_status_not_string_p0"
proof -
  have missing: "checkResponse response = (None, Some err_homeworks_not_list) \<and>
      checkResponse_p0 response = (None, Some err_homeworks_not_list_p0)"
    if "\<forall>js. map_of response ''homeworks'' \<noteq> Some (JArray js)"
    using assert_list_not_ok [OF that] by (simp add: checkResponse_def checkResponse_p0_def)
  have element: "((\<forall>m. bad \<noteq> JObject m) \<longrightarrow>
         checkResponse response = (None, Some err_homework_not_dict) \<and>
         checkResponse_p0 response = (None, Some err_homework_not_dict_p0)) \<and>
      (bad = JObject m \<and> (\<forall>n. map_of m ''homework_name'' \<noteq> Some (JString n)) \<longrightarrow>
         checkResponse response = (None, Some err_name_not_string) \<and>
         checkResponse_p0 response = (None, Some err_name_not_string_p0)) \<and>
      (bad = JObject m \<and> map_of m ''homework_name'' = Some (JString n) \<and>
       (\<forall>s. map_of m ''status'' \<noteq> Some (JString s)) \<longrightarrow>
         checkResponse response = (None, Some err_status_not_string) \<and>
         checkResponse_p0 response = (None, Some err_status_not_string_p0))"
    if hw: "map_of response ''homeworks'' = Some (JArray (good @ bad # rest))"
      and good: "list_all well_formed good"
  proof -
    let ?n = "length (good @ bad # rest)"
    obtain hws where a: "checkResponse response = checkResponse_loop hws (length good) (bad # rest)"
      using checkResponse_loop_prefix [OF good, of _ 0 "bad # rest"] hw
      by (auto simp: checkResponse_def)
    obtain hws' where b:
      "checkResponse_p0 response = checkResponse_loop_p0 hws' (length good) (bad # rest)"
      using checkResponse_loop_p0_prefix [OF good, of _ 0 "bad # rest"] hw
      by (auto simp: checkResponse_p0_def)
    show ?thesis
      unfolding a b
      by (auto simp: assert_map_not_ok assert_string_not_ok)
  qed
  from missing element errors_name_the_field show ?thesis
    by (intro conjI impI) blast+
qed

theorem checkResponse_rejects_malformed_witness:
  "checkResponse [(''current_date'', JNumber 1)] = (None, Some err_homeworks_not_list) \<and>
   checkResponse_p0 [(''homeworks'', JString ''x'')] = (None, Some err_homeworks_not_list_p0) \<and>
   checkResponse
     [(''homeworks'',
       JArray [JObject [(''homework_name'', JString ''hw1''), (''status'', JString ''approved'')],
               JNumber 5,
               JObject []])] = (None, Some err_homework_not_dict) \<and>
   checkResponse
     [(''homeworks'',
       JArray [JObject [(''homework_name'', JString ''hw1''), (''status'', JString ''approved'')],
               JObject [(''status'', JNumber 1), (''homework_name'', JNull)]])] =
     (None, Some err_name_not_string) \<and>
   checkResponse_p0
     [(''homeworks'',
       JArray [JObject [(''homework_name'', JString ''hw1'')], JNull])] =
     (None, Some err_status_not_string_p0)"
  using
    checkResponse_rejects_malformed [of "[(''current_date'', JNumber 1)]"]
    checkResponse_rejects_malformed [of "[(''homeworks'', JString ''x'')]"]
    checkResponse_rejects_malformed
      [of "[(''homeworks'',
             JArray [JObject [(''homework_name'', JString ''hw1''), (''status'', JString ''approved'')],
                     JNumber 5,
                     JObject []])]"
          "[JObject [(''homework_name'', JString ''hw1''), (''status'', JString ''approved'')]]"
          "JNumber 5" "[JObject []]"]
    checkResponse_rejects_malformed
      [of "[(''homeworks'',
             JArray [JObject [(''homework_name'', JString ''hw1''), (''status'', JString ''approved'')],
                     JObject [(''status'', JNumber 1), (''homework_name'', JNull)]])]"
          "[JObject [(''homework_name'', JString ''hw1''), (''status'', JString ''approved'')]]"
          "JObject [(''status'', JNumber 1), (''homework_name'', JNull)]" "[]"
          "[(''status'', JNumber 1), (''homework_name'', JNull)]"]
    checkResponse_rejects_malformed
      [of "[(''homeworks'', JArray [JObject [(''homework_name'', JString ''hw1'')], JNull])]"
          "[]" "JObject [(''homework_name'', JString ''hw1'')]" "[JNull]"
          "[(''homework_name'', JString ''hw1'')]" "''hw1''"]
  by (simp add: well_formed_def)

section \<open>getAPIAnswer: the request\<close>

text \<open>Decimal digits read back give the number.\<close>

lemma nat_of_digits_snoc:
  "nat_of_digits (ds @ [c]) = 10 * nat_of_digits ds + (of_char c - 48)"
  by (simp add: nat_of_digits_def)

lemma of_char_digit: "d < 10 \<Longrightarrow> (of_char (char_of (48 + d)) :: nat) = 48 + d"
  by simp

lemma nat_of_digits_digits_nat: "nat_of_digits (digits_nat n) = n"
proof (induction n rule: digits_nat.induct)
  case (1 n)
  show ?case
  proof (cases "n < 10")
    case True
    then show ?thesis
      by (subst digits_nat.simps) (simp add: nat_of_digits_def)
  next
    case False
    have "(of_char (char_of (48 + n mod 10)) :: nat) = 48 + n mod 10"
      by (rule of_char_digit) simp
    with False "1.IH" show ?thesis
      by (subst digits_nat.simps) (simp add: nat_of_digits_snoc)
  qed
qed

lemma digits_nat_not_minus: "digits_nat n \<noteq> [] \<and> hd (digits_nat n) \<noteq> CHR ''-''"
proof (induction n rule: digits_nat.induct)
  case (1 n)
  show ?case
  proof (cases "n < 10")
    case True
    have "char_of (48 + n) \<noteq> CHR ''-''"
    proof
      assume "char_of (48 + n) = CHR ''-''"
      then have "(of_char (char_of (48 + n)) :: nat) = of_char CHR ''-''" by simp
      with True show False by simp
    qed
    with True show ?thesis
      by (subst (1 2) digits_nat.simps) simp
  next
    case False
    with "1.IH" show ?thesis
      by (subst (1 2) digits_nat.simps) simp
  qed
qed

lemma read_d_fmt_d: "read_d (fmt_d i) = i"
proof (cases "i < 0")
  case True
  then show ?thesis
    by (simp add: read_d_def fmt_d_def nat_of_digits_digits_nat)
next
  case False
  obtain c cs where d: "digits_nat (nat i) = c # cs" and c: "c \<noteq> CHR ''-''"
    using digits_nat_not_minus [of "nat i"] by (cases "digits_nat (nat i)") auto
  have "nat_of_digits (c # cs) = nat i"
    using nat_of_digits_digits_nat [of "nat i"] d by simp
  with False c d show ?thesis
    by (simp add: read_d_def fmt_d_def)
qed

lemma requests_append: "requests (evs @ evs') = requests evs @ requests evs'"
  by (induction evs rule: requests.induct) simp_all

lemma requests_closing: "requests (closing resp) = []"
  by (simp add: closing_def split: option.splits)

lemma getAPIAnswer_requests:
  "requests (fst (getAPIAnswer_a cfg e t)) =
     (if NewRequest e ''GET'' (api_url t) = None then [api_request cfg t] else [])"
  "requests (fst (getAPIAnswer_b cfg e t)) =
     (if NewRequest e ''GET'' (api_url t) = None then [api_request cfg t] else [])"
  "requests (fst (getAPIAnswer_p0 cfg e t)) =
     (if NewRequest e ''GET'' (api_url (timestamp_p0 e t)) = None
      then [api_request cfg (timestamp_p0 e t)] else [])"
  by (auto simp: getAPIAnswer_a_def getAPIAnswer_b_def getAPIAnswer_p0_def Let_def
      requests_append requests_closing split: option.splits sum.splits)

text \<open>
  C8, as the code has it. Whenever \<^verbatim>\<open>http.NewRequest\<close> accepts the URL, \<^verbatim>\<open>getAPIAnswer\<close> issues
  one request: a GET to the fixed endpoint with the header \<^verbatim>\<open>Authorization\<close> set to \<^verbatim>\<open>OAuth\<close>,
  a space and the API token, and with \<^verbatim>\<open>from_date\<close> in decimal. In src/main.go \<^verbatim>\<open>from_date\<close> is
  the timestamp \<open>t\<close> that was passed. In src/unnamed/part_000 it is \<open>t - 3600\<close> (in \<^verbatim>\<open>int64\<close>)
  when \<open>t\<close> is not 0 and the time of the clock when \<open>t\<close> is 0.
\<close>

theorem getAPIAnswer_request:
  "(NewRequest e ''GET'' (api_url t) = None \<longrightarrow>
      requests (fst (getAPIAnswer_a cfg e t)) = [api_request cfg t] \<and>
      requests (fst (getAPIAnswer_b cfg e t)) = [api_request cfg t]) \<and>
   (NewRequest e ''GET'' (api_url (if t = 0 then Now_Unix e else t - 3600)) = None \<longrightarrow>
      requests (fst (getAPIAnswer_p0 cfg e t)) =
        [api_request cfg (if t = 0 then Now_Unix e else t - 3600)]) \<and>
   Method (api_request cfg t) = ''GET'' \<and>
   URL (api_request cfg t) = Endpoint @ ''?from_date='' @ fmt_d (sint t) \<and>
   read_d (fmt_d (sint t)) = sint t \<and>
   Header (api_request cfg t) = [(''Authorization'', ''OAuth '' @ PracticumToken cfg)] \<and>
   Body (api_request cfg t) = None"
  by (simp add: getAPIAnswer_requests timestamp_p0_def read_d_fmt_d api_request_def api_url_def)

theorem getAPIAnswer_request_witness:
  "requests (fst (getAPIAnswer_a sample_config (world [] None) 7200)) =
     [api_request sample_config 7200] \<and>
   requests (fst (getAPIAnswer_b sample_config (world [] None) 7200)) =
     [api_request sample_config 7200] \<and>
   requests (fst (getAPIAnswer_p0 sample_config (world [] None) 7200)) =
     [api_request sample_config 3600] \<and>
   requests (fst (getAPIAnswer_p0 sample_config (world [] None) 0)) =
     [api_request sample_config 1700000000]"
  using getAPIAnswer_request [of "world [] None" 7200 sample_config]
    getAPIAnswer_request [of "world [] None" 0 sample_config]
  by (simp add: world_def)

text \<open>
  C8 as stated fails in src/unnamed/part_000: for the timestamp 7200 the request asks
  \<^verbatim>\<open>from_date=3600\<close>.
\<close>

theorem getAPIAnswer_p0_from_date_counterexample:
  "map URL (requests (fst (getAPIAnswer_p0 sample_config (world [] None) 7200))) =
     [Endpoint @ ''?from_date=3600''] \<and>
   Endpoint @ ''?from_date=3600'' \<noteq> Endpoint @ ''?from_date=7200''"
proof -
  have "fmt_d (sint (3600 :: int64)) = ''3600''"
    by code_simp
  then show ?thesis
    by (simp add: getAPIAnswer_requests timestamp_p0_def world_def api_request_def api_url_def)
qed

section \<open>The unchecked assertion on current_date\<close>

lemma assert_float64_None_iff:
  "assert_float64 v = None \<longleftrightarrow> (\<forall>x. v \<noteq> Some (JNumber x))"
  by (cases v rule: assert_float64.cases) simp_all

lemma runBot_iteration_panic:
  assumes "getAPIAnswer_b cfg e (currentTimestamp st) = (ev, response, None)"
  shows "assert_float64 (map_of response ''current_date'') = None \<Longrightarrow>
           runBot_iteration cfg e st = (ev, Panic)"
    and "assert_float64 (map_of response ''current_date'') \<noteq> None \<Longrightarrow>
           snd (runBot_iteration cfg e st) \<noteq> Panic"
  using assms
  by (auto simp: runBot_iteration_def Let_def split: option.splits prod.splits)

lemma runBot_iteration_fetch_error:
  "snd (snd (getAPIAnswer_b cfg e (currentTimestamp st))) \<noteq> None \<Longrightarrow>
   snd (runBot_iteration cfg e st) \<noteq> Panic"
  by (auto simp: runBot_iteration_def Let_def split: option.splits prod.splits)

lemma fetchAPIResponse_panic:
  assumes "getAPIAnswer_p0 cfg e (Now_Unix e) = (ev, response, None)"
  shows "assert_float64 (map_of response ''current_date'') = None \<Longrightarrow>
           fetchAPIResponse cfg e lastSent = (ev, Panic)"
    and "assert_float64 (map_of response ''current_date'') \<noteq> None \<Longrightarrow>
           snd (fetchAPIResponse cfg e lastSent) \<noteq> Panic"
  using assms
  by (auto simp: fetchAPIResponse_def Let_def
      split: option.splits prod.splits list.splits sum.splits)

lemma fetchAPIResponse_fetch_error:
  "snd (snd (getAPIAnswer_p0 cfg e (Now_Unix e))) \<noteq> None \<Longrightarrow>
   snd (fetchAPIResponse cfg e lastSent) \<noteq> Panic"
  by (auto simp: fetchAPIResponse_def Let_def split: option.splits prod.splits)

lemma handleStatus_a_panic:
  assumes "getAPIAnswer_a cfg e (Now_Unix e) = (ev, response, None)"
  shows "assert_float64 (map_of response ''current_date'') = None \<Longrightarrow>
           handleStatus_a cfg e chatID fromID = (ev, Panic)"
    and "assert_float64 (map_of response ''current_date'') \<noteq> None \<Longrightarrow>
           snd (handleStatus_a cfg e chatID fromID) \<noteq> Panic"
  using assms
  by (auto simp: handleStatus_a_def Let_def
      split: option.splits prod.splits list.splits)

lemma handleStatus_a_fetch_error:
  "snd (snd (getAPIAnswer_a cfg e (Now_Unix e))) \<noteq> None \<Longrightarrow>
   snd (handleStatus_a cfg e chatID fromID) \<noteq> Panic"
  by (auto simp: handleStatus_a_def Let_def split: option.splits prod.splits)

lemma handleStatus_p0_panic:
  assumes "getAPIAnswer_p0 cfg e (Now_Unix e) = (ev, response, None)"
  shows "assert_float64 (map_of response ''current_date'') = None \<Longrightarrow>
           handleStatus_p0 cfg e chatID fromID = (ev, Panic)"
    and "assert_float64 (map_of response ''current_date'') \<noteq> None \<Longrightarrow>
           snd (handleStatus_p0 cfg e chatID fromID) \<noteq> Panic"
  using assms
  by (auto simp: handleStatus_p0_def Let_def
      split: option.splits prod.splits list.splits)

lemma handleStatus_p0_fetch_error:
  "snd (snd (getAPIAnswer_p0 cfg e (Now_Unix e))) \<noteq> None \<Longrightarrow>
   snd (handleStatus_p0 cfg e chatID fromID) \<noteq> Panic"
  by (auto simp: handleStatus_p0_def Let_def split: option.splits prod.splits)

lemma handleCommand_status:
  "handleCommand_a cfg e ''status'' chatID fromID = handleStatus_a cfg e chatID fromID"
  "handleCommand_p0 cfg e ''status'' chatID fromID = handleStatus_p0 cfg e chatID fromID"
  by (simp_all add: handleCommand_a_def handleCommand_p0_def)

text \<open>
  C9. In the poll (\<^verbatim>\<open>runBot\<close> of src/main.go, \<^verbatim>\<open>fetchAPIResponse\<close> of src/unnamed/part_000) and
  in the \<^verbatim>\<open>/status\<close> handler of both files: when \<^verbatim>\<open>getAPIAnswer\<close> has returned a response with no
  error, the function panics exactly when \<^verbatim>\<open>current_date\<close> is absent from the response or holds
  no JSON number, and it then has done nothing after the fetch: no log line, no message, no
  sleep. \<^verbatim>\<open>checkResponse\<close> is not consulted before. When \<^verbatim>\<open>getAPIAnswer\<close> returns an error
  there is no panic.
\<close>

theorem current_date_assertion_panics:
  "(getAPIAnswer_b cfg e (currentTimestamp st) = (ev, response, None) \<longrightarrow>
      (snd (runBot_iteration cfg e st) = Panic \<longleftrightarrow>
         (\<forall>x. map_of response ''current_date'' \<noteq> Some (JNumber x))) \<and>
      ((\<forall>x. map_of response ''current_date'' \<noteq> Some (JNumber x)) \<longrightarrow>
         fst (runBot_iteration cfg e st) = ev)) \<and>
   (getAPIAnswer_a cfg e (Now_Unix e) = (ev_a, response_a, None) \<longrightarrow>
      (snd (handleCommand_a cfg e ''status'' chatID fromID) = Panic \<longleftrightarrow>
         (\<forall>x. map_of response_a ''current_date'' \<noteq> Some (JNumber x))) \<and>
      ((\<forall>x. map_of response_a ''current_date'' \<noteq> Some (JNumber x)) \<longrightarrow>
         fst (handleCommand_a cfg e ''status'' chatID fromID) = ev_a)) \<and>
   (getAPIAnswer_p0 cfg e (Now_Unix e) = (ev_p, response_p, None) \<longrightarrow>
      (snd (fetchAPIResponse cfg e lastSentMessage) = Panic \<longleftrightarrow>
         (\<forall>x. map_of response_p ''current_date'' \<noteq> Some (JNumber x))) \<and>
      (snd (handleCommand_p0 cfg e ''status'' chatID fromID) = Panic \<longleftrightarrow>
         (\<forall>x. map_of response_p ''current_date'' \<noteq> Some (JNumber x))) \<and>
      ((\<forall>x. map_of response_p ''current_date'' \<noteq> Some (JNumber x)) \<longrightarrow>
         fst (fetchAPIResponse cfg e lastSentMessage) = ev_p \<and>
         fst (handleCommand_p0 cfg e ''status'' chatID fromID) = ev_p)) \<and>
   (snd (snd (getAPIAnswer_b cfg e (currentTimestamp st))) \<noteq> None \<longrightarrow>
      snd (runBot_iteration cfg e st) \<noteq> Panic) \<and>
   (snd (snd (getAPIAnswer_a cfg e (Now_Unix e))) \<noteq> None \<longrightarrow>
      snd (handleCommand_a cfg e ''status'' chatID fromID) \<noteq> Panic) \<and>
   (snd (snd (getAPIAnswer_p0 cfg e (Now_Unix e))) \<noteq> None \<longrightarrow>
      snd (fetchAPIResponse cfg e lastSentMessage) \<noteq> Panic \<and>
      snd (handleCommand_p0 cfg e ''status'' chatID fromID) \<noteq> Panic)"
proof -
  have b: "(snd (runBot_iteration cfg e st) = Panic \<longleftrightarrow>
         (\<forall>x. map_of response ''current_date'' \<noteq> Some (JNumber x))) \<and>
      ((\<forall>x. map_of response ''current_date'' \<noteq> Some (JNumber x)) \<longrightarrow>
         fst (runBot_iteration cfg e st) = ev)"
    if "getAPIAnswer_b cfg e (currentTimestamp st) = (ev, response, None)"
    using runBot_iteration_panic [OF that]
    by (cases "assert_float64 (map_of response ''current_date'')")
       (simp_all add: assert_float64_None_iff [symmetric])
  have a: "(snd (handleCommand_a cfg e ''status'' chatID fromID) = Panic \<longleftrightarrow>
         (\<forall>x. map_of response_a ''current_date'' \<noteq> Some (JNumber x))) \<and>
      ((\<forall>x. map_of response_a ''current_date'' \<noteq> Some (JNumber x)) \<longrightarrow>
         fst (handleCommand_a cfg e ''status'' chatID fromID) = ev_a)"
    if "getAPIAnswer_a cfg e (Now_Unix e) = (ev_a, response_a, None)"
    using handleStatus_a_panic [OF that, of chatID fromID]
    by (cases "assert_float64 (map_of response_a ''current_date'')")
       (simp_all add: assert_float64_None_iff [symmetric] handleCommand_status)
  have p: "(snd (fetchAPIResponse cfg e lastSentMessage) = Panic \<longleftrightarrow>
         (\<forall>x. map_of response_p ''current_date'' \<noteq> Some (JNumber x))) \<and>
      (snd (handleCommand_p0 cfg e ''status'' chatID fromID) = Panic \<longleftrightarrow>
         (\<forall>x. map_of response_p ''current_date'' \<noteq> Some (JNumber x))) \<and>
      ((\<forall>x. map_of response_p ''current_date'' \<noteq> Some (JNumber x)) \<longrightarrow>
         fst (fetchAPIResponse cfg e lastSentMessage) = ev_p \<and>
         fst (handleCommand_p0 cfg e ''status'' chatID fromID) = ev_p)"
    if "getAPIAnswer_p0 cfg e (Now_Unix e) = (ev_p, response_p, None)"
    using handleStatus_p0_panic [OF that, of chatID fromID]
      fetchAPIResponse_panic [OF that, of lastSentMessage]
    by (cases "assert_float64 (map_of response_p ''current_date'')")
       (simp_all add: assert_float64_None_iff [symmetric] handleCommand_status)
  from a b p show ?thesis
    using runBot_iteration_fetch_error [of cfg e st]
      handleStatus_a_fetch_error [of cfg e chatID fromID]
      handleStatus_p0_fetch_error [of cfg e chatID fromID]
      fetchAPIResponse_fetch_error [of cfg e lastSentMessage]
    by (simp add: handleCommand_status)
qed

text \<open>
  The response without \<^verbatim>\<open>current_date\<close> and with an empty list of homeworks passes
  \<^verbatim>\<open>checkResponse\<close>, and all four functions panic on it; with the number present none does.
\<close>

theorem current_date_assertion_panics_witness:
  "checkResponse payload_no_date = (Some [], None) \<and>
   checkResponse_p0 payload_no_date = (Some [], None) \<and>
   snd (runBot_iteration sample_config (world payload_no_date None)
          (runBot_start (world payload_no_date None))) = Panic \<and>
   snd (handleCommand_a sample_config (world payload_no_date None) ''status'' 42 7) = Panic \<and>
   snd (fetchAPIResponse sample_config (world payload_no_date None) []) = Panic \<and>
   snd (handleCommand_p0 sample_config (world payload_no_date None) ''status'' 42 7) = Panic \<and>
   snd (runBot_iteration sample_config (world payload_no_homeworks None)
          (runBot_start (world payload_no_homeworks None))) \<noteq> Panic \<and>
   snd (handleCommand_a sample_config (world payload_no_homeworks None) ''status'' 42 7) \<noteq> Panic \<and>
   snd (fetchAPIResponse sample_config (world payload_no_homeworks None) []) \<noteq> Panic \<and>
   snd (handleCommand_p0 sample_config (world payload_no_homeworks None) ''status'' 42 7) \<noteq> Panic"
proof -
  have get_b: "getAPIAnswer_b sample_config (world payload None) t =
      ([HttpDo (api_request sample_config t)], payload, None)" for payload t
    by (simp add: getAPIAnswer_b_def world_def answer_def api_request_def StatusOK_def)
  have get_a: "getAPIAnswer_a sample_config (world payload None) t =
      ([HttpDo (api_request sample_config t), Logger (Println txt_api_ok)], payload, None)"
    for payload t
    by (simp add: getAPIAnswer_a_def world_def answer_def api_request_def StatusOK_def closing_def)
  have get_p: "getAPIAnswer_p0 sample_config (world payload None) t =
      ([HttpDo (api_request sample_config (timestamp_p0 (world payload None) t)),
        StdLog (Println txt_api_ok)], payload, None)"
    for payload t
    by (simp add: getAPIAnswer_p0_def world_def answer_def api_request_def StatusOK_def
        timestamp_p0_def)
  have check: "checkResponse payload_no_date = (Some [], None)"
    "checkResponse_p0 payload_no_date = (Some [], None)"
    by (simp_all add: checkResponse_def checkResponse_p0_def payload_no_date_def)
  have no_date: "\<forall>x. map_of payload_no_date ''current_date'' \<noteq> Some (JNumber x)"
    by (simp add: payload_no_date_def)
  have date: "\<not> (\<forall>x. map_of payload_no_homeworks ''current_date'' \<noteq> Some (JNumber x))"
    by (simp add: payload_no_homeworks_def)
  show ?thesis
    using
      current_date_assertion_panics
        [of sample_config "world payload_no_date None" "runBot_start (world payload_no_date None)"
            _ payload_no_date _ payload_no_date 42 7 _ payload_no_date "[]",
         unfolded get_a get_b get_p]
      current_date_assertion_panics
        [of sample_config "world payload_no_homeworks None"
            "runBot_start (world payload_no_homeworks None)"
            _ payload_no_homeworks _ payload_no_homeworks 42 7 _ payload_no_homeworks "[]",
         unfolded get_a get_b get_p]
      check no_date date
    by simp
qed

section \<open>The poll on the scenarios of the specification\<close>

lemma getAPIAnswer_b_answers:
  "answers e cfg t payload \<Longrightarrow>
   getAPIAnswer_b cfg e t = ([HttpDo (api_request cfg t)], payload, None)"
  by (auto simp: answers_def getAPIAnswer_b_def Let_def split: sum.splits)

lemma getAPIAnswer_p0_answers:
  "answers e cfg (timestamp_p0 e t) payload \<Longrightarrow>
   getAPIAnswer_p0 cfg e t =
     ([HttpDo (api_request cfg (timestamp_p0 e t)), StdLog (Println txt_api_ok)], payload, None)"
  by (auto simp: answers_def getAPIAnswer_p0_def Let_def split: sum.splits)

lemma answers_world: "answers (world payload sending) cfg t payload"
  by (simp add: answers_def world_def answer_def api_request_def StatusOK_def)

lemma checkResponse_hw1:
  "checkResponse payload_hw1_approved = (Some [hw1_approved], None)"
  "checkResponse_p0 payload_hw1_approved =
     (Some [\<lparr>Name = ''hw1'', Status = ''approved'', ReviewerComment = [], LessonName = []\<rparr>], None)"
  by (simp_all add: checkResponse_def checkResponse_p0_def payload_hw1_approved_def
      hw1_approved_def Let_def)

lemma checkResponse_no_homeworks:
  "checkResponse payload_no_homeworks = (Some [], None)"
  "checkResponse_p0 payload_no_homeworks = (Some [], None)"
  by (simp_all add: checkResponse_def checkResponse_p0_def payload_no_homeworks_def)

lemma current_date_payloads:
  "assert_float64 (map_of payload_hw1_approved ''current_date'') = Some 1000"
  "assert_float64 (map_of payload_no_homeworks ''current_date'') = Some 2000"
  "assert_float64 (map_of payload_bogus ''current_date'') = Some 1000"
  by (simp_all add: payload_hw1_approved_def payload_no_homeworks_def payload_bogus_def)

lemma int64_of_float64_numeral [simp]:
  "int64_of_float64 1000 = 1000" "int64_of_float64 2000 = 2000"
  by (simp_all add: int64_of_float64_def)

lemma parseStatus_hw1:
  "parseStatus hw1_approved = ([], scenario_message, None)"
  "parseStatus_p0 \<lparr>Name = ''hw1'', Status = ''approved'', ReviewerComment = [], LessonName = []\<rparr> =
     ([], scenario_message_p0, None)"
proof -
  have v: "HomeworkVerdict ''approved'' = Some verdict_approved"
    using HomeworkVerdict_table(1) by (simp add: ApprovedStatus_def)
  show "parseStatus hw1_approved = ([], scenario_message, None)"
    using parseStatus_known [of hw1_approved verdict_approved] v
    by (simp add: hw1_approved_def scenario_message_def txt_status_changed_def
        txt_quote_colon_def verdict_approved_def)
  show "parseStatus_p0
      \<lparr>Name = ''hw1'', Status = ''approved'', ReviewerComment = [], LessonName = []\<rparr> =
     ([], scenario_message_p0, None)"
    using parseStatus_p0_known
      [of "\<lparr>Name = ''hw1'', Status = ''approved'', ReviewerComment = [], LessonName = []\<rparr>"
          verdict_approved] v
    by (simp add: scenario_message_p0_def txt_status_changed_def txt_for_lesson_def
        txt_quote_colon_def verdict_approved_def txt_reviewer_comment_def)
qed

lemma scenario_messages_differ: "scenario_message_p0 \<noteq> scenario_message"
  by (simp add: scenario_message_p0_def scenario_message_def)

lemma posts_simps [simp]:
  "posts [] = []"
  "posts (HttpDo r # evs) = (if Method r = ''POST'' then r # posts evs else posts evs)"
  "posts (Logger l # evs) = posts evs"
  "posts (StdLog l # evs) = posts evs"
  "posts (BotSend c m # evs) = posts evs"
  "posts (Sleep n # evs) = posts evs"
  by (simp_all add: posts_def)

lemma posts_append: "posts (evs @ evs') = posts evs @ posts evs'"
  by (simp add: posts_def requests_append)

lemma bot_sends_append: "bot_sends (evs @ evs') = bot_sends evs @ bot_sends evs'"
  by (induction evs rule: bot_sends.induct) simp_all

lemma logger_lines_append: "logger_lines (evs @ evs') = logger_lines evs @ logger_lines evs'"
  by (induction evs rule: logger_lines.induct) simp_all

lemma api_request_is_get [simp]: "Method (api_request cfg t) = ''GET''"
  by (simp add: api_request_def)

lemma posts_sendMessage_b:
  "posts (fst (sendMessage_b cfg e message)) =
     (if NewRequest e ''POST'' (sendMessage_url cfg) = None
      then [sendMessage_request cfg message] else [])"
  by (auto simp: sendMessage_b_def sendMessage_request_def Let_def
      split: option.splits sum.splits)

lemma logger_lines_sendMessage_b [simp]: "logger_lines (fst (sendMessage_b cfg e message)) = []"
  by (auto simp: sendMessage_b_def Let_def split: option.splits sum.splits)

text \<open>One iteration of \<^verbatim>\<open>runBot\<close> on a record whose status differs from the last one seen.\<close>

lemma runBot_iteration_new_status:
  assumes "answers e cfg (currentTimestamp st) payload"
    and "assert_float64 (map_of payload ''current_date'') = Some f"
    and "checkResponse payload = (Some (h # hs), None)"
    and "Status h \<noteq> Status (prevReport st)"
  shows "runBot_iteration cfg e st =
     ([HttpDo (api_request cfg (currentTimestamp st))]
        @ fst (runBot_notify cfg e (st\<lparr>currentTimestamp := int64_of_float64 f, currentReport := h\<rparr>))
        @ [Sleep RetryPeriod],
      Done (st\<lparr>currentTimestamp := int64_of_float64 f, currentReport := h, prevReport := h\<rparr>))"
  using assms getAPIAnswer_b_answers [OF assms(1)]
  by (auto simp: runBot_iteration_def runBot_notify_def Let_def split: prod.splits option.splits)

lemma runBot_iteration_same_status:
  assumes "answers e cfg (currentTimestamp st) payload"
    and "assert_float64 (map_of payload ''current_date'') = Some f"
    and "checkResponse payload = (Some (h # hs), None)"
    and "Status h = Status (prevReport st)"
  shows "runBot_iteration cfg e st =
     ([HttpDo (api_request cfg (currentTimestamp st)), Sleep RetryPeriod],
      Done (st\<lparr>currentTimestamp := int64_of_float64 f, currentReport := h\<rparr>))"
  using assms getAPIAnswer_b_answers [OF assms(1)]
  by (auto simp: runBot_iteration_def Let_def split: prod.splits option.splits)

lemma runBot_iteration_empty:
  assumes "answers e cfg (currentTimestamp st) payload"
    and "assert_float64 (map_of payload ''current_date'') = Some f"
    and "checkResponse payload = (Some [], None)"
  shows "Status (prevReport st) \<noteq> no_new_statuses \<Longrightarrow>
     runBot_iteration cfg e st =
       ([HttpDo (api_request cfg (currentTimestamp st))]
          @ fst (runBot_notify cfg e
                   (st\<lparr>currentTimestamp := int64_of_float64 f,
                       currentReport := \<lparr>Name = [], Status = no_new_statuses\<rparr>\<rparr>))
          @ [Sleep RetryPeriod],
        Done (st\<lparr>currentTimestamp := int64_of_float64 f,
                 currentReport := \<lparr>Name = [], Status = no_new_statuses\<rparr>,
                 prevReport := \<lparr>Name = [], Status = no_new_statuses\<rparr>\<rparr>))"
    and "Status (prevReport st) = no_new_statuses \<Longrightarrow>
     runBot_iteration cfg e st =
       ([HttpDo (api_request cfg (currentTimestamp st)), Sleep RetryPeriod],
        Done (st\<lparr>currentTimestamp := int64_of_float64 f,
                 currentReport := \<lparr>Name = [], Status = no_new_statuses\<rparr>\<rparr>))"
  using assms getAPIAnswer_b_answers [OF assms(1)]
  by (auto simp: runBot_iteration_def runBot_notify_def Let_def split: prod.splits option.splits)

lemma runBot_notify_success:
  "parseStatus (currentReport st) = (ev, message, None) \<Longrightarrow>
   posts (fst (runBot_notify cfg e st)) = posts ev @ posts (fst (sendMessage_b cfg e message)) \<and>
   logger_lines (fst (runBot_notify cfg e st)) =
     logger_lines ev @
     (case snd (sendMessage_b cfg e message) of
        None \<Rightarrow> []
      | Some er \<Rightarrow> [log_output (txt_send_failed @ er)])"
proof -
  assume p: "parseStatus (currentReport st) = (ev, message, None)"
  obtain ev3 err where s: "sendMessage_b cfg e message = (ev3, err)"
    by (cases "sendMessage_b cfg e message")
  have "logger_lines ev3 = []"
    using logger_lines_sendMessage_b [of cfg e message] s by simp
  with p s show ?thesis
    by (cases err) (simp_all add: runBot_notify_def posts_append logger_lines_append)
qed

text \<open>One call of \<^verbatim>\<open>fetchAPIResponse\<close> on a response whose first record translates.\<close>

lemma fetchAPIResponse_report:
  assumes "answers e cfg (timestamp_p0 e (Now_Unix e)) payload"
    and "assert_float64 (map_of payload ''current_date'') = Some f"
    and "checkResponse_p0 payload = (Some (h # hs), None)"
    and "parseStatus_p0 h = (ev2, message, None)"
  shows "message = lastSent \<Longrightarrow>
     fetchAPIResponse cfg e lastSent =
       ([HttpDo (api_request cfg (timestamp_p0 e (Now_Unix e))), StdLog (Println txt_api_ok)] @ ev2,
        Done (lastSent, Some (h # hs), None))"
    and "message \<noteq> lastSent \<Longrightarrow> ParseInt e (TelegramChatID cfg) = Inr chatID \<Longrightarrow>
         Send e chatID message = None \<Longrightarrow>
     fetchAPIResponse cfg e lastSent =
       ([HttpDo (api_request cfg (timestamp_p0 e (Now_Unix e))), StdLog (Println txt_api_ok)] @ ev2
          @ [BotSend chatID message, Logger (log_output (txt_sent_tg @ message))],
        Done (message, Some (h # hs), None))"
    and "message \<noteq> lastSent \<Longrightarrow> ParseInt e (TelegramChatID cfg) = Inr chatID \<Longrightarrow>
         Send e chatID message = Some er \<Longrightarrow>
     fetchAPIResponse cfg e lastSent =
       ([HttpDo (api_request cfg (timestamp_p0 e (Now_Unix e))), StdLog (Println txt_api_ok)] @ ev2
          @ [BotSend chatID message, Logger (log_output (txt_send_failed_tg @ er))],
        Done (lastSent, Some (h # hs), None))"
  using assms getAPIAnswer_p0_answers [OF assms(1)]
  by (simp_all add: fetchAPIResponse_def sendMessage_def)

lemma fetchAPIResponse_empty:
  assumes "answers e cfg (timestamp_p0 e (Now_Unix e)) payload"
    and "assert_float64 (map_of payload ''current_date'') = Some f"
    and "checkResponse_p0 payload = (Some [], None)"
  shows "fetchAPIResponse cfg e lastSent =
       ([HttpDo (api_request cfg (timestamp_p0 e (Now_Unix e))), StdLog (Println txt_api_ok),
         Logger (Println (txt_api_result @ no_new_statuses))],
        Done (lastSent, Some [], None))"
  using assms getAPIAnswer_p0_answers [OF assms(1)]
  by (simp add: fetchAPIResponse_def)

lemma approved_not_empty: "''approved'' \<noteq> []" "scenario_message_p0 \<noteq> []"
  by (simp_all add: scenario_message_p0_def)

text \<open>
  C2, as the code has it. The payload is the one of the scenario in both iterations, and the
  state is the initial one. \<^verbatim>\<open>runBot\<close> of src/main.go posts one request to Telegram, the one for
  the message of the scenario, in the first iteration (whatever becomes of it) and none in the
  second. \<^verbatim>\<open>fetchAPIResponse\<close> of src/unnamed/part_000 hands one message to \<^verbatim>\<open>bot.Send\<close> over the
  two calls when the first send succeeds; that message names the lesson and has a second line
  for the reviewer's comment.
\<close>

theorem scenario_hw1_approved:
  "(answers e1 cfg (Now_Unix e0) payload_hw1_approved \<and>
    NewRequest e1 ''POST'' (sendMessage_url cfg) = None \<and>
    answers e2 cfg 1000 payload_hw1_approved \<longrightarrow>
      posts (fst (runBot cfg e0 [e1, e2])) = [sendMessage_request cfg scenario_message] \<and>
      Body (sendMessage_request cfg scenario_message) =
        Some (txt_body_open @ TelegramChatID cfg @ txt_body_mid @ scenario_message @ txt_body_close)) \<and>
   (answers e1 cfg (timestamp_p0 e1 (Now_Unix e1)) payload_hw1_approved \<and>
    ParseInt e1 (TelegramChatID cfg) = Inr chatID \<and>
    Send e1 chatID scenario_message_p0 = None \<and>
    answers e2 cfg (timestamp_p0 e2 (Now_Unix e2)) payload_hw1_approved \<longrightarrow>
      bot_sends (fst (poll_p0 cfg [e1, e2] [])) = [(chatID, scenario_message_p0)])"
proof (intro conjI impI)
  assume a: "answers e1 cfg (Now_Unix e0) payload_hw1_approved \<and>
    NewRequest e1 ''POST'' (sendMessage_url cfg) = None \<and>
    answers e2 cfg 1000 payload_hw1_approved"
  let ?st0 = "runBot_start e0"
  let ?st' = "?st0\<lparr>currentTimestamp := 1000, currentReport := hw1_approved\<rparr>"
  let ?st1 = "?st0\<lparr>currentTimestamp := 1000, currentReport := hw1_approved,
                    prevReport := hw1_approved\<rparr>"
  have 1: "runBot_iteration cfg e1 ?st0 =
      ([HttpDo (api_request cfg (currentTimestamp ?st0))] @ fst (runBot_notify cfg e1 ?st')
         @ [Sleep RetryPeriod], Done ?st1)"
    using runBot_iteration_new_status
      [of e1 cfg ?st0 payload_hw1_approved 1000 hw1_approved "[]"] a
    by (simp add: current_date_payloads checkResponse_hw1)
       (simp add: runBot_start_def hw1_approved_def)
  have 2: "runBot_iteration cfg e2 ?st1 =
      ([HttpDo (api_request cfg (currentTimestamp ?st1)), Sleep RetryPeriod],
       Done (?st1\<lparr>currentTimestamp := 1000, currentReport := hw1_approved\<rparr>))"
    using runBot_iteration_same_status
      [of e2 cfg ?st1 payload_hw1_approved 1000 hw1_approved "[]"] a
    by (simp add: current_date_payloads checkResponse_hw1)
  have n: "posts (fst (runBot_notify cfg e1 ?st')) = [sendMessage_request cfg scenario_message]"
    using runBot_notify_success [of ?st' "[]" scenario_message cfg e1] a
    by (simp add: parseStatus_hw1 posts_sendMessage_b)
  show "posts (fst (runBot cfg e0 [e1, e2])) = [sendMessage_request cfg scenario_message]"
    by (simp add: runBot_def 1 2 posts_append n)
  show "Body (sendMessage_request cfg scenario_message) =
      Some (txt_body_open @ TelegramChatID cfg @ txt_body_mid @ scenario_message @ txt_body_close)"
    by (simp add: sendMessage_request_def sendMessage_data_def)
next
  assume a: "answers e1 cfg (timestamp_p0 e1 (Now_Unix e1)) payload_hw1_approved \<and>
    ParseInt e1 (TelegramChatID cfg) = Inr chatID \<and>
    Send e1 chatID scenario_message_p0 = None \<and>
    answers e2 cfg (timestamp_p0 e2 (Now_Unix e2)) payload_hw1_approved"
  let ?h = "\<lparr>Name = ''hw1'', Status = ''approved'', ReviewerComment = [], LessonName = []\<rparr>"
  have 1: "fetchAPIResponse cfg e1 [] =
      ([HttpDo (api_request cfg (timestamp_p0 e1 (Now_Unix e1))), StdLog (Println txt_api_ok)] @ []
          @ [BotSend chatID scenario_message_p0,
             Logger (log_output (txt_sent_tg @ scenario_message_p0))],
        Done (scenario_message_p0, Some [?h], None))"
    using a approved_not_empty
    by (intro fetchAPIResponse_report(2) [where payload = payload_hw1_approved and f = 1000])
       (simp_all add: current_date_payloads checkResponse_hw1 parseStatus_hw1)
  have 2: "fetchAPIResponse cfg e2 scenario_message_p0 =
      ([HttpDo (api_request cfg (timestamp_p0 e2 (Now_Unix e2))), StdLog (Println txt_api_ok)] @ [],
        Done (scenario_message_p0, Some [?h], None))"
    using a
    by (intro fetchAPIResponse_report(1) [where payload = payload_hw1_approved and f = 1000])
       (simp_all add: current_date_payloads checkResponse_hw1 parseStatus_hw1)
  show "bot_sends (fst (poll_p0 cfg [e1, e2] [])) = [(chatID, scenario_message_p0)]"
    by (simp add: 1 2)
qed

theorem scenario_hw1_approved_witness:
  "posts (fst (runBot sample_config (world payload_hw1_approved None)
                 [world payload_hw1_approved None, world payload_hw1_approved None])) =
     [sendMessage_request sample_config scenario_message] \<and>
   bot_sends (fst (poll_p0 sample_config
                     [world payload_hw1_approved None, world payload_hw1_approved None] [])) =
     [(42, scenario_message_p0)]"
  using scenario_hw1_approved
    [of "world payload_hw1_approved None" sample_config "world payload_hw1_approved None"
        "world payload_hw1_approved None" 42]
    answers_world [of payload_hw1_approved None sample_config]
  by (simp add: world_def sample_config_def)

text \<open>
  C2 as stated fails in src/unnamed/part_000: the one message sent in the scenario is not the
  message of the claim.
\<close>

theorem scenario_hw1_approved_p0_counterexample:
  "bot_sends (fst (poll_p0 sample_config
                     [world payload_hw1_approved None, world payload_hw1_approved None] [])) =
     [(42, scenario_message_p0)] \<and>
   scenario_message_p0 \<noteq> scenario_message"
proof -
  let ?w = "world payload_hw1_approved None"
  let ?h = "\<lparr>Name = ''hw1'', Status = ''approved'', ReviewerComment = [], LessonName = []\<rparr>"
  have c: "ParseInt ?w (TelegramChatID sample_config) = Inr 42" "Send ?w 42 scenario_message_p0 = None"
    by (simp_all add: world_def sample_config_def)
  have 1: "fetchAPIResponse sample_config ?w [] =
      ([HttpDo (api_request sample_config (timestamp_p0 ?w (Now_Unix ?w))),
        StdLog (Println txt_api_ok)] @ []
          @ [BotSend 42 scenario_message_p0,
             Logger (log_output (txt_sent_tg @ scenario_message_p0))],
        Done (scenario_message_p0, Some [?h], None))"
    using c approved_not_empty answers_world [of payload_hw1_approved None sample_config]
    by (intro fetchAPIResponse_report(2) [where payload = payload_hw1_approved and f = 1000])
       (simp_all add: current_date_payloads checkResponse_hw1 parseStatus_hw1)
  have 2: "fetchAPIResponse sample_config ?w scenario_message_p0 =
      ([HttpDo (api_request sample_config (timestamp_p0 ?w (Now_Unix ?w))),
        StdLog (Println txt_api_ok)] @ [],
        Done (scenario_message_p0, Some [?h], None))"
    using answers_world [of payload_hw1_approved None sample_config]
    by (intro fetchAPIResponse_report(1) [where payload = payload_hw1_approved and f = 1000])
       (simp_all add: current_date_payloads checkResponse_hw1 parseStatus_hw1)
  show ?thesis
    by (simp add: 1 2 scenario_messages_differ)
qed

lemma parseStatus_no_new:
  "parseStatus \<lparr>Name = [], Status = no_new_statuses\<rparr> =
     ([Logger (Println no_new_statuses)], no_new_statuses, None)"
  by (simp add: parseStatus_sentinel)

text \<open>
  C4, as the code has it. The payload has an empty list of homeworks. \<^verbatim>\<open>fetchAPIResponse\<close> of
  src/unnamed/part_000 sends nothing, leaves the last sent message as it is and writes one line
  through \<^verbatim>\<open>logger\<close>, the one that says there are no new statuses (\<^verbatim>\<open>getAPIAnswer\<close> has written its
  own line to the standard log). \<^verbatim>\<open>runBot\<close> of src/main.go turns the empty list into a record
  with the status \<^const>\<open>no_new_statuses\<close>: when the last status seen is that text already, it
  posts nothing and logs nothing; otherwise it logs that text and posts it to Telegram as a
  notification.
\<close>

theorem scenario_no_homeworks:
  "(answers e cfg (timestamp_p0 e (Now_Unix e)) payload_no_homeworks \<longrightarrow>
      bot_sends (fst (fetchAPIResponse cfg e lastSentMessage)) = [] \<and>
      logger_lines (fst (fetchAPIResponse cfg e lastSentMessage)) =
        [Println (txt_api_result @ no_new_statuses)] \<and>
      snd (fetchAPIResponse cfg e lastSentMessage) = Done (lastSentMessage, Some [], None)) \<and>
   (answers e cfg (currentTimestamp st) payload_no_homeworks \<and>
    Status (prevReport st) = no_new_statuses \<longrightarrow>
      posts (fst (runBot_iteration cfg e st)) = [] \<and>
      logger_lines (fst (runBot_iteration cfg e st)) = []) \<and>
   (answers e cfg (currentTimestamp st) payload_no_homeworks \<and>
    Status (prevReport st) \<noteq> no_new_statuses \<and>
    NewRequest e ''POST'' (sendMessage_url cfg) = None \<longrightarrow>
      posts (fst (runBot_iteration cfg e st)) = [sendMessage_request cfg no_new_statuses] \<and>
      logger_lines (fst (runBot_iteration cfg e st)) =
        Println no_new_statuses #
        (case snd (sendMessage_b cfg e no_new_statuses) of
           None \<Rightarrow> []
         | Some er \<Rightarrow> [log_output (txt_send_failed @ er)]))"
proof (intro conjI impI)
  assume a: "answers e cfg (timestamp_p0 e (Now_Unix e)) payload_no_homeworks"
  have f: "fetchAPIResponse cfg e lastSentMessage =
       ([HttpDo (api_request cfg (timestamp_p0 e (Now_Unix e))), StdLog (Println txt_api_ok),
         Logger (Println (txt_api_result @ no_new_statuses))],
        Done (lastSentMessage, Some [], None))"
    using a by (rule fetchAPIResponse_empty)
       (simp_all add: current_date_payloads checkResponse_no_homeworks)
  show "bot_sends (fst (fetchAPIResponse cfg e lastSentMessage)) = []"
    "logger_lines (fst (fetchAPIResponse cfg e lastSentMessage)) =
        [Println (txt_api_result @ no_new_statuses)]"
    "snd (fetchAPIResponse cfg e lastSentMessage) = Done (lastSentMessage, Some [], None)"
    by (simp_all add: f)
next
  assume a: "answers e cfg (currentTimestamp st) payload_no_homeworks \<and>
    Status (prevReport st) = no_new_statuses"
  have "runBot_iteration cfg e st =
       ([HttpDo (api_request cfg (currentTimestamp st)), Sleep RetryPeriod],
        Done (st\<lparr>currentTimestamp := 2000,
                 currentReport := \<lparr>Name = [], Status = no_new_statuses\<rparr>\<rparr>))"
    using a runBot_iteration_empty(2) [of e cfg st payload_no_homeworks 2000]
    by (simp add: current_date_payloads checkResponse_no_homeworks)
  then show "posts (fst (runBot_iteration cfg e st)) = []"
    "logger_lines (fst (runBot_iteration cfg e st)) = []"
    by simp_all
next
  assume a: "answers e cfg (currentTimestamp st) payload_no_homeworks \<and>
    Status (prevReport st) \<noteq> no_new_statuses \<and>
    NewRequest e ''POST'' (sendMessage_url cfg) = None"
  let ?st' = "st\<lparr>currentTimestamp := 2000,
                  currentReport := \<lparr>Name = [], Status = no_new_statuses\<rparr>\<rparr>"
  have i: "fst (runBot_iteration cfg e st) =
       [HttpDo (api_request cfg (currentTimestamp st))] @ fst (runBot_notify cfg e ?st')
          @ [Sleep RetryPeriod]"
    using a runBot_iteration_empty(1)
      [of e cfg st payload_no_homeworks 2000]
    by (simp add: current_date_payloads checkResponse_no_homeworks)
  have n: "posts (fst (runBot_notify cfg e ?st')) =
        posts [Logger (Println no_new_statuses)] @ posts (fst (sendMessage_b cfg e no_new_statuses))"
    "logger_lines (fst (runBot_notify cfg e ?st')) =
       logger_lines [Logger (Println no_new_statuses)] @
       (case snd (sendMessage_b cfg e no_new_statuses) of
          None \<Rightarrow> []
        | Some er \<Rightarrow> [log_output (txt_send_failed @ er)])"
    using runBot_notify_success
      [of ?st' "[Logger (Println no_new_statuses)]" no_new_statuses cfg e]
    by (simp_all add: parseStatus_no_new)
  show "posts (fst (runBot_iteration cfg e st)) = [sendMessage_request cfg no_new_statuses]"
    using a by (simp add: i n posts_append posts_sendMessage_b)
  show "logger_lines (fst (runBot_iteration cfg e st)) =
        Println no_new_statuses #
        (case snd (sendMessage_b cfg e no_new_statuses) of
           None \<Rightarrow> []
         | Some er \<Rightarrow> [log_output (txt_send_failed @ er)])"
    by (simp add: i n logger_lines_append)
qed

lemma no_new_statuses_not_empty: "no_new_statuses \<noteq> []"
  by (simp add: no_new_statuses_def)

theorem scenario_no_homeworks_witness:
  "bot_sends (fst (fetchAPIResponse sample_config (world payload_no_homeworks None) [])) = [] \<and>
   logger_lines (fst (fetchAPIResponse sample_config (world payload_no_homeworks None) [])) =
     [Println (txt_api_result @ no_new_statuses)] \<and>
   posts (fst (runBot_iteration sample_config (world payload_no_homeworks None)
                 \<lparr>currentTimestamp = 2000, currentReport = \<lparr>Name = [], Status = no_new_statuses\<rparr>,
                  prevReport = \<lparr>Name = [], Status = no_new_statuses\<rparr>\<rparr>)) = [] \<and>
   posts (fst (runBot_iteration sample_config (world payload_no_homeworks None)
                 (runBot_start (world payload_no_homeworks None)))) =
     [sendMessage_request sample_config no_new_statuses]"
  using
    scenario_no_homeworks
      [of "world payload_no_homeworks None" sample_config "[]"
          "\<lparr>currentTimestamp = 2000, currentReport = \<lparr>Name = [], Status = no_new_statuses\<rparr>,
            prevReport = \<lparr>Name = [], Status = no_new_statuses\<rparr>\<rparr>"]
    scenario_no_homeworks
      [of "world payload_no_homeworks None" sample_config "[]"
          "runBot_start (world payload_no_homeworks None)"]
    answers_world [of payload_no_homeworks None sample_config]
    no_new_statuses_not_empty
  by (simp add: runBot_start_def) (simp add: world_def)

text \<open>
  C4 as stated fails in src/main.go: in its first iteration \<^verbatim>\<open>runBot\<close> posts a notification
  for the payload with no homeworks.
\<close>

theorem scenario_no_homeworks_runBot_counterexample:
  "posts (fst (runBot sample_config (world payload_no_homeworks None)
                 [world payload_no_homeworks None])) =
     [sendMessage_request sample_config no_new_statuses] \<and>
   Body (sendMessage_request sample_config no_new_statuses) =
     Some (txt_body_open @ ''42'' @ txt_body_mid @ no_new_statuses @ txt_body_close)"
proof -
  let ?w = "world payload_no_homeworks None"
  let ?st' = "(runBot_start ?w)\<lparr>currentTimestamp := 2000,
                  currentReport := \<lparr>Name = [], Status = no_new_statuses\<rparr>\<rparr>"
  have s: "Status (prevReport (runBot_start ?w)) \<noteq> no_new_statuses"
    using no_new_statuses_not_empty by (simp add: runBot_start_def)
  have i: "runBot_iteration sample_config ?w (runBot_start ?w) =
       ([HttpDo (api_request sample_config (currentTimestamp (runBot_start ?w)))]
          @ fst (runBot_notify sample_config ?w ?st') @ [Sleep RetryPeriod],
        Done (?st'\<lparr>prevReport := \<lparr>Name = [], Status = no_new_statuses\<rparr>\<rparr>))"
    using runBot_iteration_empty(1)
      [of ?w sample_config "runBot_start ?w" payload_no_homeworks 2000, OF answers_world _ _ s]
    by (simp add: current_date_payloads checkResponse_no_homeworks)
  have n: "posts (fst (runBot_notify sample_config ?w ?st')) =
        posts [Logger (Println no_new_statuses)] @
        posts (fst (sendMessage_b sample_config ?w no_new_statuses))"
    using runBot_notify_success
      [of ?st' "[Logger (Println no_new_statuses)]" no_new_statuses sample_config ?w]
    by (simp add: parseStatus_no_new)
  have p: "NewRequest ?w ''POST'' (sendMessage_url sample_config) = None"
    by (simp add: world_def)
  have "posts (fst (runBot sample_config ?w [?w])) =
      [sendMessage_request sample_config no_new_statuses]"
    by (simp add: runBot_def i n posts_append posts_sendMessage_b p)
  moreover have "Body (sendMessage_request sample_config no_new_statuses) =
      Some (txt_body_open @ ''42'' @ txt_body_mid @ no_new_statuses @ txt_body_close)"
    by (simp add: sendMessage_request_def sendMessage_data_def sample_config_def)
  ultimately show ?thesis ..
qed

section \<open>The last-sent marker\<close>

text \<open>
  \<^verbatim>\<open>fetchAPIResponse\<close> of src/unnamed/part_000 keeps the marker as the poll-state invariant
  says: it hands a message to \<^verbatim>\<open>bot.Send\<close> only if the message differs from
  \<^verbatim>\<open>lastSentMessage\<close>, it changes \<^verbatim>\<open>lastSentMessage\<close> only to a message whose send has just
  succeeded, and on any error it returns, and on a failed send, the marker stays.
\<close>

lemma bot_sends_getAPIAnswer_p0 [simp]: "bot_sends (fst (getAPIAnswer_p0 cfg e t)) = []"
  by (auto simp: getAPIAnswer_p0_def Let_def split: option.splits sum.splits)

lemma bot_sends_parseStatus_p0 [simp]: "bot_sends (fst (parseStatus_p0 h)) = []"
  by (simp add: parseStatus_p0_def Let_def)

lemma fetchAPIResponse_keeps_marker:
  assumes "fetchAPIResponse cfg e lastSent = (ev, Done (lastSent', hws, err))"
  shows "\<forall>c m. (c, m) \<in> set (bot_sends ev) \<longrightarrow> m \<noteq> lastSent"
    and "lastSent' \<noteq> lastSent \<longrightarrow>
           (\<exists>c. bot_sends ev = [(c, lastSent')] \<and> Send e c lastSent' = None)"
    and "(\<exists>c m. bot_sends ev = [(c, m)] \<and> Send e c m \<noteq> None) \<longrightarrow> lastSent' = lastSent"
    and "err \<noteq> None \<longrightarrow> lastSent' = lastSent \<and> bot_sends ev = []"
proof -
  obtain ev1 response err1 where g: "getAPIAnswer_p0 cfg e (Now_Unix e) = (ev1, response, err1)"
    by (cases "getAPIAnswer_p0 cfg e (Now_Unix e)")
  have b1: "bot_sends ev1 = []"
    using bot_sends_getAPIAnswer_p0 [of cfg e "Now_Unix e"] g by simp
  have b2: "bot_sends ev2 = []" if "parseStatus_p0 h = (ev2, m, er)" for h ev2 m er
    using bot_sends_parseStatus_p0 [of h] that by simp
  have all: "(\<forall>c m. (c, m) \<in> set (bot_sends ev) \<longrightarrow> m \<noteq> lastSent) \<and>
    (lastSent' \<noteq> lastSent \<longrightarrow>
           (\<exists>c. bot_sends ev = [(c, lastSent')] \<and> Send e c lastSent' = None)) \<and>
    ((\<exists>c m. bot_sends ev = [(c, m)] \<and> Send e c m \<noteq> None) \<longrightarrow> lastSent' = lastSent) \<and>
    (err \<noteq> None \<longrightarrow> lastSent' = lastSent \<and> bot_sends ev = [])"
    using assms g b1 b2
    by (auto simp: fetchAPIResponse_def sendMessage_def bot_sends_append
        split: option.splits prod.splits list.splits sum.splits if_splits)
  then show "\<forall>c m. (c, m) \<in> set (bot_sends ev) \<longrightarrow> m \<noteq> lastSent"
    and "lastSent' \<noteq> lastSent \<longrightarrow>
           (\<exists>c. bot_sends ev = [(c, lastSent')] \<and> Send e c lastSent' = None)"
    and "(\<exists>c m. bot_sends ev = [(c, m)] \<and> Send e c m \<noteq> None) \<longrightarrow> lastSent' = lastSent"
    and "err \<noteq> None \<longrightarrow> lastSent' = lastSent \<and> bot_sends ev = []"
    by blast+
qed

text \<open>
  So a send that failed is made again at the next call: with the scenario's payload, a first
  call whose send fails and a second whose send succeeds, the message goes out twice and only
  then is the marker set.
\<close>

lemma poll_p0_retries_failed_send:
  "bot_sends (fst (poll_p0 sample_config
      [world payload_hw1_approved (Some ''timeout''), world payload_hw1_approved None] [])) =
     [(42, scenario_message_p0), (42, scenario_message_p0)] \<and>
   snd (poll_p0 sample_config
      [world payload_hw1_approved (Some ''timeout''), world payload_hw1_approved None] []) =
     Done scenario_message_p0"
proof -
  let ?wf = "world payload_hw1_approved (Some ''timeout'')"
  let ?wo = "world payload_hw1_approved None"
  let ?h = "\<lparr>Name = ''hw1'', Status = ''approved'', ReviewerComment = [], LessonName = []\<rparr>"
  have c: "ParseInt ?wf (TelegramChatID sample_config) = Inr 42"
    "Send ?wf 42 scenario_message_p0 = Some ''timeout''"
    "ParseInt ?wo (TelegramChatID sample_config) = Inr 42"
    "Send ?wo 42 scenario_message_p0 = None"
    by (simp_all add: world_def sample_config_def)
  have 1: "fetchAPIResponse sample_config ?wf [] =
      ([HttpDo (api_request sample_config (timestamp_p0 ?wf (Now_Unix ?wf))),
        StdLog (Println txt_api_ok)] @ []
          @ [BotSend 42 scenario_message_p0,
             Logger (log_output (txt_send_failed_tg @ ''timeout''))],
        Done ([], Some [?h], None))"
    using c approved_not_empty answers_world [of payload_hw1_approved "Some ''timeout''" sample_config]
    by (intro fetchAPIResponse_report(3) [where payload = payload_hw1_approved and f = 1000])
       (simp_all add: current_date_payloads checkResponse_hw1 parseStatus_hw1)
  have 2: "fetchAPIResponse sample_config ?wo [] =
      ([HttpDo (api_request sample_config (timestamp_p0 ?wo (Now_Unix ?wo))),
        StdLog (Println txt_api_ok)] @ []
          @ [BotSend 42 scenario_message_p0,
             Logger (log_output (txt_sent_tg @ scenario_message_p0))],
        Done (scenario_message_p0, Some [?h], None))"
    using c approved_not_empty answers_world [of payload_hw1_approved None sample_config]
    by (intro fetchAPIResponse_report(2) [where payload = payload_hw1_approved and f = 1000])
       (simp_all add: current_date_payloads checkResponse_hw1 parseStatus_hw1)
  show ?thesis
    by (simp add: 1 2)
qed

text \<open>\<^verbatim>\<open>runBot\<close> of src/main.go when the record does not translate.\<close>

lemma runBot_notify_failure:
  "parseStatus (currentReport st) = (ev, message, Some er) \<Longrightarrow>
   posts (fst (runBot_notify cfg e st)) = posts ev"
  by (simp add: runBot_notify_def posts_append)

lemma checkResponse_bogus:
  "checkResponse payload_bogus = (Some [\<lparr>Name = ''hw1'', Status = ''bogus''\<rparr>], None)"
  by (simp add: checkResponse_def payload_bogus_def)

lemma parseStatus_bogus:
  "parseStatus \<lparr>Name = ''hw1'', Status = ''bogus''\<rparr> =
     ([Logger (log_output (txt_parse_status_failed @ txt_unknown_status @ ''bogus''))], [],
      Some (txt_unknown_status @ ''bogus''))"
  using parseStatus_unknown [of "\<lparr>Name = ''hw1'', Status = ''bogus''\<rparr>"] bogus_unknown
  by simp

text \<open>
  C1 fails in \<^verbatim>\<open>runBot\<close> of src/main.go, which assigns \<^verbatim>\<open>prevReport = currentReport\<close> after the
  \<^verbatim>\<open>if\<close> on the error, whatever happened. With the scenario's payload and a send that fails, the
  marker holds the record after the first iteration, and a second iteration in a world where
  sending works posts nothing: the change is never notified again. With a status that does not
  translate between two iterations on the scenario's payload, the marker takes the record that
  was not sent, and the message that had been sent with success is posted a second time.
\<close>

theorem runBot_marker_moves_without_success:
  "snd (sendMessage_b sample_config (world payload_hw1_approved (Some ''timeout''))
          scenario_message) = Some ''timeout'' \<and>
   snd (runBot sample_config (world payload_hw1_approved None)
          [world payload_hw1_approved (Some ''timeout'')]) =
     Done \<lparr>currentTimestamp = 1000, currentReport = hw1_approved, prevReport = hw1_approved\<rparr> \<and>
   posts (fst (runBot sample_config (world payload_hw1_approved None)
                 [world payload_hw1_approved (Some ''timeout''), world payload_hw1_approved None])) =
     [sendMessage_request sample_config scenario_message] \<and>
   snd (runBot sample_config (world payload_hw1_approved None)
          [world payload_hw1_approved None, world payload_bogus None]) =
     Done \<lparr>currentTimestamp = 1000, currentReport = \<lparr>Name = ''hw1'', Status = ''bogus''\<rparr>,
           prevReport = \<lparr>Name = ''hw1'', Status = ''bogus''\<rparr>\<rparr> \<and>
   posts (fst (runBot sample_config (world payload_hw1_approved None)
                 [world payload_hw1_approved None, world payload_bogus None,
                  world payload_hw1_approved None])) =
     [sendMessage_request sample_config scenario_message,
      sendMessage_request sample_config scenario_message]"
proof -
  let ?cfg = sample_config
  let ?wf = "world payload_hw1_approved (Some ''timeout'')"
  let ?wo = "world payload_hw1_approved None"
  let ?wb = "world payload_bogus None"
  let ?bogus = "\<lparr>Name = ''hw1'', Status = ''bogus''\<rparr>"
  let ?st0 = "runBot_start ?wo"
  let ?st1 = "\<lparr>currentTimestamp = 1000, currentReport = hw1_approved, prevReport = hw1_approved\<rparr>"
  let ?st2 = "\<lparr>currentTimestamp = 1000, currentReport = ?bogus, prevReport = ?bogus\<rparr>"
  have post: "NewRequest w ''POST'' (sendMessage_url ?cfg) = None"
    if "w = world payload sending" for w payload sending
    using that by (simp add: world_def)
  have send_fails: "snd (sendMessage_b ?cfg ?wf scenario_message) = Some ''timeout''"
    by (simp add: sendMessage_b_def world_def sendMessage_request_def)
  have first: "runBot_iteration ?cfg w ?st0 =
      ([HttpDo (api_request ?cfg (currentTimestamp ?st0))]
         @ fst (runBot_notify ?cfg w (?st0\<lparr>currentTimestamp := 1000, currentReport := hw1_approved\<rparr>))
         @ [Sleep RetryPeriod], Done ?st1)"
    if "w = world payload_hw1_approved sending" for w sending
    using runBot_iteration_new_status
      [of w ?cfg ?st0 payload_hw1_approved 1000 hw1_approved "[]"] answers_world that
    by (simp add: current_date_payloads checkResponse_hw1)
       (simp add: runBot_start_def hw1_approved_def)
  have first_posts: "posts (fst (runBot_iteration ?cfg w ?st0)) =
      [sendMessage_request ?cfg scenario_message]"
    if "w = world payload_hw1_approved sending" for w sending
    using runBot_notify_success
      [of "?st0\<lparr>currentTimestamp := 1000, currentReport := hw1_approved\<rparr>" "[]"
          scenario_message ?cfg w] post [OF that]
    by (simp add: first [OF that] posts_append parseStatus_hw1 posts_sendMessage_b)
  have same: "runBot_iteration ?cfg ?wo ?st1 =
      ([HttpDo (api_request ?cfg (currentTimestamp ?st1)), Sleep RetryPeriod], Done ?st1)"
    using runBot_iteration_same_status
      [of ?wo ?cfg ?st1 payload_hw1_approved 1000 hw1_approved "[]"] answers_world
    by (simp add: current_date_payloads checkResponse_hw1)
  have bogus: "runBot_iteration ?cfg ?wb ?st1 =
      ([HttpDo (api_request ?cfg (currentTimestamp ?st1))]
         @ fst (runBot_notify ?cfg ?wb (?st1\<lparr>currentTimestamp := 1000, currentReport := ?bogus\<rparr>))
         @ [Sleep RetryPeriod], Done ?st2)"
    using runBot_iteration_new_status
      [of ?wb ?cfg ?st1 payload_bogus 1000 ?bogus "[]"] answers_world
    by (simp add: current_date_payloads checkResponse_bogus hw1_approved_def)
  have bogus_posts: "posts (fst (runBot_iteration ?cfg ?wb ?st1)) = []"
    using runBot_notify_failure
      [of "?st1\<lparr>currentTimestamp := 1000, currentReport := ?bogus\<rparr>" _ "[]" _ ?cfg ?wb]
    by (simp add: bogus posts_append parseStatus_bogus)
  have again: "runBot_iteration ?cfg ?wo ?st2 =
      ([HttpDo (api_request ?cfg (currentTimestamp ?st2))]
         @ fst (runBot_notify ?cfg ?wo (?st2\<lparr>currentTimestamp := 1000, currentReport := hw1_approved\<rparr>))
         @ [Sleep RetryPeriod], Done ?st1)"
    using runBot_iteration_new_status
      [of ?wo ?cfg ?st2 payload_hw1_approved 1000 hw1_approved "[]"] answers_world
    by (simp add: current_date_payloads checkResponse_hw1 hw1_approved_def)
  have again_posts: "posts (fst (runBot_iteration ?cfg ?wo ?st2)) =
      [sendMessage_request ?cfg scenario_message]"
    using runBot_notify_success
      [of "?st2\<lparr>currentTimestamp := 1000, currentReport := hw1_approved\<rparr>" "[]"
          scenario_message ?cfg ?wo] post [of ?wo]
    by (simp add: again posts_append parseStatus_hw1 posts_sendMessage_b)
  have r1: "snd (runBot ?cfg ?wo [?wf]) = Done ?st1"
    using first [of ?wf] by (simp add: runBot_def)
  have r2: "posts (fst (runBot ?cfg ?wo [?wf, ?wo])) = [sendMessage_request ?cfg scenario_message]"
    using first [of ?wf] first_posts [of ?wf] same
    by (simp add: runBot_def posts_append)
  have r3: "snd (runBot ?cfg ?wo [?wo, ?wb]) = Done ?st2"
    using first [of ?wo] bogus by (simp add: runBot_def)
  have r4: "posts (fst (runBot ?cfg ?wo [?wo, ?wb, ?wo])) =
      [sendMessage_request ?cfg scenario_message, sendMessage_request ?cfg scenario_message]"
    using first [of ?wo] first_posts [of ?wo] bogus bogus_posts again again_posts
    by (simp add: runBot_def posts_append)
  from send_fails r1 r2 r3 r4 show ?thesis by blast
qed

end
